theory Spec2Isabelle
  imports Complex_Main "HOL-Library.Word"
begin

section \<open>Strings, bytes and base64\<close>

text \<open>
  A JavaScript string is modelled by an Isabelle \<open>string\<close>. The strings the relay handles
  here (secrets, HTTP methods, paths, decimal timestamps, addresses, header values) are
  ASCII, where the UTF-8 encoding of a string is one byte per character.
\<close>

type_synonym byte = "8 word"

definition utf8 :: "string \<Rightarrow> byte list" where
  "utf8 s = map (\<lambda>c. word_of_nat (of_char c)) s"

text \<open>\<open>String.prototype.toLowerCase\<close> on ASCII: only \<open>A\<close>..\<open>Z\<close> change.\<close>

definition lower_char :: "char \<Rightarrow> char" where
  "lower_char c =
     (case map_of (zip ''ABCDEFGHIJKLMNOPQRSTUVWXYZ'' ''abcdefghijklmnopqrstuvwxyz'') c of
        Some l \<Rightarrow> l
      | None \<Rightarrow> c)"

definition toLowerCase :: "string \<Rightarrow> string" where
  "toLowerCase s = map lower_char s"

text \<open>\<open>s.replace(/a/g, b)\<close> for single characters \<open>a\<close> and \<open>b\<close>.\<close>

definition replace_all :: "char \<Rightarrow> char \<Rightarrow> string \<Rightarrow> string" where
  "replace_all a b s = map (\<lambda>c. if c = a then b else c) s"

text \<open>Decimal rendering of an integer, as a template literal or \<open>String(n)\<close> gives it.\<close>

definition digit_char :: "nat \<Rightarrow> char" where
  "digit_char d = ''0123456789'' ! d"

fun decimal :: "nat \<Rightarrow> string" where
  "decimal n = (if n < 10 then [digit_char n] else decimal (n div 10) @ [digit_char (n mod 10)])"

declare decimal.simps [simp del]

definition show_int :: "int \<Rightarrow> string" where
  "show_int i = (if i < 0 then CHR ''-'' # decimal (nat (- i)) else decimal (nat i))"

text \<open>The standard base64 alphabet, and the digest encoding \<open>digest("base64")\<close> of Node.\<close>

definition b64_alphabet :: string where
  "b64_alphabet = ''ABCDEFGHIJKLMNOPQRSTUVWXYZabcdefghijklmnopqrstuvwxyz0123456789+/''"

definition b64_char :: "nat \<Rightarrow> char" where
  "b64_char n = b64_alphabet ! (n mod 64)"

fun base64_encode :: "byte list \<Rightarrow> string" where
  "base64_encode (a # b # c # rest) =
     [b64_char (unat a div 4),
      b64_char ((unat a mod 4) * 16 + unat b div 16),
      b64_char ((unat b mod 16) * 4 + unat c div 64),
      b64_char (unat c mod 64)] @ base64_encode rest"
| "base64_encode [a, b] =
     [b64_char (unat a div 4),
      b64_char ((unat a mod 4) * 16 + unat b div 16),
      b64_char ((unat b mod 16) * 4),
      CHR ''='']"
| "base64_encode [a] =
     [b64_char (unat a div 4), b64_char ((unat a mod 4) * 16), CHR ''='', CHR ''='']"
| "base64_encode [] = []"

text \<open>
  \<open>Buffer.from(s, "base64")\<close> on a string that passed \<open>isB64\<close>: the characters before the
  padding are read as 6-bit digits; four digits give three bytes, a trailing group of
  three gives two bytes, of two gives one byte, and a single trailing digit is dropped.
\<close>

definition is_b64_char :: "char \<Rightarrow> bool" where
  "is_b64_char c = (c \<in> set b64_alphabet)"

fun index_of :: "'a \<Rightarrow> 'a list \<Rightarrow> nat" where
  "index_of x [] = 0"
| "index_of x (y # ys) = (if x = y then 0 else Suc (index_of x ys))"

definition b64_digit :: "char \<Rightarrow> nat" where
  "b64_digit c = index_of c b64_alphabet"

fun digits_to_bytes :: "nat list \<Rightarrow> byte list" where
  "digits_to_bytes (a # b # c # d # rest) =
     [word_of_nat (a * 4 + b div 16),
      word_of_nat ((b mod 16) * 16 + c div 4),
      word_of_nat ((c mod 4) * 64 + d)] @ digits_to_bytes rest"
| "digits_to_bytes [a, b, c] =
     [word_of_nat (a * 4 + b div 16), word_of_nat ((b mod 16) * 16 + c div 4)]"
| "digits_to_bytes [a, b] = [word_of_nat (a * 4 + b div 16)]"
| "digits_to_bytes _ = []"

definition base64_decode :: "string \<Rightarrow> byte list" where
  "base64_decode s = digits_to_bytes (map b64_digit (takeWhile is_b64_char s))"

section \<open>Signature engine (utils/hmac.js)\<close>

text \<open>
  HMAC-SHA256 comes from Node's \<open>crypto\<close> module; the functions below take it as the
  parameter \<open>H\<close>, from key bytes and message bytes to the 32 digest bytes.
\<close>

type_synonym hmac = "byte list \<Rightarrow> byte list \<Rightarrow> byte list"

definition normalizedSecret :: "string \<Rightarrow> string" where
  "normalizedSecret secret = replace_all (CHR ''_'') (CHR ''/'') (replace_all (CHR ''-'') (CHR ''+'') secret)"

text \<open>
  \<open>crypto.createHmac("sha256", normalizedSecret)\<close> with a string key uses the UTF-8 bytes
  of that string as the key.
\<close>

definition hmacBase64_key :: "string \<Rightarrow> byte list" where
  "hmacBase64_key secret = utf8 (normalizedSecret secret)"

definition hmacBase64 :: "hmac \<Rightarrow> string \<Rightarrow> string \<Rightarrow> string" where
  "hmacBase64 H secret message = base64_encode (H (hmacBase64_key secret) (utf8 message))"

text \<open>The \<open>body\<close> parameter defaults to the empty string when the caller leaves it out.\<close>

definition generateSignature :: "hmac \<Rightarrow> string \<Rightarrow> string \<Rightarrow> string \<Rightarrow> int \<Rightarrow> string option \<Rightarrow> string" where
  "generateSignature H secret method path timestamp body =
     (let preimage = method @ path @ show_int timestamp @ (case body of None \<Rightarrow> [] | Some b \<Rightarrow> b)
      in hmacBase64 H secret preimage)"

section \<open>Signing in the standalone relay (server.js)\<close>

text \<open>\<open>isB64\<close> tests the regular expression \<open>^[A-Za-z0-9+/]+={0,2}$\<close>.\<close>

definition isB64 :: "string \<Rightarrow> bool" where
  "isB64 s =
     (let pad = dropWhile is_b64_char s
      in takeWhile is_b64_char s \<noteq> [] \<and> (pad = [] \<or> pad = ''='' \<or> pad = ''==''))"

definition hmacB64_key :: "string \<Rightarrow> byte list" where
  "hmacB64_key secret = (if isB64 secret then base64_decode secret else utf8 secret)"

definition hmacB64 :: "hmac \<Rightarrow> string \<Rightarrow> string \<Rightarrow> string" where
  "hmacB64 H secret pre = base64_encode (H (hmacB64_key secret) (utf8 pre))"

section \<open>JSON values and HTTP exchanges\<close>

text \<open>
  A parsed JSON value. \<open>undefined\<close> is \<open>None\<close> in \<open>json option\<close>. Numbers carry their
  value; the relay only tests them against zero.
\<close>

datatype json =
    JNull
  | JBool bool
  | JNum rat
  | JStr string
  | JArr "json list"
  | JObj "(string \<times> json) list"

text \<open>JavaScript truthiness, as \<open>!v\<close>, \<open>a && b\<close> and \<open>a || b\<close> test it.\<close>

fun truthy :: "json \<Rightarrow> bool" where
  "truthy JNull = False"
| "truthy (JBool b) = b"
| "truthy (JNum n) = (n \<noteq> 0)"
| "truthy (JStr s) = (s \<noteq> [])"
| "truthy (JArr xs) = True"
| "truthy (JObj fs) = True"

definition truthy_opt :: "json option \<Rightarrow> bool" where
  "truthy_opt v = (case v of None \<Rightarrow> False | Some j \<Rightarrow> truthy j)"

text \<open>
  Reading a property \<open>v.name\<close>. On \<open>null\<close> the read raises a TypeError (\<open>Inl\<close> with its
  message). The names the relay reads (\<open>error\<close>, \<open>message\<close>, \<open>orderID\<close>, \<open>closedOnly\<close>,
  \<open>key\<close>, \<open>secret\<close>, \<open>passphrase\<close>) are not built-in properties of strings, numbers,
  booleans or arrays, so the read gives \<open>undefined\<close> there. An object holds each property
  once.
\<close>

fun get_prop :: "json \<Rightarrow> string \<Rightarrow> string + json option" where
  "get_prop JNull name = Inl (''Cannot read properties of null (reading '' @ [CHR 0x27] @ name @ [CHR 0x27] @ '')'')"
| "get_prop (JObj fs) name = Inr (map_of fs name)"
| "get_prop v name = Inr None"

text \<open>Optional chaining \<open>v?.name\<close>, where \<open>v\<close> may be \<open>undefined\<close> or \<open>null\<close>.\<close>

fun opt_prop :: "json option \<Rightarrow> string \<Rightarrow> json option" where
  "opt_prop None name = None"
| "opt_prop (Some (JObj fs)) name = map_of fs name"
| "opt_prop (Some v) name = None"

record request =
  req_url :: string
  req_method :: string
  req_headers :: "(string \<times> string) list"
  req_body :: "string option"

text \<open>
  What one \<open>fetch\<close> gives: the call rejects (\<open>Threw\<close> with the error's message), or a
  response arrives with a status and a body whose reading gives the text (\<open>Inr\<close>) or fails
  (\<open>Inl\<close> with the message).
\<close>

datatype outcome = Threw string | Resp nat "string + string"

definition http_ok :: "nat \<Rightarrow> bool" where
  "http_ok st = (200 \<le> st \<and> st \<le> 299)"

text \<open>
  The world outside the relay: the clock reading \<open>Date.now()\<close> and the exchange's answer,
  each depending on how many requests the relay has sent before. The requests sent are
  logged in order.
\<close>

record world =
  now_at :: "nat \<Rightarrow> int"
  respond :: "nat \<Rightarrow> request \<Rightarrow> outcome"

text \<open>
  Node's library functions used by the relay: \<open>JSON.parse\<close> (\<open>None\<close> when it raises a
  SyntaxError), \<open>JSON.stringify\<close>, \<open>String\<close>, HMAC-SHA256, and \<open>Buffer.from\<close> on a value
  that is not a string (\<open>Inl\<close> with the message of its TypeError, \<open>Inr\<close> with the bytes of
  the buffer; the encoding argument plays no part there).
\<close>

record runtime =
  json_parse :: "string \<Rightarrow> json option"
  json_stringify :: "json \<Rightarrow> string"
  js_String :: "json \<Rightarrow> string"
  hmac_sha256 :: hmac
  buffer_from :: "json \<Rightarrow> string + byte list"

section \<open>Trade executor (utils/polymarket.js)\<close>

definition CLOB_BASE_URL :: string where
  "CLOB_BASE_URL = ''https://clob.polymarket.com''"

definition getBrowserHeaders :: "string \<Rightarrow> string \<Rightarrow> string \<Rightarrow> int \<Rightarrow> string \<Rightarrow> (string \<times> string) list" where
  "getBrowserHeaders address apiKey pass timestamp signature =
     [(''Accept'', ''application/json''),
      (''Accept-Encoding'', ''gzip, deflate, br''),
      (''Accept-Language'', ''en-US,en;q=0.9''),
      (''Content-Type'', ''application/json''),
      (''Origin'', ''https://polymarket.com''),
      (''Referer'', ''https://polymarket.com/''),
      (''User-Agent'', ''Mozilla/5.0 (Macintosh; Intel Mac OS X 10_15_7) AppleWebKit/537.36 (KHTML, like Gecko) Chrome/120.0.0.0 Safari/537.36''),
      (''sec-ch-ua'', [CHR 0x22] @ ''Not_A Brand'' @ [CHR 0x22] @ '';v='' @ [CHR 0x22] @ ''8'' @ [CHR 0x22] @ '', ''
                     @ [CHR 0x22] @ ''Chromium'' @ [CHR 0x22] @ '';v='' @ [CHR 0x22] @ ''120'' @ [CHR 0x22]),
      (''sec-ch-ua-mobile'', ''?0''),
      (''sec-ch-ua-platform'', [CHR 0x22] @ ''macOS'' @ [CHR 0x22]),
      (''sec-fetch-dest'', ''empty''),
      (''sec-fetch-mode'', ''cors''),
      (''sec-fetch-site'', ''same-site''),
      (''POLY_ADDRESS'', address),
      (''POLY_API_KEY'', apiKey),
      (''POLY_PASSPHRASE'', pass),
      (''POLY_TIMESTAMP'', show_int timestamp),
      (''POLY_SIGNATURE'', signature)]"

text \<open>The object \<open>attemptTrade\<close> returns; \<open>data\<close> and \<open>error\<close> may be \<open>undefined\<close>.\<close>

record attempt =
  a_success :: bool
  a_data :: "json option"
  a_error :: "json option"
  a_status :: nat

text \<open>The \<open>catch\<close> branch of \<open>attemptTrade\<close>.\<close>

definition attempt_caught :: "string \<Rightarrow> attempt" where
  "attempt_caught msg = \<lparr>a_success = False, a_data = None, a_error = Some (JStr msg), a_status = 500\<rparr>"

text \<open>\<open>data.error || data.message || responseText\<close>; the first read raises on \<open>null\<close>.\<close>

definition failure_text :: "json \<Rightarrow> string \<Rightarrow> string + json" where
  "failure_text d responseText =
     (case get_prop d ''error'' of
        Inl msg \<Rightarrow> Inl msg
      | Inr e \<Rightarrow>
          if truthy_opt e then Inr (the e)
          else (case get_prop d ''message'' of
                  Inl msg \<Rightarrow> Inl msg
                | Inr m \<Rightarrow> if truthy_opt m then Inr (the m) else Inr (JStr responseText)))"

definition order_request :: "runtime \<Rightarrow> int \<Rightarrow> string \<Rightarrow> string \<Rightarrow> string \<Rightarrow> string \<Rightarrow> json \<Rightarrow> request" where
  "order_request rt now address apiKey sec pass signedOrder =
     (let timestamp = now div 1000;
          body = json_stringify rt signedOrder;
          signature = generateSignature (hmac_sha256 rt) sec ''POST'' ''/order'' timestamp (Some body);
          headers = getBrowserHeaders address apiKey pass timestamp signature
      in \<lparr>req_url = CLOB_BASE_URL @ ''/order'', req_method = ''POST'',
          req_headers = headers, req_body = Some body\<rparr>)"

definition attemptTrade ::
  "runtime \<Rightarrow> world \<Rightarrow> request list \<Rightarrow> string \<Rightarrow> string \<Rightarrow> string \<Rightarrow> string \<Rightarrow> json
     \<Rightarrow> attempt \<times> request list" where
  "attemptTrade rt w sent address apiKey sec pass signedOrder =
     (let req = order_request rt (now_at w (length sent)) address apiKey sec pass signedOrder
      in (case respond w (length sent) req of
            Threw msg \<Rightarrow> attempt_caught msg
          | Resp st (Inl msg) \<Rightarrow> attempt_caught msg
          | Resp st (Inr responseText) \<Rightarrow>
              (let d = (case json_parse rt responseText of
                          Some j \<Rightarrow> j
                        | None \<Rightarrow> JObj [(''raw'', JStr responseText)])
               in if http_ok st
                  then \<lparr>a_success = True, a_data = Some d, a_error = None, a_status = st\<rparr>
                  else (case failure_text d responseText of
                          Inl msg \<Rightarrow> attempt_caught msg
                        | Inr e \<Rightarrow> \<lparr>a_success = False, a_data = Some d, a_error = Some e, a_status = st\<rparr>)),
          sent @ [req]))"

record credentials =
  api_key :: string
  secret :: string
  passphrase :: string

text \<open>The object \<open>executeTrade\<close> returns.\<close>

record trade_result =
  success :: bool
  orderId :: "json option"
  error :: "json option"
  status :: "nat option"
  attemptedWith :: string

text \<open>
  The condition of the retry: \<open>result.status === 403 && funderAddress &&
  funderAddress.toLowerCase() !== ownerAddress.toLowerCase()\<close>. An absent funder address
  is \<open>None\<close>; the empty string is falsy as well.
\<close>

definition retry_with_funder :: "attempt \<Rightarrow> string \<Rightarrow> string option \<Rightarrow> bool" where
  "retry_with_funder result ownerAddress funderAddress =
     (a_status result = 403 \<and>
      (case funderAddress of
         None \<Rightarrow> False
       | Some f \<Rightarrow> f \<noteq> [] \<and> toLowerCase f \<noteq> toLowerCase ownerAddress))"

definition trade_outcome :: "attempt \<Rightarrow> string \<Rightarrow> trade_result" where
  "trade_outcome result used =
     (if a_success result \<and> truthy_opt (opt_prop (a_data result) ''orderID'')
      then \<lparr>success = True, orderId = opt_prop (a_data result) ''orderID'', error = None,
            status = None, attemptedWith = used\<rparr>
      else \<lparr>success = False, orderId = None,
            error = (if truthy_opt (a_error result) then a_error result else Some (JStr ''Trade failed'')),
            status = Some (a_status result), attemptedWith = used\<rparr>)"

definition executeTrade ::
  "runtime \<Rightarrow> world \<Rightarrow> request list \<Rightarrow> credentials \<Rightarrow> json \<Rightarrow> string \<Rightarrow> string option
     \<Rightarrow> trade_result \<times> request list" where
  "executeTrade rt w sent creds signedOrder ownerAddress funderAddress =
     (let (result, sent1) =
            attemptTrade rt w sent ownerAddress (api_key creds) (secret creds) (passphrase creds) signedOrder
      in if retry_with_funder result ownerAddress funderAddress
         then (let (result2, sent2) =
                     attemptTrade rt w sent1 (the funderAddress) (api_key creds) (secret creds)
                       (passphrase creds) signedOrder
               in (trade_outcome result2 ''funder'', sent2))
         else (trade_outcome result ''owner'', sent1))"


definition status_request :: "runtime \<Rightarrow> int \<Rightarrow> string \<Rightarrow> string \<Rightarrow> string \<Rightarrow> string \<Rightarrow> request" where
  "status_request rt now address apiKey sec pass =
     (let timestamp = now div 1000;
          signature = generateSignature (hmac_sha256 rt) sec ''GET'' ''/auth/ban-status/closed-only'' timestamp None;
          headers = filter (\<lambda>h. fst h \<noteq> ''Content-Type'')
                      (getBrowserHeaders address apiKey pass timestamp signature)
      in \<lparr>req_url = CLOB_BASE_URL @ ''/auth/ban-status/closed-only'', req_method = ''GET'',
          req_headers = headers, req_body = None\<rparr>)"



section \<open>Authentication and rate limiting (middleware/auth.js)\<close>

text \<open>
  What an Express middleware does with a request: it replies with a status and a JSON
  payload, or it calls \<open>next()\<close>, possibly after setting response headers.
\<close>

datatype verdict = Reply nat json | Next "(string \<times> json) list"

text \<open>The process environment read by the middleware; an unset variable is \<open>None\<close>.\<close>

record auth_env =
  API_SECRET_KEY :: "string option"
  NODE_ENV :: "string option"

definition API_SECRET :: "auth_env \<Rightarrow> string" where
  "API_SECRET env =
     (case API_SECRET_KEY env of
        None \<Rightarrow> ''dev-secret-key-change-in-production''
      | Some k \<Rightarrow> if k = [] then ''dev-secret-key-change-in-production'' else k)"

text \<open>
  The class \<open>\s\<close> on the characters a header value can hold (one byte each): tab, line
  feed, vertical tab, form feed, carriage return, space and the no-break space U+00A0.
\<close>

definition is_space :: "char \<Rightarrow> bool" where
  "is_space c = (c \<in> set [CHR 0x09, CHR 0x0A, CHR 0x0B, CHR 0x0C, CHR 0x0D, CHR 0x20, CHR 0xA0])"

text \<open>
  \<open>authHeader.replace(/^Bearer\s+/i, "")\<close>: a leading \<open>Bearer\<close> in any letter case,
  followed by at least one space character, is removed together with all the space
  characters after it.
\<close>

definition bearer_token :: "string \<Rightarrow> string" where
  "bearer_token authHeader =
     (if toLowerCase (take 6 authHeader) = ''bearer'' \<and> takeWhile is_space (drop 6 authHeader) \<noteq> []
      then dropWhile is_space (drop 6 authHeader)
      else authHeader)"

definition authenticateRequest :: "auth_env \<Rightarrow> string option \<Rightarrow> verdict" where
  "authenticateRequest env authorization =
     (case authorization of
        None \<Rightarrow> Reply 401 (JObj [(''error'', JStr ''Missing authorization header'')])
      | Some authHeader \<Rightarrow>
          if authHeader = [] then Reply 401 (JObj [(''error'', JStr ''Missing authorization header'')])
          else (let token = bearer_token authHeader
                in if NODE_ENV env = Some ''production''
                      \<and> token \<noteq> API_SECRET env \<and> CHR ''.'' \<notin> set token
                   then Reply 403 (JObj [(''error'', JStr ''Invalid API key'')])
                   else Next []))"

definition RATE_LIMIT_WINDOW :: int where
  "RATE_LIMIT_WINDOW = 60 * 1000"

definition RATE_LIMIT_MAX_REQUESTS :: nat where
  "RATE_LIMIT_MAX_REQUESTS = 10"

text \<open>\<open>rateLimitMap\<close>: from the key of a user to the timestamps (milliseconds) of its requests.\<close>

type_synonym rate_map = "string \<rightharpoonup> int list"

definition userKey :: "string \<Rightarrow> string" where
  "userKey userId = ''ratelimit:'' @ userId"

text \<open>The filter \<open>now - timestamp < RATE_LIMIT_WINDOW\<close>.\<close>

definition in_window :: "int \<Rightarrow> int \<Rightarrow> bool" where
  "in_window now timestamp = (now - timestamp < RATE_LIMIT_WINDOW)"

text \<open>\<open>rateLimitMap.get(userKey) || []\<close>.\<close>

definition stored_requests :: "rate_map \<Rightarrow> string \<Rightarrow> int list" where
  "stored_requests m u = (case m (userKey u) of None \<Rightarrow> [] | Some rs \<Rightarrow> rs)"

text \<open>\<open>Math.ceil(x / 1000)\<close> on an integer \<open>x\<close>.\<close>

definition ceil_thousandth :: "int \<Rightarrow> int" where
  "ceil_thousandth x = - ((- x) div 1000)"

definition limit_payload :: "int \<Rightarrow> json" where
  "limit_payload retryAfter =
     JObj [(''error'', JStr ''Rate limit exceeded''),
           (''retryAfter'', JNum (of_int retryAfter)),
           (''limit'', JNum (of_nat RATE_LIMIT_MAX_REQUESTS)),
           (''window'', JNum (of_int (RATE_LIMIT_WINDOW div 1000)))]"

text \<open>
  \<open>rateLimiter\<close> reads the clock once (\<open>now\<close>). In the 429 branch \<open>requests[0]\<close> exists, the
  list holding at least \<open>RATE_LIMIT_MAX_REQUESTS\<close> entries. The reset header is the
  instant \<open>now + RATE_LIMIT_WINDOW\<close>, which the code renders as an ISO date.
\<close>

definition rateLimiter :: "int \<Rightarrow> string option \<Rightarrow> rate_map \<Rightarrow> verdict \<times> rate_map" where
  "rateLimiter now userId m =
     (case userId of
        None \<Rightarrow> (Reply 400 (JObj [(''error'', JStr ''Missing userId for rate limiting'')]), m)
      | Some u \<Rightarrow>
          if u = [] then (Reply 400 (JObj [(''error'', JStr ''Missing userId for rate limiting'')]), m)
          else (let requests = filter (in_window now) (stored_requests m u)
                in if RATE_LIMIT_MAX_REQUESTS \<le> length requests
                   then (let oldestRequest = hd requests;
                             retryAfter = ceil_thousandth (RATE_LIMIT_WINDOW - (now - oldestRequest))
                         in (Reply 429 (limit_payload retryAfter), m))
                   else (let requests' = requests @ [now]
                         in (Next [(''X-RateLimit-Limit'', JNum (of_nat RATE_LIMIT_MAX_REQUESTS)),
                                   (''X-RateLimit-Remaining'',
                                      JNum (of_nat RATE_LIMIT_MAX_REQUESTS - of_nat (length requests'))),
                                   (''X-RateLimit-Reset'', JNum (of_int (now + RATE_LIMIT_WINDOW)))],
                             m(userKey u \<mapsto> requests')))))"

text \<open>The periodic clean-up installed with \<open>setInterval\<close>, run at the instant \<open>now\<close>.\<close>

definition cleanup :: "int \<Rightarrow> rate_map \<Rightarrow> rate_map" where
  "cleanup now m =
     (\<lambda>k. case m k of
             None \<Rightarrow> None
           | Some requests \<Rightarrow>
               (let validRequests = filter (in_window now) requests
                in if validRequests = [] then None else Some validRequests))"

text \<open>
  Histories of the limiter: a request of a user, or a run of the clean-up, each at the
  instant the clock shows.
\<close>

datatype event = Request int string | Cleanup int

fun event_time :: "event \<Rightarrow> int" where
  "event_time (Request t u) = t"
| "event_time (Cleanup t) = t"

fun step :: "rate_map \<Rightarrow> event \<Rightarrow> rate_map" where
  "step m (Request t u) = snd (rateLimiter t (Some u) m)"
| "step m (Cleanup t) = cleanup t m"

definition run :: "event list \<Rightarrow> rate_map" where
  "run evs = foldl step Map.empty evs"

definition admitted :: "int \<Rightarrow> string \<Rightarrow> rate_map \<Rightarrow> bool" where
  "admitted now u m = (case fst (rateLimiter now (Some u) m) of Next hs \<Rightarrow> True | Reply c p \<Rightarrow> False)"

text \<open>The instants of the requests of user \<open>u\<close> that a history admitted, oldest first.\<close>

fun admitted_times :: "string \<Rightarrow> rate_map \<Rightarrow> event list \<Rightarrow> int list" where
  "admitted_times u m [] = []"
| "admitted_times u m (e # evs) =
     (case e of
        Request t v \<Rightarrow> (if v = u \<and> admitted t u m then [t] else [])
      | Cleanup t \<Rightarrow> []) @ admitted_times u (step m e) evs"

text \<open>Successive requests of one user at the given instants: are all of them admitted?\<close>

fun admits_all :: "string \<Rightarrow> int list \<Rightarrow> rate_map \<Rightarrow> bool" where
  "admits_all u [] m = True"
| "admits_all u (t # ts) m = (admitted t u m \<and> admits_all u ts (snd (rateLimiter t (Some u) m)))"

text \<open>Successive requests of one user, with the verdicts and the map they leave.\<close>

fun attempts :: "string \<Rightarrow> int list \<Rightarrow> rate_map \<Rightarrow> verdict list \<times> rate_map" where
  "attempts u [] m = ([], m)"
| "attempts u (t # ts) m =
     (let (v, m') = rateLimiter t (Some u) m; (vs, m'') = attempts u ts m' in (v # vs, m''))"

fun is_429 :: "verdict \<Rightarrow> bool" where
  "is_429 (Reply c p) = (c = 429)"
| "is_429 (Next hs) = False"

text \<open>The invariant of the map: no user holds more timestamps than the limit.\<close>

definition bounded :: "rate_map \<Rightarrow> bool" where
  "bounded m = (\<forall>k rs. m k = Some rs \<longrightarrow> length rs \<le> RATE_LIMIT_MAX_REQUESTS)"

section \<open>The standalone relay (server.js)\<close>

text \<open>The configuration read from the process environment.\<close>

record config =
  ENV :: string
  RELAY_KEY :: string

text \<open>One stored credential tuple \<open>{ key, secret, pass, owner }\<close>, and the \<open>STORE\<close> map.\<close>

record row =
  row_key :: string
  row_secret :: string
  row_pass :: string
  row_owner :: string

type_synonym store = "string \<rightharpoonup> row"

definition rowKey :: "config \<Rightarrow> string \<Rightarrow> string" where
  "rowKey cfg eoa = ''polymarket:'' @ ENV cfg @ '':'' @ toLowerCase eoa"

definition tsSec :: "int \<Rightarrow> string" where
  "tsSec now = show_int (now div 1000)"

text \<open>\<open>okRelay\<close>: the header \<open>x-relay-key\<close> (\<open>None\<close> when absent) must equal \<open>RELAY_KEY\<close>.\<close>

definition okRelay :: "config \<Rightarrow> string option \<Rightarrow> bool" where
  "okRelay cfg relayKey = (relayKey = Some (RELAY_KEY cfg))"

type_synonym reply = "nat \<times> json"

definition unauthorized :: reply where
  "unauthorized = (401, JObj [(''ok'', JBool False), (''error'', JStr ''Unauthorized relay'')])"

text \<open>The \<open>catch\<close> branch shared by the three handlers.\<close>

definition RelayCrash :: "string \<Rightarrow> reply" where
  "RelayCrash msg = (500, JObj [(''ok'', JBool False), (''error'', JStr ''RelayCrash''), (''message'', JStr msg)])"

definition no_creds :: reply where
  "no_creds = (400, JObj [(''ok'', JBool False), (''error'', JStr ''No creds for EOA'')])"

text \<open>
  The body of an incoming request: text still to be parsed, or the value the JSON body
  parser produced.
\<close>

datatype incoming = BodyText string | BodyJson json

text \<open>
  A property that holds text (an address, a signature, a credential field): its string,
  or the empty string when the property is absent; both \<open>undefined\<close> and the empty string
  are falsy. The relay's peers send these properties as JSON strings, and \<open>verify_and_store\<close>,
  \<open>provision\<close> and \<open>authCreate\<close> below are the handler on such strings, with the store
  typed as the data model has it. The handler itself only tests the properties for
  truthiness; \<open>authCreate_json\<close> further down follows it on every JSON value.
\<close>

definition text_field :: "json \<Rightarrow> string \<Rightarrow> string" where
  "text_field v name =
     (case opt_prop (Some v) name of
        Some (JStr s) \<Rightarrow> s
      | _ \<Rightarrow> [])"

text \<open>\<open>String(v)\<close>, which is \<open>v\<close> itself on a string.\<close>

definition String_of :: "runtime \<Rightarrow> json \<Rightarrow> string" where
  "String_of rt v = (case v of JStr s \<Rightarrow> s | _ \<Rightarrow> js_String rt v)"

text \<open>\<open>up = await r.text(); try { up = JSON.parse(up); } catch {}\<close>.\<close>

definition parse_or_raw :: "runtime \<Rightarrow> string \<Rightarrow> json" where
  "parse_or_raw rt text = (case json_parse rt text of Some j \<Rightarrow> j | None \<Rightarrow> JStr text)"

text \<open>
  One \<open>fetch\<close> followed by \<open>text()\<close>: the request is logged; \<open>Inl\<close> is the message of the
  exception when either step rejects, \<open>Inr\<close> the status and the body text.
\<close>

definition fetch_text :: "world \<Rightarrow> request list \<Rightarrow> request \<Rightarrow> (string + nat \<times> string) \<times> request list" where
  "fetch_text w sent req =
     (case respond w (length sent) req of
        Threw msg \<Rightarrow> Inl msg
      | Resp st (Inl msg) \<Rightarrow> Inl msg
      | Resp st (Inr text) \<Rightarrow> Inr (st, text),
      sent @ [req])"

text \<open>\<open>s.slice(-n)\<close>: the last \<open>n\<close> characters, or all of a shorter string.\<close>

definition suffix :: "nat \<Rightarrow> string \<Rightarrow> string" where
  "suffix n s = drop (length s - n) s"

definition CLOB :: string where
  "CLOB = ''https://clob.polymarket.com''"

definition L1_headers :: "string \<Rightarrow> string \<Rightarrow> string \<Rightarrow> string \<Rightarrow> (string \<times> string) list" where
  "L1_headers address eip712Signature timestamp nonce =
     [(''content-type'', ''application/json''),
      (''accept'', ''application/json''),
      (''POLY_ADDRESS'', address),
      (''POLY_SIGNATURE'', eip712Signature),
      (''POLY_TIMESTAMP'', timestamp),
      (''POLY_NONCE'', nonce)]"

definition L2_headers :: "string \<Rightarrow> string \<Rightarrow> string \<Rightarrow> string \<Rightarrow> string \<Rightarrow> (string \<times> string) list" where
  "L2_headers eoa k pass ts sig =
     [(''accept'', ''application/json''),
      (''POLY_ADDRESS'', eoa),
      (''POLY_API_KEY'', k),
      (''POLY_PASSPHRASE'', pass),
      (''POLY_TIMESTAMP'', ts),
      (''POLY_SIGNATURE'', sig)]"

definition sent_info :: "string \<Rightarrow> string \<Rightarrow> string \<Rightarrow> string \<Rightarrow> json" where
  "sent_info k pass ts pre =
     JObj [(''keySfx'', JStr (suffix 6 k)), (''passSfx'', JStr (suffix 4 pass)),
           (''ts'', JStr ts), (''pre'', JStr pre)]"

text \<open>The four requests of the provisioning flow.\<close>

definition create_request :: "(string \<times> string) list \<Rightarrow> request" where
  "create_request L1 =
     \<lparr>req_url = CLOB @ ''/auth/api-key'', req_method = ''POST'', req_headers = L1, req_body = Some ''{}''\<rparr>"

definition derive_request :: "(string \<times> string) list \<Rightarrow> request" where
  "derive_request L1 =
     \<lparr>req_url = CLOB @ ''/auth/derive-api-key'', req_method = ''GET'', req_headers = L1, req_body = None\<rparr>"

definition access_request :: "string \<Rightarrow> request" where
  "access_request address =
     \<lparr>req_url = CLOB @ ''/auth/access-status?address='' @ address, req_method = ''GET'',
      req_headers = [], req_body = None\<rparr>"

definition verify_request :: "string \<Rightarrow> string \<Rightarrow> string \<Rightarrow> string \<Rightarrow> string \<Rightarrow> request" where
  "verify_request eoa k pass ts sig =
     \<lparr>req_url = CLOB @ ''/auth/api-keys'', req_method = ''GET'',
      req_headers = L2_headers eoa k pass ts sig, req_body = None\<rparr>"

text \<open>
  The second half of \<open>POST /polymarket/auth-create\<close>, from the destructuring of the
  create or derive answer \<open>up\<close> on: the malformed-answer check, the inline verify request
  and, after it, the write to the store.
\<close>

definition verify_and_store ::
  "runtime \<Rightarrow> config \<Rightarrow> world \<Rightarrow> request list \<Rightarrow> store \<Rightarrow> string \<Rightarrow> json
     \<Rightarrow> reply \<times> store \<times> request list" where
  "verify_and_store rt cfg w sent st address up =
     (let k = text_field up ''key'';
          sec = text_field up ''secret'';
          pass = text_field up ''passphrase''
      in if k = [] \<or> sec = [] \<or> pass = []
         then ((502, JObj [(''ok'', JBool False), (''error'', JStr ''Malformed API-key response''),
                           (''upstream'', up)]), st, sent)
         else (let eoa = address;
                   ts = tsSec (now_at w (length sent));
                   pre = ''GET/auth/api-keys'' @ ts;
                   sig = hmacB64 (hmac_sha256 rt) sec pre
               in (case fetch_text w sent (verify_request eoa k pass ts sig) of
                     (Inl msg, sent') \<Rightarrow> (RelayCrash msg, st, sent')
                   | (Inr (vstatus, vtext), sent') \<Rightarrow>
                       if \<not> http_ok vstatus
                       then ((vstatus, JObj [(''ok'', JBool False), (''where'', JStr ''verify''),
                                             (''upstream'', parse_or_raw rt vtext),
                                             (''sent'', sent_info k pass ts pre)]), st, sent')
                       else ((200, JObj [(''ok'', JBool True), (''owner'', JStr eoa),
                                         (''keySuffix'', JStr (suffix 6 k)),
                                         (''passSuffix'', JStr (suffix 4 pass))]),
                             st(rowKey cfg eoa \<mapsto>
                                  \<lparr>row_key = k, row_secret = sec, row_pass = pass,
                                   row_owner = toLowerCase eoa\<rparr>),
                             sent'))))"

text \<open>
  \<open>typeof req.body === "string" ? JSON.parse(req.body) : req.body\<close>; \<open>Inl\<close> is the
  SyntaxError of \<open>JSON.parse\<close>.
\<close>

definition parsed_body :: "runtime \<Rightarrow> incoming \<Rightarrow> string + json" where
  "parsed_body rt b =
     (case b of
        BodyText s \<Rightarrow> (case json_parse rt s of None \<Rightarrow> Inl ''Unexpected token in JSON'' | Some j \<Rightarrow> Inr j)
      | BodyJson j \<Rightarrow> Inr j)"

text \<open>
  The verify request that \<open>verify_and_store\<close> sends for the answer \<open>up\<close>, and the tuple it
  writes to the store.
\<close>

definition verify_of :: "runtime \<Rightarrow> world \<Rightarrow> request list \<Rightarrow> string \<Rightarrow> json \<Rightarrow> request" where
  "verify_of rt w sent address up =
     (let ts = tsSec (now_at w (length sent))
      in verify_request address (text_field up ''key'') (text_field up ''passphrase'') ts
           (hmacB64 (hmac_sha256 rt) (text_field up ''secret'') (''GET/auth/api-keys'' @ ts)))"

definition stored_row :: "string \<Rightarrow> json \<Rightarrow> row" where
  "stored_row address up =
     \<lparr>row_key = text_field up ''key'', row_secret = text_field up ''secret'',
      row_pass = text_field up ''passphrase'', row_owner = toLowerCase address\<rparr>"

text \<open>
  The first half of the flow, from \<open>// Try create\<close> on: create, on a non-OK answer the one
  derive fallback, and when that is not OK either the access-status diagnostic.
\<close>

definition provision ::
  "runtime \<Rightarrow> config \<Rightarrow> world \<Rightarrow> request list \<Rightarrow> store \<Rightarrow> string \<Rightarrow> (string \<times> string) list
     \<Rightarrow> reply \<times> store \<times> request list" where
  "provision rt cfg w sent st address L1 =
     (case fetch_text w sent (create_request L1) of
        (Inl msg, sent1) \<Rightarrow> (RelayCrash msg, st, sent1)
      | (Inr (cstatus, ctext), sent1) \<Rightarrow>
          if http_ok cstatus
          then verify_and_store rt cfg w sent1 st address (parse_or_raw rt ctext)
          else (case fetch_text w sent1 (derive_request L1) of
                  (Inl msg, sent2) \<Rightarrow> (RelayCrash msg, st, sent2)
                | (Inr (dstatus, dtext), sent2) \<Rightarrow>
                    if http_ok dstatus
                    then verify_and_store rt cfg w sent2 st address (parse_or_raw rt dtext)
                    else (case fetch_text w sent2 (access_request address) of
                            (Inl msg, sent3) \<Rightarrow> (RelayCrash msg, st, sent3)
                          | (Inr (astatus, atext), sent3) \<Rightarrow>
                              ((dstatus,
                                JObj [(''ok'', JBool False), (''where'', JStr ''derive''),
                                      (''upstream'', parse_or_raw rt dtext),
                                      (''accessStatus'', parse_or_raw rt atext)]),
                               st, sent3))))"

definition authCreate ::
  "runtime \<Rightarrow> config \<Rightarrow> world \<Rightarrow> request list \<Rightarrow> store \<Rightarrow> string option \<Rightarrow> incoming
     \<Rightarrow> reply \<times> store \<times> request list" where
  "authCreate rt cfg w sent st relayKey reqBody =
     (if \<not> okRelay cfg relayKey then (unauthorized, st, sent)
      else (case parsed_body rt reqBody of
              Inl msg \<Rightarrow> (RelayCrash msg, st, sent)
            | Inr body \<Rightarrow>
                (let address = text_field body ''address'';
                     timestamp = opt_prop (Some body) ''timestamp'';
                     nonce = (case opt_prop (Some body) ''nonce'' of None \<Rightarrow> JNum 0 | Some n \<Rightarrow> n);
                     eip712Signature = text_field body ''eip712Signature''
                 in if address = [] \<or> \<not> truthy_opt timestamp \<or> eip712Signature = []
                    then ((400, JObj [(''ok'', JBool False), (''error'', JStr ''Missing L1 inputs'')]), st, sent)
                    else provision rt cfg w sent st address
                           (L1_headers address eip712Signature
                              (String_of rt (the timestamp)) (String_of rt nonce)))))"

subsection \<open>auth-create on arbitrary JSON values\<close>

text \<open>
  \<open>POST /polymarket/auth-create\<close> tests \<open>address\<close>, \<open>timestamp\<close>, \<open>eip712Signature\<close> and the
  \<open>key\<close>, \<open>secret\<close> and \<open>passphrase\<close> of the exchange's answer for truthiness only, so each
  of them may hold a number, \<open>true\<close>, an array or an object. The stored tuple then holds
  those values as they came; its owner is a string, because \<open>toLowerCase\<close> produced it.
\<close>

record tuple =
  t_key :: json
  t_secret :: json
  t_pass :: json
  t_owner :: string

type_synonym tuple_store = "string \<rightharpoonup> tuple"

text \<open>
  \<open>hmacB64(secret, pre)\<close> on any value. On a string it is \<open>hmacB64\<close> above. On another
  value \<open>isB64\<close> tests its string form, and \<open>Buffer.from\<close> then raises or builds the key
  bytes whichever encoding was chosen. \<open>Inl\<close> carries the message of the TypeError.
\<close>

definition hmacB64_json :: "runtime \<Rightarrow> json \<Rightarrow> string \<Rightarrow> string + string" where
  "hmacB64_json rt sec pre =
     (case sec of
        JStr s \<Rightarrow> Inr (hmacB64 (hmac_sha256 rt) s pre)
      | _ \<Rightarrow> (case buffer_from rt sec of
                Inl msg \<Rightarrow> Inl msg
              | Inr bytes \<Rightarrow> Inr (base64_encode (hmac_sha256 rt bytes (utf8 pre)))))"

text \<open>
  \<open>v.slice(-n)\<close>, where \<open>name\<close> is the variable holding \<open>v\<close>: the last \<open>n\<close> characters of a
  string, the last \<open>n\<close> elements of an array; a number, a boolean and an object have no
  method \<open>slice\<close> (a property of that name in a parsed object is not a function), and the
  call raises a TypeError.
\<close>

definition slice_last :: "string \<Rightarrow> nat \<Rightarrow> json \<Rightarrow> string + json" where
  "slice_last name n v =
     (case v of
        JStr s \<Rightarrow> Inr (JStr (suffix n s))
      | JArr xs \<Rightarrow> Inr (JArr (drop (length xs - n) xs))
      | JNull \<Rightarrow> Inl (''Cannot read properties of null (reading '' @ [CHR 0x27] @ ''slice'' @ [CHR 0x27] @ '')'')
      | _ \<Rightarrow> Inl (name @ ''.slice is not a function''))"

text \<open>\<open>v.toLowerCase()\<close>: only a string has the method.\<close>

definition lower_of :: "string \<Rightarrow> json \<Rightarrow> string + string" where
  "lower_of name v =
     (case v of
        JStr s \<Rightarrow> Inr (toLowerCase s)
      | JNull \<Rightarrow> Inl (''Cannot read properties of null (reading '' @ [CHR 0x27] @ ''toLowerCase'' @ [CHR 0x27] @ '')'')
      | _ \<Rightarrow> Inl (name @ ''.toLowerCase is not a function''))"

definition sent_info_json :: "json \<Rightarrow> json \<Rightarrow> string \<Rightarrow> string \<Rightarrow> json" where
  "sent_info_json ks ps ts pre =
     JObj [(''keySfx'', ks), (''passSfx'', ps), (''ts'', JStr ts), (''pre'', JStr pre)]"

text \<open>
  The second half of the handler, from the destructuring of the answer \<open>up\<close> on. The
  header values of a request are turned into strings by \<open>fetch\<close>. In the reply to a non-OK
  verify the suffix of the key is taken before that of the passphrase. After an OK verify
  the argument \<open>eoa.toLowerCase()\<close> is evaluated before \<open>STORE.set\<close> is called, and the two
  suffixes of the reply are taken after the call.
\<close>

definition verify_and_store_json ::
  "runtime \<Rightarrow> config \<Rightarrow> world \<Rightarrow> request list \<Rightarrow> tuple_store \<Rightarrow> json \<Rightarrow> json
     \<Rightarrow> reply \<times> tuple_store \<times> request list" where
  "verify_and_store_json rt cfg w sent st address up =
     (let k = opt_prop (Some up) ''key'';
          sec = opt_prop (Some up) ''secret'';
          pass = opt_prop (Some up) ''passphrase''
      in if \<not> truthy_opt k \<or> \<not> truthy_opt sec \<or> \<not> truthy_opt pass
         then ((502, JObj [(''ok'', JBool False), (''error'', JStr ''Malformed API-key response''),
                           (''upstream'', up)]), st, sent)
         else (let eoa = address;
                   ts = tsSec (now_at w (length sent));
                   pre = ''GET/auth/api-keys'' @ ts
               in (case hmacB64_json rt (the sec) pre of
                     Inl msg \<Rightarrow> (RelayCrash msg, st, sent)
                   | Inr sig \<Rightarrow>
                       (case fetch_text w sent
                               (verify_request (String_of rt eoa) (String_of rt (the k))
                                  (String_of rt (the pass)) ts sig) of
                          (Inl msg, sent') \<Rightarrow> (RelayCrash msg, st, sent')
                        | (Inr (vstatus, vtext), sent') \<Rightarrow>
                            if \<not> http_ok vstatus
                            then (case slice_last ''key'' 6 (the k) of
                                    Inl msg \<Rightarrow> (RelayCrash msg, st, sent')
                                  | Inr ks \<Rightarrow>
                                      (case slice_last ''passphrase'' 4 (the pass) of
                                         Inl msg \<Rightarrow> (RelayCrash msg, st, sent')
                                       | Inr ps \<Rightarrow>
                                           ((vstatus,
                                             JObj [(''ok'', JBool False), (''where'', JStr ''verify''),
                                                   (''upstream'', parse_or_raw rt vtext),
                                                   (''sent'', sent_info_json ks ps ts pre)]),
                                            st, sent')))
                            else (case lower_of ''eoa'' eoa of
                                    Inl msg \<Rightarrow> (RelayCrash msg, st, sent')
                                  | Inr owner \<Rightarrow>
                                      (let st' = st(rowKey cfg (String_of rt eoa) \<mapsto>
                                                      \<lparr>t_key = the k, t_secret = the sec,
                                                       t_pass = the pass, t_owner = owner\<rparr>)
                                       in (case slice_last ''key'' 6 (the k) of
                                             Inl msg \<Rightarrow> (RelayCrash msg, st', sent')
                                           | Inr ks \<Rightarrow>
                                               (case slice_last ''passphrase'' 4 (the pass) of
                                                  Inl msg \<Rightarrow> (RelayCrash msg, st', sent')
                                                | Inr ps \<Rightarrow>
                                                    ((200, JObj [(''ok'', JBool True), (''owner'', eoa),
                                                                 (''keySuffix'', ks), (''passSuffix'', ps)]),
                                                     st', sent')))))))))"

text \<open>
  The signature of the inline verify, the verify request sent with the signature \<open>sig\<close>,
  and the tuple written for the owner \<open>owner\<close>, each for the answer \<open>up\<close>.
\<close>

definition signature_json :: "runtime \<Rightarrow> world \<Rightarrow> request list \<Rightarrow> json \<Rightarrow> string + string" where
  "signature_json rt w sent up =
     hmacB64_json rt (the (opt_prop (Some up) ''secret''))
       (''GET/auth/api-keys'' @ tsSec (now_at w (length sent)))"

definition verify_of_json :: "runtime \<Rightarrow> world \<Rightarrow> request list \<Rightarrow> json \<Rightarrow> json \<Rightarrow> string \<Rightarrow> request" where
  "verify_of_json rt w sent address up sig =
     verify_request (String_of rt address) (String_of rt (the (opt_prop (Some up) ''key'')))
       (String_of rt (the (opt_prop (Some up) ''passphrase''))) (tsSec (now_at w (length sent))) sig"

definition stored_tuple :: "json \<Rightarrow> string \<Rightarrow> tuple" where
  "stored_tuple up owner =
     \<lparr>t_key = the (opt_prop (Some up) ''key''), t_secret = the (opt_prop (Some up) ''secret''),
      t_pass = the (opt_prop (Some up) ''passphrase''), t_owner = owner\<rparr>"

text \<open>\<open>key.slice(-6)\<close> and \<open>passphrase.slice(-4)\<close> for the answer \<open>up\<close>.\<close>

definition key_suffix :: "json \<Rightarrow> string + json" where
  "key_suffix up = slice_last ''key'' 6 (the (opt_prop (Some up) ''key''))"

definition pass_suffix :: "json \<Rightarrow> string + json" where
  "pass_suffix up = slice_last ''passphrase'' 4 (the (opt_prop (Some up) ''passphrase''))"

text \<open>The answer \<open>up\<close> passes the check \<open>!key || !secret || !passphrase\<close>.\<close>

definition has_creds :: "json \<Rightarrow> bool" where
  "has_creds up =
     (truthy_opt (opt_prop (Some up) ''key'') \<and> truthy_opt (opt_prop (Some up) ''secret'')
      \<and> truthy_opt (opt_prop (Some up) ''passphrase''))"

text \<open>The first half: create, the derive fallback and the access-status diagnostic.\<close>

definition provision_json ::
  "runtime \<Rightarrow> config \<Rightarrow> world \<Rightarrow> request list \<Rightarrow> tuple_store \<Rightarrow> json \<Rightarrow> (string \<times> string) list
     \<Rightarrow> reply \<times> tuple_store \<times> request list" where
  "provision_json rt cfg w sent st address L1 =
     (case fetch_text w sent (create_request L1) of
        (Inl msg, sent1) \<Rightarrow> (RelayCrash msg, st, sent1)
      | (Inr (cstatus, ctext), sent1) \<Rightarrow>
          if http_ok cstatus
          then verify_and_store_json rt cfg w sent1 st address (parse_or_raw rt ctext)
          else (case fetch_text w sent1 (derive_request L1) of
                  (Inl msg, sent2) \<Rightarrow> (RelayCrash msg, st, sent2)
                | (Inr (dstatus, dtext), sent2) \<Rightarrow>
                    if http_ok dstatus
                    then verify_and_store_json rt cfg w sent2 st address (parse_or_raw rt dtext)
                    else (case fetch_text w sent2 (access_request (String_of rt address)) of
                            (Inl msg, sent3) \<Rightarrow> (RelayCrash msg, st, sent3)
                          | (Inr (astatus, atext), sent3) \<Rightarrow>
                              ((dstatus,
                                JObj [(''ok'', JBool False), (''where'', JStr ''derive''),
                                      (''upstream'', parse_or_raw rt dtext),
                                      (''accessStatus'', parse_or_raw rt atext)]),
                               st, sent3))))"

text \<open>The L1 headers the handler builds from the body of the request.\<close>

definition L1_of :: "runtime \<Rightarrow> json \<Rightarrow> (string \<times> string) list" where
  "L1_of rt body =
     L1_headers (String_of rt (the (opt_prop (Some body) ''address'')))
       (String_of rt (the (opt_prop (Some body) ''eip712Signature'')))
       (String_of rt (the (opt_prop (Some body) ''timestamp'')))
       (String_of rt (case opt_prop (Some body) ''nonce'' of None \<Rightarrow> JNum 0 | Some n \<Rightarrow> n))"

definition authCreate_json ::
  "runtime \<Rightarrow> config \<Rightarrow> world \<Rightarrow> request list \<Rightarrow> tuple_store \<Rightarrow> string option \<Rightarrow> incoming
     \<Rightarrow> reply \<times> tuple_store \<times> request list" where
  "authCreate_json rt cfg w sent st relayKey reqBody =
     (if \<not> okRelay cfg relayKey then (unauthorized, st, sent)
      else (case parsed_body rt reqBody of
              Inl msg \<Rightarrow> (RelayCrash msg, st, sent)
            | Inr body \<Rightarrow>
                (let address = opt_prop (Some body) ''address'';
                     timestamp = opt_prop (Some body) ''timestamp'';
                     nonce = (case opt_prop (Some body) ''nonce'' of None \<Rightarrow> JNum 0 | Some n \<Rightarrow> n);
                     eip712Signature = opt_prop (Some body) ''eip712Signature''
                 in if \<not> truthy_opt address \<or> \<not> truthy_opt timestamp \<or> \<not> truthy_opt eip712Signature
                    then ((400, JObj [(''ok'', JBool False), (''error'', JStr ''Missing L1 inputs'')]), st, sent)
                    else provision_json rt cfg w sent st (the address)
                           (L1_headers (String_of rt (the address)) (String_of rt (the eip712Signature))
                              (String_of rt (the timestamp)) (String_of rt nonce)))))"

text \<open>
  A row of the typed store as a tuple, and the answers on which the typed handler and the
  handler on JSON values agree: each of \<open>key\<close>, \<open>secret\<close> and \<open>passphrase\<close> is absent, falsy
  or a string.
\<close>

definition as_tuple :: "row \<Rightarrow> tuple" where
  "as_tuple r =
     \<lparr>t_key = JStr (row_key r), t_secret = JStr (row_secret r), t_pass = JStr (row_pass r),
      t_owner = row_owner r\<rparr>"

definition as_tuples :: "store \<Rightarrow> tuple_store" where
  "as_tuples st = (\<lambda>k. map_option as_tuple (st k))"

fun text_or_falsy :: "json option \<Rightarrow> bool" where
  "text_or_falsy None = True"
| "text_or_falsy (Some (JStr s)) = True"
| "text_or_falsy (Some v) = (\<not> truthy v)"

definition text_fields :: "json \<Rightarrow> bool" where
  "text_fields up =
     (text_or_falsy (opt_prop (Some up) ''key'') \<and> text_or_falsy (opt_prop (Some up) ''secret'')
      \<and> text_or_falsy (opt_prop (Some up) ''passphrase''))"

text \<open>The answer both \<open>l2-sanity\<close> and \<open>order\<close> give once the exchange has responded.\<close>

definition relayed :: "runtime \<Rightarrow> nat \<Rightarrow> string \<Rightarrow> row \<Rightarrow> string \<Rightarrow> string \<Rightarrow> reply" where
  "relayed rt rstatus rtext r ts pre =
     (rstatus, JObj [(''ok'', JBool (http_ok rstatus)), (''status'', JNum (of_nat rstatus)),
                     (''upstream'', parse_or_raw rt rtext),
                     (''sent'', sent_info (row_key r) (row_pass r) ts pre)])"

text \<open>The signed request of \<open>l2-sanity\<close>, built from the stored row and the timestamp string.\<close>

definition sanity_request :: "runtime \<Rightarrow> row \<Rightarrow> string \<Rightarrow> string \<Rightarrow> request" where
  "sanity_request rt r eoa ts =
     (let pre = ''GET/auth/ban-status/closed-only'' @ ts;
          sig = hmacB64 (hmac_sha256 rt) (row_secret r) pre
      in \<lparr>req_url = CLOB @ ''/auth/ban-status/closed-only'', req_method = ''GET'',
          req_headers = L2_headers eoa (row_key r) (row_pass r) ts sig, req_body = None\<rparr>)"

text \<open>\<open>GET /polymarket/l2-sanity\<close>; the query parameter \<open>address\<close> is \<open>None\<close> when absent.\<close>

definition l2Sanity ::
  "runtime \<Rightarrow> config \<Rightarrow> world \<Rightarrow> request list \<Rightarrow> store \<Rightarrow> string option \<Rightarrow> string option
     \<Rightarrow> reply \<times> request list" where
  "l2Sanity rt cfg w sent st relayKey address =
     (if \<not> okRelay cfg relayKey then (unauthorized, sent)
      else (let eoa = (case address of None \<Rightarrow> [] | Some a \<Rightarrow> a)
            in (case st (rowKey cfg eoa) of
                  None \<Rightarrow> (no_creds, sent)
                | Some r \<Rightarrow>
                    (let ts = tsSec (now_at w (length sent));
                         pre = ''GET/auth/ban-status/closed-only'' @ ts
                     in (case fetch_text w sent (sanity_request rt r eoa ts) of
                           (Inl msg, sent') \<Rightarrow> (RelayCrash msg, sent')
                         | (Inr (rstatus, rtext), sent') \<Rightarrow> (relayed rt rstatus rtext r ts pre, sent'))))))"

text \<open>
  \<open>POST /polymarket/order\<close>. The wire body is the incoming text itself, or the
  serialization of the parsed value.
\<close>

definition order_headers :: "string \<Rightarrow> string \<Rightarrow> string \<Rightarrow> string \<Rightarrow> string \<Rightarrow> (string \<times> string) list" where
  "order_headers eoa k pass ts sig =
     [(''accept'', ''application/json''),
      (''content-type'', ''application/json''),
      (''POLY_ADDRESS'', eoa),
      (''POLY_API_KEY'', k),
      (''POLY_PASSPHRASE'', pass),
      (''POLY_TIMESTAMP'', ts),
      (''POLY_SIGNATURE'', sig)]"

text \<open>\<open>String(parsed?.address || "")\<close>.\<close>

definition order_address :: "runtime \<Rightarrow> json \<Rightarrow> string" where
  "order_address rt parsed =
     (case opt_prop (Some parsed) ''address'' of
        None \<Rightarrow> []
      | Some a \<Rightarrow> if truthy a then String_of rt a else [])"

text \<open>The signed request of \<open>order\<close>: the preimage holds the very body that is sent.\<close>

definition order_wire :: "runtime \<Rightarrow> row \<Rightarrow> string \<Rightarrow> string \<Rightarrow> string \<Rightarrow> request" where
  "order_wire rt r eoa ts body =
     (let pre = ''POST/order'' @ ts @ body;
          sig = hmacB64 (hmac_sha256 rt) (row_secret r) pre
      in \<lparr>req_url = CLOB @ ''/order'', req_method = ''POST'',
          req_headers = order_headers eoa (row_key r) (row_pass r) ts sig, req_body = Some body\<rparr>)"

definition relayOrder ::
  "runtime \<Rightarrow> config \<Rightarrow> world \<Rightarrow> request list \<Rightarrow> store \<Rightarrow> string option \<Rightarrow> incoming
     \<Rightarrow> reply \<times> request list" where
  "relayOrder rt cfg w sent st relayKey reqBody =
     (if \<not> okRelay cfg relayKey then (unauthorized, sent)
      else (let body = (case reqBody of BodyText s \<Rightarrow> s | BodyJson j \<Rightarrow> json_stringify rt j)
            in (case parsed_body rt reqBody of
                  Inl msg \<Rightarrow> (RelayCrash msg, sent)
                | Inr parsed \<Rightarrow>
                    (let eoa = order_address rt parsed
                     in (case st (rowKey cfg eoa) of
                           None \<Rightarrow> (no_creds, sent)
                         | Some r \<Rightarrow>
                             (let ts = tsSec (now_at w (length sent));
                                  pre = ''POST/order'' @ ts @ body
                              in (case fetch_text w sent (order_wire rt r eoa ts body) of
                                    (Inl msg, sent') \<Rightarrow> (RelayCrash msg, sent')
                                  | (Inr (rstatus, rtext), sent') \<Rightarrow>
                                      (relayed rt rstatus rtext r ts pre, sent'))))))))"

section \<open>The specification's wording, and sample data\<close>

text \<open>
  The specification's key rule for signing, in its own words: canonicalize \<open>-\<close> to \<open>+\<close> and
  \<open>_\<close> to \<open>/\<close>, decode the result as base64 when it matches the base64 alphabet, and use
  the raw UTF-8 bytes of the secret otherwise.
\<close>

definition spec_signing_key :: "string \<Rightarrow> byte list" where
  "spec_signing_key s =
     (let canonical = replace_all (CHR ''_'') (CHR ''/'') (replace_all (CHR ''-'') (CHR ''+'') s)
      in if isB64 canonical then base64_decode canonical else utf8 s)"


text \<open>
  Sample library functions, answers and worlds for the worked instances: a stand-in for
  the keyed hash, a parser and a serializer that know the few texts used, and a world
  that plays a list of answers in order.
\<close>

definition sample_hmac :: hmac where
  "sample_hmac k msg = k @ msg"

definition order_text :: string where
  "order_text = ''{'' @ [CHR 0x22] @ ''orderID'' @ [CHR 0x22] @ '':'' @ [CHR 0x22] @ ''ord-123'' @ [CHR 0x22] @ ''}''"

definition closed_text :: string where
  "closed_text = ''{'' @ [CHR 0x22] @ ''closedOnly'' @ [CHR 0x22] @ '':true}''"

definition creds_text :: string where
  "creds_text = ''{'' @ [CHR 0x22] @ ''key'' @ [CHR 0x22] @ '':'' @ [CHR 0x22] @ ''k-123456'' @ [CHR 0x22] @ '',''
                  @ [CHR 0x22] @ ''secret'' @ [CHR 0x22] @ '':'' @ [CHR 0x22] @ ''QUJD'' @ [CHR 0x22] @ '',''
                  @ [CHR 0x22] @ ''passphrase'' @ [CHR 0x22] @ '':'' @ [CHR 0x22] @ ''pass-1'' @ [CHR 0x22] @ ''}''"

definition numeric_key_text :: string where
  "numeric_key_text = ''{'' @ [CHR 0x22] @ ''key'' @ [CHR 0x22] @ '':12345678,''
                  @ [CHR 0x22] @ ''secret'' @ [CHR 0x22] @ '':'' @ [CHR 0x22] @ ''QUJD'' @ [CHR 0x22] @ '',''
                  @ [CHR 0x22] @ ''passphrase'' @ [CHR 0x22] @ '':'' @ [CHR 0x22] @ ''pass-1'' @ [CHR 0x22] @ ''}''"

definition address_text :: string where
  "address_text = ''{'' @ [CHR 0x22] @ ''address'' @ [CHR 0x22] @ '':'' @ [CHR 0x22] @ ''0xab'' @ [CHR 0x22] @ ''}''"

definition sample_parse :: "string \<Rightarrow> json option" where
  "sample_parse s =
     (if s = ''{}'' then Some (JObj [])
      else if s = address_text then Some (JObj [(''address'', JStr ''0xab'')])
      else if s = ''null'' then Some JNull
      else if s = order_text then Some (JObj [(''orderID'', JStr ''ord-123'')])
      else if s = closed_text then Some (JObj [(''closedOnly'', JBool True)])
      else if s = creds_text
        then Some (JObj [(''key'', JStr ''k-123456''), (''secret'', JStr ''QUJD''), (''passphrase'', JStr ''pass-1'')])
      else if s = numeric_key_text
        then Some (JObj [(''key'', JNum 12345678), (''secret'', JStr ''QUJD''), (''passphrase'', JStr ''pass-1'')])
      else None)"

definition sample_stringify :: "json \<Rightarrow> string" where
  "sample_stringify j =
     (if j = JObj [] then ''{}''
      else if j = JObj [(''address'', JStr ''0xab'')] then address_text
      else ''null'')"

definition sample_String :: "json \<Rightarrow> string" where
  "sample_String j =
     (case j of
        JNum n \<Rightarrow> (if n = 0 then ''0'' else if n = 12345678 then ''12345678'' else ''1700000000'')
      | _ \<Rightarrow> ''null'')"

definition sample_buffer :: "json \<Rightarrow> string + byte list" where
  "sample_buffer j =
     (case j of
        JArr xs \<Rightarrow> Inr (replicate (length xs) 0)
      | _ \<Rightarrow> Inl ''The first argument must be of type string or an instance of Buffer'')"

definition sample_runtime :: runtime where
  "sample_runtime =
     \<lparr>json_parse = sample_parse, json_stringify = sample_stringify,
      js_String = sample_String, hmac_sha256 = sample_hmac, buffer_from = sample_buffer\<rparr>"

definition scripted :: "outcome list \<Rightarrow> world" where
  "scripted outs =
     \<lparr>now_at = (\<lambda>k. 1700000000000 + 350 * int k),
      respond = (\<lambda>k req. if k < length outs then outs ! k else Threw ''connect ECONNREFUSED'')\<rparr>"

definition blocked_then_filled :: world where
  "blocked_then_filled = scripted [Resp 403 (Inr ''{}''), Resp 200 (Inr order_text)]"

definition accepted_without_id :: world where
  "accepted_without_id = scripted [Resp 200 (Inr ''{}'')]"

definition unreachable :: world where
  "unreachable = scripted []"

definition closed_only_answer :: world where
  "closed_only_answer = scripted [Resp 200 (Inr closed_text)]"

definition forbidden :: world where
  "forbidden = scripted [Resp 403 (Inr ''denied'')]"

definition garbled :: world where
  "garbled = scripted [Resp 200 (Inr ''denied'')]"

definition diagnostic_down :: world where
  "diagnostic_down = scripted [Resp 403 (Inr ''denied''), Resp 403 (Inr ''denied'')]"

definition all_denied :: world where
  "all_denied = scripted [Resp 403 (Inr ''denied''), Resp 403 (Inr ''denied''), Resp 200 (Inr ''{}'')]"

definition created_verified :: world where
  "created_verified = scripted [Resp 200 (Inr creds_text), Resp 200 (Inr ''{}'')]"

definition derived_unverified :: world where
  "derived_unverified =
     scripted [Resp 403 (Inr ''denied''), Resp 200 (Inr creds_text), Resp 401 (Inr ''denied'')]"

definition verify_down :: world where
  "verify_down = scripted [Resp 200 (Inr creds_text)]"

definition create_unreadable :: world where
  "create_unreadable = scripted [Resp 200 (Inl ''Premature close'')]"

definition numeric_key_denied :: world where
  "numeric_key_denied = scripted [Resp 200 (Inr numeric_key_text), Resp 401 (Inr ''denied'')]"

definition numeric_key_verified :: world where
  "numeric_key_verified = scripted [Resp 200 (Inr numeric_key_text), Resp 200 (Inr ''{}'')]"

definition sample_L1 :: "(string \<times> string) list" where
  "sample_L1 = L1_headers ''0xAB'' ''0xsig'' ''1700000000'' ''0''"

definition sample_creds :: credentials where
  "sample_creds = \<lparr>api_key = ''k-123456'', secret = ''QUJD'', passphrase = ''pass-1''\<rparr>"

definition sample_config :: config where
  "sample_config = \<lparr>ENV = ''prod'', RELAY_KEY = ''relay-key''\<rparr>"

definition sample_row :: row where
  "sample_row = \<lparr>row_key = ''k-123456'', row_secret = ''QUJD'', row_pass = ''pass-1'', row_owner = ''0xab''\<rparr>"

definition empty_store :: store where
  "empty_store = Map.empty"

definition empty_tuples :: tuple_store where
  "empty_tuples = Map.empty"

definition numeric_key_up :: json where
  "numeric_key_up = JObj [(''key'', JNum 12345678), (''secret'', JStr ''QUJD''), (''passphrase'', JStr ''pass-1'')]"

definition numeric_secret_up :: json where
  "numeric_secret_up = JObj [(''key'', JStr ''k-123456''), (''secret'', JNum 12345678), (''passphrase'', JStr ''pass-1'')]"

definition numeric_pass_up :: json where
  "numeric_pass_up = JObj [(''key'', JStr ''k-123456''), (''secret'', JStr ''QUJD''), (''passphrase'', JNum 12345678)]"

definition creds_up :: json where
  "creds_up = JObj [(''key'', JStr ''k-123456''), (''secret'', JStr ''QUJD''), (''passphrase'', JStr ''pass-1'')]"

definition sample_store :: store where
  "sample_store = empty_store(rowKey sample_config ''0xAB'' \<mapsto> sample_row)"

definition sample_l1 :: json where
  "sample_l1 = JObj [(''address'', JStr ''0xAB''), (''timestamp'', JNum 1700000000),
                     (''eip712Signature'', JStr ''0xsig'')]"

definition sample_order_body :: json where
  "sample_order_body = JObj [(''address'', JStr ''0xab'')]"

definition production_env :: auth_env where
  "production_env = \<lparr>API_SECRET_KEY = Some ''s3cret'', NODE_ENV = Some ''production''\<rparr>"

text \<open>A sample history and sample later instants, for the worked instances below.\<close>

definition example_history :: "event list" where
  "example_history =
     [Request 0 ''alice'', Request 1000 ''alice'', Request 2000 ''alice'', Request 3000 ''alice'',
      Request 4000 ''alice'', Request 5000 ''bob'', Request 5000 ''alice'', Request 6000 ''alice'',
      Cleanup 6500, Request 7000 ''alice'', Request 8000 ''alice'', Request 9000 ''alice'']"

definition example_later :: "int list" where
  "example_later = [70000, 70001, 70002, 70003, 70004, 70005, 70006, 70007, 70008, 70009]"


section \<open>Properties of the signature engine and the trade executor\<close>

lemma b64_alphabet_length: "length b64_alphabet = 64"
  by (simp add: b64_alphabet_def)

lemma b64_char_alphabet: "b64_char n \<in> set b64_alphabet"
  unfolding b64_char_def by (rule nth_mem) (simp add: b64_alphabet_length)

lemma base64_encode_length: "length (base64_encode bs) mod 4 = 0"
  by (induction bs rule: base64_encode.induct) simp_all

lemma base64_encode_chars: "set (base64_encode bs) \<subseteq> insert (CHR ''='') (set b64_alphabet)"
  by (induction bs rule: base64_encode.induct) (simp_all add: b64_char_alphabet)

lemma order_request_parts:
  "req_body (order_request rt now a k s p ord) = Some (json_stringify rt ord)"
  "req_headers (order_request rt now a k s p ord) =
     getBrowserHeaders a k p (now div 1000)
       (generateSignature (hmac_sha256 rt) s ''POST'' ''/order'' (now div 1000) (Some (json_stringify rt ord)))"
  by (simp_all add: order_request_def Let_def)

lemma getBrowserHeaders_lookup:
  "map_of (getBrowserHeaders a k p ts sig) ''POLY_ADDRESS'' = Some a"
  "map_of (getBrowserHeaders a k p ts sig) ''POLY_SIGNATURE'' = Some sig"
  "map_of (getBrowserHeaders a k p ts sig) ''POLY_TIMESTAMP'' = Some (show_int ts)"
  by (simp_all add: getBrowserHeaders_def)

lemma attemptTrade_sent:
  "snd (attemptTrade rt w sent a k s p ord) = sent @ [order_request rt (now_at w (length sent)) a k s p ord]"
  by (simp add: attemptTrade_def Let_def)

lemma attemptTrade_threw:
  "respond w (length sent) (order_request rt (now_at w (length sent)) a k s p ord) = Threw msg \<Longrightarrow>
   fst (attemptTrade rt w sent a k s p ord) = attempt_caught msg"
  by (simp add: attemptTrade_def Let_def)

text \<open>
  Claim C2. \<open>executeTrade\<close> sends a second order request exactly when the first attempt
  reports status 403 and a funder address is given, is not empty and differs from the
  owner address after lowercasing. Then exactly two requests are sent, the second one
  carries the funder address in \<open>POLY_ADDRESS\<close>, and the result is marked \<open>funder\<close>. In
  every other case exactly one request is sent and the result is marked \<open>owner\<close>; in
  particular a rejected fetch gives the first attempt status 500 and no retry.
\<close>

theorem funder_retry:
  "(a_status (fst (attemptTrade rt w sent owner (api_key c) (secret c) (passphrase c) ord)) = 403
      \<and> funder = Some f \<and> f \<noteq> [] \<and> toLowerCase f \<noteq> toLowerCase owner \<longrightarrow>
      snd (executeTrade rt w sent c ord owner funder) =
        sent @ [order_request rt (now_at w (length sent)) owner (api_key c) (secret c) (passphrase c) ord,
                order_request rt (now_at w (length sent + 1)) f (api_key c) (secret c) (passphrase c) ord]
      \<and> map_of (req_headers (last (snd (executeTrade rt w sent c ord owner funder)))) ''POLY_ADDRESS'' = Some f
      \<and> attemptedWith (fst (executeTrade rt w sent c ord owner funder)) = ''funder'')
   \<and> (\<not> (a_status (fst (attemptTrade rt w sent owner (api_key c) (secret c) (passphrase c) ord)) = 403
          \<and> (\<exists>g. funder = Some g \<and> g \<noteq> [] \<and> toLowerCase g \<noteq> toLowerCase owner)) \<longrightarrow>
      snd (executeTrade rt w sent c ord owner funder) =
        sent @ [order_request rt (now_at w (length sent)) owner (api_key c) (secret c) (passphrase c) ord]
      \<and> attemptedWith (fst (executeTrade rt w sent c ord owner funder)) = ''owner'')
   \<and> (respond w (length sent)
         (order_request rt (now_at w (length sent)) owner (api_key c) (secret c) (passphrase c) ord) = Threw msg \<longrightarrow>
      a_status (fst (attemptTrade rt w sent owner (api_key c) (secret c) (passphrase c) ord)) = 500
      \<and> length (snd (executeTrade rt w sent c ord owner funder)) = length sent + 1)"
proof (intro conjI)
  let ?first = "attemptTrade rt w sent owner (api_key c) (secret c) (passphrase c) ord"
  have split: "?first = (fst ?first, snd ?first)" by simp
  show "a_status (fst ?first) = 403 \<and> funder = Some f \<and> f \<noteq> [] \<and> toLowerCase f \<noteq> toLowerCase owner \<longrightarrow>
      snd (executeTrade rt w sent c ord owner funder) =
        sent @ [order_request rt (now_at w (length sent)) owner (api_key c) (secret c) (passphrase c) ord,
                order_request rt (now_at w (length sent + 1)) f (api_key c) (secret c) (passphrase c) ord]
      \<and> map_of (req_headers (last (snd (executeTrade rt w sent c ord owner funder)))) ''POLY_ADDRESS'' = Some f
      \<and> attemptedWith (fst (executeTrade rt w sent c ord owner funder)) = ''funder''"
  proof (rule impI)
    assume h: "a_status (fst ?first) = 403 \<and> funder = Some f \<and> f \<noteq> [] \<and> toLowerCase f \<noteq> toLowerCase owner"
    then have r: "retry_with_funder (fst ?first) owner funder" by (simp add: retry_with_funder_def)
    let ?second = "attemptTrade rt w (snd ?first) f (api_key c) (secret c) (passphrase c) ord"
    have e: "executeTrade rt w sent c ord owner funder = (trade_outcome (fst ?second) ''funder'', snd ?second)"
      using r h by (simp add: executeTrade_def split_beta)
    show "snd (executeTrade rt w sent c ord owner funder) =
        sent @ [order_request rt (now_at w (length sent)) owner (api_key c) (secret c) (passphrase c) ord,
                order_request rt (now_at w (length sent + 1)) f (api_key c) (secret c) (passphrase c) ord]
      \<and> map_of (req_headers (last (snd (executeTrade rt w sent c ord owner funder)))) ''POLY_ADDRESS'' = Some f
      \<and> attemptedWith (fst (executeTrade rt w sent c ord owner funder)) = ''funder''"
      by (simp add: e attemptTrade_sent order_request_parts getBrowserHeaders_lookup trade_outcome_def)
  qed
next
  let ?first = "attemptTrade rt w sent owner (api_key c) (secret c) (passphrase c) ord"
  show "\<not> (a_status (fst ?first) = 403
          \<and> (\<exists>g. funder = Some g \<and> g \<noteq> [] \<and> toLowerCase g \<noteq> toLowerCase owner)) \<longrightarrow>
      snd (executeTrade rt w sent c ord owner funder) =
        sent @ [order_request rt (now_at w (length sent)) owner (api_key c) (secret c) (passphrase c) ord]
      \<and> attemptedWith (fst (executeTrade rt w sent c ord owner funder)) = ''owner''"
  proof (rule impI)
    assume h: "\<not> (a_status (fst ?first) = 403
          \<and> (\<exists>g. funder = Some g \<and> g \<noteq> [] \<and> toLowerCase g \<noteq> toLowerCase owner))"
    then have r: "\<not> retry_with_funder (fst ?first) owner funder"
      by (auto simp add: retry_with_funder_def split: option.splits)
    have e: "executeTrade rt w sent c ord owner funder = (trade_outcome (fst ?first) ''owner'', snd ?first)"
      using r by (simp add: executeTrade_def split_beta)
    show "snd (executeTrade rt w sent c ord owner funder) =
        sent @ [order_request rt (now_at w (length sent)) owner (api_key c) (secret c) (passphrase c) ord]
      \<and> attemptedWith (fst (executeTrade rt w sent c ord owner funder)) = ''owner''"
      by (simp add: e attemptTrade_sent trade_outcome_def)
  qed
next
  let ?first = "attemptTrade rt w sent owner (api_key c) (secret c) (passphrase c) ord"
  show "respond w (length sent)
         (order_request rt (now_at w (length sent)) owner (api_key c) (secret c) (passphrase c) ord) = Threw msg \<longrightarrow>
      a_status (fst ?first) = 500
      \<and> length (snd (executeTrade rt w sent c ord owner funder)) = length sent + 1"
  proof (rule impI)
    assume t: "respond w (length sent)
         (order_request rt (now_at w (length sent)) owner (api_key c) (secret c) (passphrase c) ord) = Threw msg"
    have s: "fst ?first = attempt_caught msg" using t by (rule attemptTrade_threw)
    then have st: "a_status (fst ?first) = 500" by (simp add: attempt_caught_def)
    then have r: "\<not> retry_with_funder (fst ?first) owner funder" by (simp add: retry_with_funder_def)
    have e: "executeTrade rt w sent c ord owner funder = (trade_outcome (fst ?first) ''owner'', snd ?first)"
      using r by (simp add: executeTrade_def split_beta)
    show "a_status (fst ?first) = 500
      \<and> length (snd (executeTrade rt w sent c ord owner funder)) = length sent + 1"
      using st by (simp add: e attemptTrade_sent)
  qed
qed

lemma scripted_respond:
  "respond (scripted outs) k req = (if k < length outs then outs ! k else Threw ''connect ECONNREFUSED'')"
  by (simp add: scripted_def)

lemma sample_runtime_simps:
  "json_parse sample_runtime = sample_parse"
  "json_stringify sample_runtime = sample_stringify"
  "js_String sample_runtime = sample_String"
  "hmac_sha256 sample_runtime = sample_hmac"
  "buffer_from sample_runtime = sample_buffer"
  by (simp_all add: sample_runtime_def)

lemma sample_parse_simps:
  "sample_parse ''{}'' = Some (JObj [])"
  "sample_parse ''null'' = Some JNull"
  "sample_parse order_text = Some (JObj [(''orderID'', JStr ''ord-123'')])"
  "sample_parse closed_text = Some (JObj [(''closedOnly'', JBool True)])"
  "sample_parse creds_text = Some (JObj [(''key'', JStr ''k-123456''), (''secret'', JStr ''QUJD''), (''passphrase'', JStr ''pass-1'')])"
  "sample_parse address_text = Some (JObj [(''address'', JStr ''0xab'')])"
  "sample_parse ''denied'' = None"
  "sample_parse numeric_key_text
     = Some (JObj [(''key'', JNum 12345678), (''secret'', JStr ''QUJD''), (''passphrase'', JStr ''pass-1'')])"
  by (simp_all add: sample_parse_def order_text_def closed_text_def creds_text_def address_text_def
        numeric_key_text_def)

lemmas sample_simps = scripted_respond sample_runtime_simps sample_parse_simps sample_creds_def
  blocked_then_filled_def accepted_without_id_def unreachable_def closed_only_answer_def
  forbidden_def garbled_def

text \<open>
  Instances: the owner \<open>0xAA\<close> is answered 403 and the funder \<open>0xBB\<close> is then answered
  200 with an order id, so two requests are sent; with the funder \<open>0xaa\<close> the single
  owner attempt stands; with the exchange unreachable one request is sent.
\<close>

theorem funder_retry_witness:
  "length (snd (executeTrade sample_runtime blocked_then_filled [] sample_creds (JObj []) ''0xAA'' (Some ''0xBB''))) = 2
   \<and> attemptedWith (fst (executeTrade sample_runtime blocked_then_filled [] sample_creds (JObj []) ''0xAA'' (Some ''0xBB''))) = ''funder''
   \<and> attemptedWith (fst (executeTrade sample_runtime blocked_then_filled [] sample_creds (JObj []) ''0xAA'' (Some ''0xaa''))) = ''owner''
   \<and> length (snd (executeTrade sample_runtime unreachable [] sample_creds (JObj []) ''0xAA'' (Some ''0xBB''))) = 1"
proof -
  have blocked: "a_status (fst (attemptTrade sample_runtime blocked_then_filled [] ''0xAA''
                    (api_key sample_creds) (secret sample_creds) (passphrase sample_creds) (JObj []))) = 403"
    by (simp add: attemptTrade_def Let_def sample_simps http_ok_def failure_text_def truthy_opt_def)
  have differ: "toLowerCase ''0xBB'' \<noteq> toLowerCase ''0xAA''"
    by (simp add: toLowerCase_def lower_char_def)
  have same: "\<not> (\<exists>g. Some ''0xaa'' = Some g \<and> g \<noteq> [] \<and> toLowerCase g \<noteq> toLowerCase ''0xAA'')"
    by (simp add: toLowerCase_def lower_char_def)
  have down: "respond unreachable (length ([] :: request list))
                (order_request sample_runtime (now_at unreachable (length ([] :: request list))) ''0xAA''
                   (api_key sample_creds) (secret sample_creds) (passphrase sample_creds) (JObj []))
              = Threw ''connect ECONNREFUSED''"
    by (simp add: sample_simps)
  show ?thesis
    using funder_retry [of sample_runtime blocked_then_filled "[]" "''0xAA''" sample_creds "JObj []"
            "Some ''0xBB''" "''0xBB''"]
          funder_retry [of sample_runtime blocked_then_filled "[]" "''0xAA''" sample_creds "JObj []"
            "Some ''0xaa''"]
          funder_retry [of sample_runtime unreachable "[]" "''0xAA''" sample_creds "JObj []"
            "Some ''0xBB''" _ "''connect ECONNREFUSED''"]
          blocked differ same down
    by simp
qed



lemma fetch_text_sent: "snd (fetch_text w sent req) = sent @ [req]"
  by (simp add: fetch_text_def)


text \<open>When the order handler sends a request, it is the signed request built from a stored row.\<close>

lemma relayOrder_sent:
  assumes "length (snd (relayOrder rt cfg w sent st key b)) = length sent + 1"
  shows "\<exists>parsed r. parsed_body rt b = Inr parsed
           \<and> st (rowKey cfg (order_address rt parsed)) = Some r
           \<and> relayOrder rt cfg w sent st key b =
               (let ts = tsSec (now_at w (length sent));
                    body = (case b of BodyText s \<Rightarrow> s | BodyJson j \<Rightarrow> json_stringify rt j);
                    req = order_wire rt r (order_address rt parsed) ts body
                in (case fst (fetch_text w sent req) of
                      Inl msg \<Rightarrow> RelayCrash msg
                    | Inr (rstatus, rtext) \<Rightarrow> relayed rt rstatus rtext r ts (''POST/order'' @ ts @ body),
                    sent @ [req]))"
proof (cases "okRelay cfg key")
  case False
  then show ?thesis using assms by (simp add: relayOrder_def)
next
  case True
  show ?thesis
  proof (cases "parsed_body rt b")
    case (Inl msg)
    then show ?thesis using assms True by (simp add: relayOrder_def)
  next
    case (Inr parsed)
    show ?thesis
    proof (cases "st (rowKey cfg (order_address rt parsed))")
      case None
      then show ?thesis using assms True Inr by (simp add: relayOrder_def)
    next
      case (Some r)
      let ?ts = "tsSec (now_at w (length sent))"
      let ?body = "case b of BodyText s \<Rightarrow> s | BodyJson j \<Rightarrow> json_stringify rt j"
      let ?req = "order_wire rt r (order_address rt parsed) ?ts ?body"
      obtain res sent' where f: "fetch_text w sent ?req = (res, sent')" by (cases "fetch_text w sent ?req")
      have s: "sent' = sent @ [?req]" using f fetch_text_sent [of w sent ?req] by simp
      have "relayOrder rt cfg w sent st key b =
               (case res of
                  Inl msg \<Rightarrow> RelayCrash msg
                | Inr (rstatus, rtext) \<Rightarrow> relayed rt rstatus rtext r ?ts (''POST/order'' @ ?ts @ ?body),
                sent @ [?req])"
        using True Inr Some f s
        by (simp add: relayOrder_def Let_def split: sum.splits prod.splits)
      then show ?thesis using Inr Some f by (simp add: Let_def)
    qed
  qed
qed



lemma sample_rowKey: "rowKey sample_config ''0xab'' = rowKey sample_config ''0xAB''"
  by (simp add: rowKey_def toLowerCase_def lower_char_def)

lemma sample_relay:
  "relayOrder sample_runtime sample_config accepted_without_id [] sample_store (Some ''relay-key'') (BodyJson sample_order_body)
     = (relayed sample_runtime 200 ''{}'' sample_row (tsSec 1700000000000) (''POST/order'' @ tsSec 1700000000000 @ address_text),
        [order_wire sample_runtime sample_row ''0xab'' (tsSec 1700000000000) address_text])"
  by (simp add: relayOrder_def Let_def okRelay_def sample_config_def parsed_body_def sample_simps
        sample_order_body_def sample_stringify_def
        order_address_def truthy_opt_def String_of_def sample_store_def sample_rowKey [unfolded sample_config_def]
        fetch_text_def scripted_def)



lemma generateSignature_eq:
  "generateSignature H s m p ts body =
     base64_encode (H (hmacBase64_key s)
       (utf8 (m @ p @ show_int ts @ (case body of None \<Rightarrow> [] | Some b \<Rightarrow> b))))"
  by (simp add: generateSignature_def hmacBase64_def Let_def)

lemma order_wire_parts:
  "req_body (order_wire rt r eoa ts body) = Some body"
  "map_of (req_headers (order_wire rt r eoa ts body)) ''POLY_TIMESTAMP'' = Some ts"
  "map_of (req_headers (order_wire rt r eoa ts body)) ''POLY_SIGNATURE''
     = Some (base64_encode (hmac_sha256 rt (hmacB64_key (row_secret r)) (utf8 (''POST'' @ ''/order'' @ ts @ body))))"
  "map_of (req_headers (order_wire rt r eoa ts body)) ''POLY_ADDRESS'' = Some eoa"
  "map_of (req_headers (order_wire rt r eoa ts body)) ''POLY_API_KEY'' = Some (row_key r)"
  by (simp_all add: order_wire_def Let_def order_headers_def hmacB64_def)

lemma relayOrder_signed:
  assumes "length (snd (relayOrder rt cfg w sent st key b)) = length sent + 1"
  shows "\<exists>(r::row) ts. req_body (last (snd (relayOrder rt cfg w sent st key b)))
                  = Some (case b of BodyText s \<Rightarrow> s | BodyJson j \<Rightarrow> json_stringify rt j)
          \<and> map_of (req_headers (last (snd (relayOrder rt cfg w sent st key b)))) ''POLY_TIMESTAMP'' = Some ts
          \<and> map_of (req_headers (last (snd (relayOrder rt cfg w sent st key b)))) ''POLY_SIGNATURE''
               = Some (base64_encode (hmac_sha256 rt (hmacB64_key (row_secret r))
                   (utf8 (''POST'' @ ''/order'' @ ts @ (case b of BodyText s \<Rightarrow> s | BodyJson j \<Rightarrow> json_stringify rt j)))))"
proof -
  from relayOrder_sent [OF assms] obtain parsed r where
    e: "relayOrder rt cfg w sent st key b =
               (let ts = tsSec (now_at w (length sent));
                    body = (case b of BodyText s \<Rightarrow> s | BodyJson j \<Rightarrow> json_stringify rt j);
                    req = order_wire rt r (order_address rt parsed) ts body
                in (case fst (fetch_text w sent req) of
                      Inl msg \<Rightarrow> RelayCrash msg
                    | Inr (rstatus, rtext) \<Rightarrow> relayed rt rstatus rtext r ts (''POST/order'' @ ts @ body),
                    sent @ [req]))"
    by blast
  let ?ts = "tsSec (now_at w (length sent))"
  let ?body = "case b of BodyText s \<Rightarrow> s | BodyJson j \<Rightarrow> json_stringify rt j"
  have l: "last (snd (relayOrder rt cfg w sent st key b)) = order_wire rt r (order_address rt parsed) ?ts ?body"
    by (simp add: e Let_def)
  let ?req = "order_wire rt r (order_address rt parsed) ?ts ?body"
  have "req_body ?req = Some ?body
          \<and> map_of (req_headers ?req) ''POLY_TIMESTAMP'' = Some ?ts
          \<and> map_of (req_headers ?req) ''POLY_SIGNATURE''
               = Some (base64_encode (hmac_sha256 rt (hmacB64_key (row_secret r))
                   (utf8 (''POST'' @ ''/order'' @ ?ts @ ?body))))"
    by (simp only: order_wire_parts simp_thms)
  then show ?thesis unfolding l by blast
qed

text \<open>
  Claim C4. \<open>generateSignature\<close> is the base64 digest of the keyed hash of the
  concatenation method, path, decimal timestamp, body, with nothing in between and the
  empty string for an absent body. The digest has a length that is a multiple of four
  and uses only the standard alphabet and the padding character \<open>=\<close>. The order request
  of \<open>attemptTrade\<close> sends the serialized order that went into its signature, with the
  timestamp of the preimage in its header; the status request signs an empty body; and
  whenever the standalone relay sends an order request, its signature is over
  \<open>POST/order\<close>, the timestamp header and the very body on the wire.
\<close>

theorem signature_preimage:
  "generateSignature H s m p ts body =
     base64_encode (H (hmacBase64_key s)
       (utf8 (m @ p @ show_int ts @ (case body of None \<Rightarrow> [] | Some b \<Rightarrow> b))))
   \<and> length (generateSignature H s m p ts body) mod 4 = 0
   \<and> set (generateSignature H s m p ts body) \<subseteq> insert (CHR ''='') (set b64_alphabet)
   \<and> req_body (order_request rt now a k s p ord) = Some (json_stringify rt ord)
   \<and> map_of (req_headers (order_request rt now a k s p ord)) ''POLY_TIMESTAMP'' = Some (show_int (now div 1000))
   \<and> map_of (req_headers (order_request rt now a k s p ord)) ''POLY_SIGNATURE''
        = Some (base64_encode (hmac_sha256 rt (hmacBase64_key s)
            (utf8 (''POST'' @ ''/order'' @ show_int (now div 1000) @ json_stringify rt ord))))
   \<and> req_body (status_request rt now a k s p) = None
   \<and> map_of (req_headers (status_request rt now a k s p)) ''POLY_SIGNATURE''
        = Some (base64_encode (hmac_sha256 rt (hmacBase64_key s)
            (utf8 (''GET'' @ ''/auth/ban-status/closed-only'' @ show_int (now div 1000) @ []))))
   \<and> (length (snd (relayOrder rt cfg w sent st key rb)) = length sent + 1 \<longrightarrow>
        (\<exists>(r::row) tss. req_body (last (snd (relayOrder rt cfg w sent st key rb)))
                  = Some (case rb of BodyText x \<Rightarrow> x | BodyJson j \<Rightarrow> json_stringify rt j)
          \<and> map_of (req_headers (last (snd (relayOrder rt cfg w sent st key rb)))) ''POLY_TIMESTAMP'' = Some tss
          \<and> map_of (req_headers (last (snd (relayOrder rt cfg w sent st key rb)))) ''POLY_SIGNATURE''
               = Some (base64_encode (hmac_sha256 rt (hmacB64_key (row_secret r))
                   (utf8 (''POST'' @ ''/order'' @ tss @ (case rb of BodyText x \<Rightarrow> x | BodyJson j \<Rightarrow> json_stringify rt j)))))))"
proof (intro conjI)
  show "generateSignature H s m p ts body =
     base64_encode (H (hmacBase64_key s)
       (utf8 (m @ p @ show_int ts @ (case body of None \<Rightarrow> [] | Some b \<Rightarrow> b))))"
    by (rule generateSignature_eq)
  show "length (generateSignature H s m p ts body) mod 4 = 0"
    by (simp only: generateSignature_eq base64_encode_length)
  show "set (generateSignature H s m p ts body) \<subseteq> insert (CHR ''='') (set b64_alphabet)"
    by (simp only: generateSignature_eq base64_encode_chars)
  show "req_body (order_request rt now a k s p ord) = Some (json_stringify rt ord)"
    by (simp add: order_request_parts)
  show "map_of (req_headers (order_request rt now a k s p ord)) ''POLY_TIMESTAMP'' = Some (show_int (now div 1000))"
    by (simp add: order_request_parts getBrowserHeaders_lookup)
  show "map_of (req_headers (order_request rt now a k s p ord)) ''POLY_SIGNATURE''
        = Some (base64_encode (hmac_sha256 rt (hmacBase64_key s)
            (utf8 (''POST'' @ ''/order'' @ show_int (now div 1000) @ json_stringify rt ord))))"
    by (simp add: order_request_parts getBrowserHeaders_lookup generateSignature_eq)
  show "req_body (status_request rt now a k s p) = None"
    by (simp add: status_request_def Let_def)
  show "map_of (req_headers (status_request rt now a k s p)) ''POLY_SIGNATURE''
        = Some (base64_encode (hmac_sha256 rt (hmacBase64_key s)
            (utf8 (''GET'' @ ''/auth/ban-status/closed-only'' @ show_int (now div 1000) @ []))))"
    by (simp add: status_request_def Let_def getBrowserHeaders_def generateSignature_eq)
  show "length (snd (relayOrder rt cfg w sent st key rb)) = length sent + 1 \<longrightarrow>
        (\<exists>(r::row) tss. req_body (last (snd (relayOrder rt cfg w sent st key rb)))
                  = Some (case rb of BodyText x \<Rightarrow> x | BodyJson j \<Rightarrow> json_stringify rt j)
          \<and> map_of (req_headers (last (snd (relayOrder rt cfg w sent st key rb)))) ''POLY_TIMESTAMP'' = Some tss
          \<and> map_of (req_headers (last (snd (relayOrder rt cfg w sent st key rb)))) ''POLY_SIGNATURE''
               = Some (base64_encode (hmac_sha256 rt (hmacB64_key (row_secret r))
                   (utf8 (''POST'' @ ''/order'' @ tss @ (case rb of BodyText x \<Rightarrow> x | BodyJson j \<Rightarrow> json_stringify rt j))))))"
    using relayOrder_signed [of rt cfg w sent st key rb] by blast
qed

text \<open>An instance for the standalone relay: the order of \<open>0xab\<close>, serialized once.\<close>

theorem signature_preimage_witness:
  "\<exists>(r::row) tss. req_body (last (snd (relayOrder sample_runtime sample_config accepted_without_id [] sample_store
                                 (Some ''relay-key'') (BodyJson sample_order_body))))
              = Some address_text
      \<and> map_of (req_headers (last (snd (relayOrder sample_runtime sample_config accepted_without_id []
                                 sample_store (Some ''relay-key'') (BodyJson sample_order_body))))) ''POLY_TIMESTAMP'' = Some tss
      \<and> map_of (req_headers (last (snd (relayOrder sample_runtime sample_config accepted_without_id []
                                 sample_store (Some ''relay-key'') (BodyJson sample_order_body))))) ''POLY_SIGNATURE''
           = Some (base64_encode (hmac_sha256 sample_runtime (hmacB64_key (row_secret r))
               (utf8 (''POST'' @ ''/order'' @ tss @ address_text))))"
proof -
  have one: "length (snd (relayOrder sample_runtime sample_config accepted_without_id [] sample_store
               (Some ''relay-key'') (BodyJson sample_order_body))) = length ([] :: request list) + 1"
    by (simp add: sample_relay)
  note whole = signature_preimage [where rt = sample_runtime and cfg = sample_config and w = accepted_without_id
            and sent = "[]" and st = sample_store and key = "Some ''relay-key''"
            and rb = "BodyJson sample_order_body"]
  note last_part = whole [THEN conjunct2, THEN conjunct2, THEN conjunct2, THEN conjunct2,
            THEN conjunct2, THEN conjunct2, THEN conjunct2, THEN conjunct2]
  have wire: "json_stringify sample_runtime sample_order_body = address_text"
    by (simp add: sample_runtime_simps sample_stringify_def sample_order_body_def)
  from last_part [THEN mp, OF one] show ?thesis by (simp add: wire)
qed






text \<open>
  Claim C1 at two secrets. For \<open>QUJD\<close>, the base64 form of the bytes of \<open>ABC\<close>, the
  specification's key is those three bytes, and \<open>hmacBase64\<close> uses the four characters
  of the secret as the key. For the base64url secret \<open>-_-_\<close>, whose standard form is
  \<open>+/+/\<close>, the specification's key is the three decoded bytes, and \<open>hmacB64\<close> decodes
  \<open>+/+/\<close> to them but uses the four characters of \<open>-_-_\<close> as they are.
\<close>

theorem signing_keys_diverge:
  "hmacBase64_key ''QUJD'' = [81, 85, 74, 68]
   \<and> spec_signing_key ''QUJD'' = [65, 66, 67]
   \<and> hmacB64_key ''-_-_'' = [45, 95, 45, 95]
   \<and> hmacB64_key ''+/+/'' = [251, 255, 191]
   \<and> spec_signing_key ''-_-_'' = [251, 255, 191]"
  by (simp add: hmacBase64_key_def normalizedSecret_def replace_all_def spec_signing_key_def
        hmacB64_key_def isB64_def is_b64_char_def b64_alphabet_def base64_decode_def b64_digit_def utf8_def)

section \<open>Properties of the request authenticator\<close>

lemma in_production: "NODE_ENV production_env = Some ''production''"
  by (simp add: production_env_def)

text \<open>
  Claim C6. In production mode, for a present authorization header: a token containing
  a dot is admitted whether or not it equals the shared secret; the reply is 403 exactly
  when the token differs from the shared secret and contains no dot; and the request is
  admitted exactly when the token equals the shared secret or contains a dot.
\<close>

theorem production_dot_bypass:
  assumes "NODE_ENV env = Some ''production''" and "authHeader \<noteq> []"
  shows "(CHR ''.'' \<in> set (bearer_token authHeader) \<longrightarrow> authenticateRequest env (Some authHeader) = Next [])
       \<and> (authenticateRequest env (Some authHeader) = Reply 403 (JObj [(''error'', JStr ''Invalid API key'')])
            \<longleftrightarrow> bearer_token authHeader \<noteq> API_SECRET env \<and> CHR ''.'' \<notin> set (bearer_token authHeader))
       \<and> (authenticateRequest env (Some authHeader) = Next []
            \<longleftrightarrow> bearer_token authHeader = API_SECRET env \<or> CHR ''.'' \<in> set (bearer_token authHeader))"
  using assms by (auto simp add: authenticateRequest_def Let_def)

text \<open>
  Instances with the shared secret \<open>s3cret\<close>: the token \<open>abc.def\<close> is admitted, the
  token \<open>abcdef\<close> is refused.
\<close>

theorem production_dot_bypass_witness:
  "bearer_token ''Bearer abc.def'' \<noteq> API_SECRET production_env
   \<and> authenticateRequest production_env (Some ''Bearer abc.def'') = Next []
   \<and> authenticateRequest production_env (Some ''Bearer abcdef'')
        = Reply 403 (JObj [(''error'', JStr ''Invalid API key'')])"
proof -
  have t1: "bearer_token ''Bearer abc.def'' = ''abc.def''"
    by (simp add: bearer_token_def toLowerCase_def lower_char_def is_space_def)
  have t2: "bearer_token ''Bearer abcdef'' = ''abcdef''"
    by (simp add: bearer_token_def toLowerCase_def lower_char_def is_space_def)
  have sec: "API_SECRET production_env = ''s3cret''"
    by (simp add: API_SECRET_def production_env_def)
  have h1: "''Bearer abc.def'' \<noteq> []" and h2: "''Bearer abcdef'' \<noteq> []" by simp_all
  show ?thesis
    using production_dot_bypass [OF in_production h1] production_dot_bypass [OF in_production h2]
    by (simp add: t1 t2 sec)
qed


section \<open>Properties of the rate limiter\<close>

lemma max_pos: "0 < RATE_LIMIT_MAX_REQUESTS"
  by (simp add: RATE_LIMIT_MAX_REQUESTS_def)

lemma ceil_thousandth_pos: "0 < x \<Longrightarrow> 0 < ceil_thousandth x"
  unfolding ceil_thousandth_def by linarith

lemma rateLimiter_reject:
  assumes "u \<noteq> []" and "RATE_LIMIT_MAX_REQUESTS \<le> length (filter (in_window now) (stored_requests m u))"
  shows "rateLimiter now (Some u) m =
           (Reply 429 (limit_payload (ceil_thousandth
              (RATE_LIMIT_WINDOW - (now - hd (filter (in_window now) (stored_requests m u)))))), m)"
  using assms by (simp add: rateLimiter_def Let_def)

lemma admitted_iff:
  "admitted now u m \<longleftrightarrow> u \<noteq> [] \<and> length (filter (in_window now) (stored_requests m u)) < RATE_LIMIT_MAX_REQUESTS"
  by (auto simp add: rateLimiter_def Let_def admitted_def)

lemma is_429_iff:
  "is_429 (fst (rateLimiter now uid m)) \<longleftrightarrow>
     (\<exists>u. uid = Some u \<and> u \<noteq> [] \<and> RATE_LIMIT_MAX_REQUESTS \<le> length (filter (in_window now) (stored_requests m u)))"
  by (cases uid) (auto simp add: rateLimiter_def Let_def)

lemma rejected_unchanged: "is_429 (fst (rateLimiter now uid m)) \<Longrightarrow> snd (rateLimiter now uid m) = m"
  by (cases uid) (auto simp add: rateLimiter_def Let_def)


lemma stored_after_request:
  "stored_requests (snd (rateLimiter t (Some v) m)) u =
     (if v = u \<and> admitted t u m then filter (in_window t) (stored_requests m u) @ [t]
      else stored_requests m u)"
  by (auto simp add: rateLimiter_def Let_def admitted_def stored_requests_def userKey_def)

lemma stored_after_cleanup:
  "stored_requests (cleanup t m) u = filter (in_window t) (stored_requests m u)"
  by (simp add: cleanup_def stored_requests_def Let_def split: option.splits)

lemma window_mono: "t \<le> now \<Longrightarrow> in_window now x \<Longrightarrow> in_window t x"
  by (simp add: in_window_def)

lemma filter_window_twice:
  "t \<le> now \<Longrightarrow> filter (\<lambda>x. in_window t x \<and> in_window now x) xs = filter (in_window now) xs"
  by (rule filter_cong) (auto dest: window_mono)

lemma stored_in_window:
  assumes "\<forall>e \<in> set evs. event_time e \<le> now"
  shows "filter (in_window now) (stored_requests (foldl step m evs) u) =
         filter (in_window now) (stored_requests m u @ admitted_times u m evs)"
  using assms
proof (induction evs arbitrary: m)
  case Nil
  then show ?case by simp
next
  case (Cons e evs)
  have le: "event_time e \<le> now" using Cons.prems by simp
  have one: "filter (in_window now) (stored_requests (step m e) u) =
        filter (in_window now) (stored_requests m u @
          (case e of Request t v \<Rightarrow> (if v = u \<and> admitted t u m then [t] else []) | Cleanup t \<Rightarrow> []))"
  proof (cases e)
    case (Request t v)
    then show ?thesis using le
      by (simp add: stored_after_request filter_window_twice)
  next
    case (Cleanup t)
    then show ?thesis using le
      by (simp add: stored_after_cleanup filter_window_twice)
  qed
  have "filter (in_window now) (stored_requests (foldl step (step m e) evs) u) =
        filter (in_window now) (stored_requests (step m e) u @ admitted_times u (step m e) evs)"
    using Cons.IH [of "step m e"] Cons.prems by simp
  then show ?case using one by simp
qed

lemma rateLimiter_map:
  "snd (rateLimiter t (Some v) m) =
     (if admitted t v m then m(userKey v \<mapsto> filter (in_window t) (stored_requests m v) @ [t]) else m)"
  by (simp add: rateLimiter_def Let_def admitted_def)

lemma cleanup_Some:
  "cleanup t m k = Some rs \<Longrightarrow> \<exists>rs0. m k = Some rs0 \<and> rs = filter (in_window t) rs0"
  by (cases "m k") (simp_all add: cleanup_def Let_def split: if_splits)

lemma bounded_step: 
  assumes b: "bounded m"
  shows "bounded (step m e)"
proof (cases e)
  case (Request t v)
  show ?thesis
  proof (cases "admitted t v m")
    case True
    then have "length (filter (in_window t) (stored_requests m v) @ [t]) \<le> RATE_LIMIT_MAX_REQUESTS"
      by (simp add: admitted_iff)
    then show ?thesis
      using b Request True unfolding bounded_def by (simp add: rateLimiter_map)
  next
    case False
    then show ?thesis using b Request by (simp add: rateLimiter_map)
  qed
next
  case (Cleanup t)
  show ?thesis
    unfolding bounded_def
  proof (intro allI impI)
    fix k rs
    assume "step m e k = Some rs"
    then have "cleanup t m k = Some rs" using Cleanup by simp
    from cleanup_Some [OF this]
    obtain rs0 where r: "m k = Some rs0" "rs = filter (in_window t) rs0" by blast
    have "length rs \<le> length rs0" using r by simp
    moreover have "length rs0 \<le> RATE_LIMIT_MAX_REQUESTS" using b r unfolding bounded_def by blast
    ultimately show "length rs \<le> RATE_LIMIT_MAX_REQUESTS" by linarith
  qed
qed

lemma bounded_foldl: "bounded m \<Longrightarrow> bounded (foldl step m evs)"
  by (induction evs arbitrary: m) (simp_all add: bounded_step)

lemma bounded_run: "length (stored_requests (run evs) u) \<le> RATE_LIMIT_MAX_REQUESTS"
proof -
  have "bounded (run evs)"
    unfolding run_def by (rule bounded_foldl) (simp add: bounded_def)
  then show ?thesis
    by (simp add: bounded_def stored_requests_def split: option.splits)
qed

lemma admits_all_room:
  "u \<noteq> [] \<Longrightarrow> ts \<noteq> [] \<Longrightarrow> 
   length (filter (in_window (hd ts)) (stored_requests m u)) + length ts \<le> RATE_LIMIT_MAX_REQUESTS \<Longrightarrow>
   admits_all u ts m"
proof (induction ts arbitrary: m)
  case Nil
  then show ?case by simp
next
  case (Cons t ts)
  let ?F = "filter (in_window t) (stored_requests m u)"
  have room: "length ?F < RATE_LIMIT_MAX_REQUESTS" using Cons.prems by simp
  then have adm: "admitted t u m" using Cons.prems(1) by (simp add: admitted_iff)
  have st: "stored_requests (snd (rateLimiter t (Some u) m)) u = ?F @ [t]"
    using adm by (simp add: stored_after_request)
  show ?case
  proof (cases ts)
    case Nil
    then show ?thesis using adm by simp
  next
    case (Cons t' ts')
    have "length (filter (in_window (hd ts)) (?F @ [t])) \<le> length ?F + 1"
      by (metis length_filter_le length_append_singleton Suc_eq_plus1)
    then have "length (filter (in_window (hd ts)) (stored_requests (snd (rateLimiter t (Some u) m)) u)) + length ts
          \<le> RATE_LIMIT_MAX_REQUESTS"
      using Cons.prems(3) st by simp
    then have "admits_all u ts (snd (rateLimiter t (Some u) m))"
      using Cons.IH Cons.prems(1) Cons by simp
    then show ?thesis using adm by simp
  qed
qed

lemma attempts_rejected:
  "\<forall>v \<in> set (fst (attempts u ts m)). is_429 v \<Longrightarrow> snd (attempts u ts m) = m"
proof (induction ts arbitrary: m)
  case Nil
  then show ?case by simp
next
  case (Cons t ts)
  obtain v m' where r: "rateLimiter t (Some u) m = (v, m')" by (cases "rateLimiter t (Some u) m")
  obtain vs m'' where a: "attempts u ts m' = (vs, m'')" by (cases "attempts u ts m'")
  have "is_429 v" using Cons.prems r a by simp
  then have "m' = m" using rejected_unchanged [of t "Some u" m] r by simp
  moreover have "\<forall>v \<in> set (fst (attempts u ts m')). is_429 v" using Cons.prems r a by simp
  ultimately show ?case using Cons.IH [of m'] r a by simp
qed


text \<open>
  Claim C7. Take a history of requests and clean-ups that starts from the empty map, and an
  instant \<open>now\<close> that no event of the history is later than. If the history admitted at
  least \<open>RATE_LIMIT_MAX_REQUESTS\<close> requests of a user within the window before \<open>now\<close>, the
  user's request at \<open>now\<close> is answered 429 with a positive \<open>retryAfter\<close> and the map is
  left as it was. If instead the window has elapsed since every admitted request of the
  user, then \<open>RATE_LIMIT_MAX_REQUESTS\<close> further requests of the user, at instants from
  \<open>now\<close> on, are all admitted.
\<close>

theorem rate_limit_window:
  assumes u: "u \<noteq> []" and past: "\<forall>e \<in> set evs. event_time e \<le> now"
  shows "(RATE_LIMIT_MAX_REQUESTS \<le> length (filter (in_window now) (admitted_times u Map.empty evs)) \<longrightarrow>
            (\<exists>r. 0 < r \<and> rateLimiter now (Some u) (run evs) = (Reply 429 (limit_payload r), run evs)))
       \<and> ((\<forall>t \<in> set (admitted_times u Map.empty evs). RATE_LIMIT_WINDOW \<le> now - t)
            \<and> length ts = RATE_LIMIT_MAX_REQUESTS \<and> (\<forall>t \<in> set ts. now \<le> t) \<longrightarrow>
            admits_all u ts (run evs))"
proof (intro conjI impI)
  let ?F = "filter (in_window now) (stored_requests (run evs) u)"
  assume full: "RATE_LIMIT_MAX_REQUESTS \<le> length (filter (in_window now) (admitted_times u Map.empty evs))"
  have "?F = filter (in_window now) (admitted_times u Map.empty evs)"
    using stored_in_window [OF past, of Map.empty u] by (simp add: run_def stored_requests_def)
  then have len: "RATE_LIMIT_MAX_REQUESTS \<le> length ?F" using full by simp
  then have "?F \<noteq> []" using max_pos by auto
  then have "hd ?F \<in> set ?F" by (rule hd_in_set)
  then have "in_window now (hd ?F)" by simp
  then have "0 < ceil_thousandth (RATE_LIMIT_WINDOW - (now - hd ?F))"
    by (intro ceil_thousandth_pos) (simp add: in_window_def)
  then show "\<exists>r. 0 < r \<and> rateLimiter now (Some u) (run evs) = (Reply 429 (limit_payload r), run evs)"
    using rateLimiter_reject [OF u len] by blast
next
  assume h: "(\<forall>t \<in> set (admitted_times u Map.empty evs). RATE_LIMIT_WINDOW \<le> now - t)
            \<and> length ts = RATE_LIMIT_MAX_REQUESTS \<and> (\<forall>t \<in> set ts. now \<le> t)"
  then have ne: "ts \<noteq> []" using max_pos by auto
  then have first: "now \<le> hd ts" using h by simp
  then have past': "\<forall>e \<in> set evs. event_time e \<le> hd ts" using past by force
  have "filter (in_window (hd ts)) (stored_requests (run evs) u)
          = filter (in_window (hd ts)) (admitted_times u Map.empty evs)"
    using stored_in_window [OF past', of Map.empty u] by (simp add: run_def stored_requests_def)
  also have "\<dots> = []"
    using h first by (auto simp add: filter_empty_conv in_window_def)
  finally have "length (filter (in_window (hd ts)) (stored_requests (run evs) u)) + length ts
                  \<le> RATE_LIMIT_MAX_REQUESTS"
    using h by simp
  then show "admits_all u ts (run evs)" using u ne by (rule admits_all_room [rotated 2])
qed

text \<open>
  An instance: alice is admitted ten times between 0 and 9000 ms; her request at 10000 ms
  is refused, and ten requests from 70000 ms on are admitted.
\<close>

lemma example_times:
  "admitted_times ''alice'' Map.empty example_history
     = [0, 1000, 2000, 3000, 4000, 5000, 6000, 7000, 8000, 9000]"
  by code_simp

theorem rate_limit_window_witness:
  "(\<exists>r. 0 < r \<and> rateLimiter 10000 (Some ''alice'') (run example_history)
              = (Reply 429 (limit_payload r), run example_history))
   \<and> admits_all ''alice'' example_later (run example_history)"
proof
  have u: "''alice'' \<noteq> []" by simp
  have p1: "\<forall>e \<in> set example_history. event_time e \<le> 10000" by (simp add: example_history_def)
  have full: "RATE_LIMIT_MAX_REQUESTS
                \<le> length (filter (in_window 10000) (admitted_times ''alice'' Map.empty example_history))"
    by (simp add: example_times in_window_def RATE_LIMIT_WINDOW_def RATE_LIMIT_MAX_REQUESTS_def)
  show "\<exists>r. 0 < r \<and> rateLimiter 10000 (Some ''alice'') (run example_history)
              = (Reply 429 (limit_payload r), run example_history)"
    using rate_limit_window [OF u p1] full by blast
next
  have u: "''alice'' \<noteq> []" by simp
  have p2: "\<forall>e \<in> set example_history. event_time e \<le> 70000" by (simp add: example_history_def)
  have old: "\<forall>t \<in> set (admitted_times ''alice'' Map.empty example_history). RATE_LIMIT_WINDOW \<le> 70000 - t"
    by (simp add: example_times RATE_LIMIT_WINDOW_def)
  have n: "length example_later = RATE_LIMIT_MAX_REQUESTS"
    by (simp add: example_later_def RATE_LIMIT_MAX_REQUESTS_def)
  have l: "\<forall>t \<in> set example_later. 70000 \<le> t" by (simp add: example_later_def)
  show "admits_all ''alice'' example_later (run example_history)"
    using rate_limit_window [OF u p2, of example_later] old n l by blast
qed

text \<open>
  Claim C9. A request answered 429 leaves the map of timestamps unchanged. For a map
  reached by a history from the empty map and a user who is refused at the limit: any
  number of further attempts that are all refused leave the map as it was, and a request
  at an instant by which the oldest stored timestamp of the user has left the window is
  admitted.
\<close>

theorem rejection_keeps_quota:
  "(is_429 (fst (rateLimiter now uid m)) \<longrightarrow> snd (rateLimiter now uid m) = m)
   \<and> (is_429 (fst (rateLimiter t0 (Some u) (run evs)))
        \<and> (\<forall>v \<in> set (fst (attempts u ts (run evs))). is_429 v)
        \<and> RATE_LIMIT_WINDOW \<le> t1 - hd (stored_requests (run evs) u) \<longrightarrow>
      snd (attempts u ts (run evs)) = run evs \<and> admitted t1 u (snd (attempts u ts (run evs))))"
proof (rule conjI)
  show "is_429 (fst (rateLimiter now uid m)) \<longrightarrow> snd (rateLimiter now uid m) = m"
    by (simp add: rejected_unchanged)
next
  let ?L = "stored_requests (run evs) u"
  show "is_429 (fst (rateLimiter t0 (Some u) (run evs)))
        \<and> (\<forall>v \<in> set (fst (attempts u ts (run evs))). is_429 v)
        \<and> RATE_LIMIT_WINDOW \<le> t1 - hd ?L \<longrightarrow>
      snd (attempts u ts (run evs)) = run evs \<and> admitted t1 u (snd (attempts u ts (run evs)))"
  proof (rule impI)
    assume h: "is_429 (fst (rateLimiter t0 (Some u) (run evs)))
        \<and> (\<forall>v \<in> set (fst (attempts u ts (run evs))). is_429 v)
        \<and> RATE_LIMIT_WINDOW \<le> t1 - hd ?L"
    then have same: "snd (attempts u ts (run evs)) = run evs" by (simp add: attempts_rejected)
    from h have u: "u \<noteq> []" and full: "RATE_LIMIT_MAX_REQUESTS \<le> length (filter (in_window t0) ?L)"
      by (simp_all add: is_429_iff)
    have "length (filter (in_window t0) ?L) \<le> length ?L" by simp
    then have "?L \<noteq> []" using full max_pos by auto
    then have "hd ?L \<in> set ?L" by (rule hd_in_set)
    moreover have "\<not> in_window t1 (hd ?L)" using h by (simp add: in_window_def)
    ultimately have "length (filter (in_window t1) ?L) < length ?L"
      by (intro length_filter_less)
    then have "length (filter (in_window t1) ?L) < RATE_LIMIT_MAX_REQUESTS"
      using bounded_run [of evs u] by linarith
    then have "admitted t1 u (run evs)" using u by (simp add: admitted_iff)
    then show "snd (attempts u ts (run evs)) = run evs \<and> admitted t1 u (snd (attempts u ts (run evs)))"
      using same by simp
  qed
qed

text \<open>
  An instance: after the ten admissions alice is refused at 10000, 20000, 30000 and
  40000 ms, and admitted at 60000 ms, when the timestamp 0 has left the window.
\<close>

theorem rejection_keeps_quota_witness:
  "snd (rateLimiter 10000 (Some ''alice'') (run example_history)) = run example_history
   \<and> snd (attempts ''alice'' [20000, 30000, 40000] (run example_history)) = run example_history
   \<and> admitted 60000 ''alice'' (snd (attempts ''alice'' [20000, 30000, 40000] (run example_history)))"
proof -
  have a: "is_429 (fst (rateLimiter 10000 (Some ''alice'') (run example_history)))"
    by code_simp
  have b: "\<forall>v \<in> set (fst (attempts ''alice'' [20000, 30000, 40000] (run example_history))). is_429 v"
    by code_simp
  have c: "RATE_LIMIT_WINDOW \<le> 60000 - hd (stored_requests (run example_history) ''alice'')"
    by code_simp
  show ?thesis
    using rejection_keeps_quota [of 10000 "Some ''alice''" "run example_history" 10000 "''alice''"
        example_history "[20000, 30000, 40000]" 60000] a b c
    by blast
qed

section \<open>Properties of the standalone relay\<close>

lemma fetch_text_eq:
  "fetch_text w sent req =
     (case respond w (length sent) req of
        Threw msg \<Rightarrow> Inl msg
      | Resp st (Inl msg) \<Rightarrow> Inl msg
      | Resp st (Inr rtext) \<Rightarrow> Inr (st, rtext),
      sent @ [req])"
  by (simp add: fetch_text_def)

lemma verify_and_store_cases:
  "verify_and_store rt cfg w sent st address up =
     (if text_field up ''key'' = [] \<or> text_field up ''secret'' = [] \<or> text_field up ''passphrase'' = []
      then ((502, JObj [(''ok'', JBool False), (''error'', JStr ''Malformed API-key response''),
                        (''upstream'', up)]), st, sent)
      else (case respond w (length sent) (verify_of rt w sent address up) of
              Threw msg \<Rightarrow> (RelayCrash msg, st, sent @ [verify_of rt w sent address up])
            | Resp vs (Inl msg) \<Rightarrow> (RelayCrash msg, st, sent @ [verify_of rt w sent address up])
            | Resp vs (Inr vt) \<Rightarrow>
                if \<not> http_ok vs
                then ((vs, JObj [(''ok'', JBool False), (''where'', JStr ''verify''),
                                 (''upstream'', parse_or_raw rt vt),
                                 (''sent'', sent_info (text_field up ''key'') (text_field up ''passphrase'')
                                              (tsSec (now_at w (length sent)))
                                              (''GET/auth/api-keys'' @ tsSec (now_at w (length sent))))]),
                      st, sent @ [verify_of rt w sent address up])
                else ((200, JObj [(''ok'', JBool True), (''owner'', JStr address),
                                  (''keySuffix'', JStr (suffix 6 (text_field up ''key''))),
                                  (''passSuffix'', JStr (suffix 4 (text_field up ''passphrase'')))]),
                      st(rowKey cfg address \<mapsto> stored_row address up),
                      sent @ [verify_of rt w sent address up])))"
  by (simp add: verify_and_store_def verify_of_def stored_row_def fetch_text_eq Let_def
        split: outcome.splits sum.splits)

lemma provision_cases:
  "provision rt cfg w sent st address L1 =
     (case respond w (length sent) (create_request L1) of
        Threw msg \<Rightarrow> (RelayCrash msg, st, sent @ [create_request L1])
      | Resp cs (Inl msg) \<Rightarrow> (RelayCrash msg, st, sent @ [create_request L1])
      | Resp cs (Inr ct) \<Rightarrow>
          if http_ok cs
          then verify_and_store rt cfg w (sent @ [create_request L1]) st address (parse_or_raw rt ct)
          else (case respond w (length sent + 1) (derive_request L1) of
                  Threw msg \<Rightarrow> (RelayCrash msg, st, sent @ [create_request L1, derive_request L1])
                | Resp ds (Inl msg) \<Rightarrow> (RelayCrash msg, st, sent @ [create_request L1, derive_request L1])
                | Resp ds (Inr dt) \<Rightarrow>
                    if http_ok ds
                    then verify_and_store rt cfg w (sent @ [create_request L1, derive_request L1]) st address
                           (parse_or_raw rt dt)
                    else (case respond w (length sent + 2) (access_request address) of
                            Threw msg \<Rightarrow>
                              (RelayCrash msg, st,
                               sent @ [create_request L1, derive_request L1, access_request address])
                          | Resp acs (Inl msg) \<Rightarrow>
                              (RelayCrash msg, st,
                               sent @ [create_request L1, derive_request L1, access_request address])
                          | Resp acs (Inr act) \<Rightarrow>
                              ((ds, JObj [(''ok'', JBool False), (''where'', JStr ''derive''),
                                          (''upstream'', parse_or_raw rt dt),
                                          (''accessStatus'', parse_or_raw rt act)]),
                               st, sent @ [create_request L1, derive_request L1, access_request address]))))"
  by (simp add: provision_def fetch_text_eq split: outcome.splits sum.splits)


lemma sample_up: "parse_or_raw sample_runtime creds_text
   = JObj [(''key'', JStr ''k-123456''), (''secret'', JStr ''QUJD''), (''passphrase'', JStr ''pass-1'')]"
  by (simp add: parse_or_raw_def sample_simps)

lemma sample_up_fields:
  "text_field (parse_or_raw sample_runtime creds_text) ''key'' = ''k-123456''"
  "text_field (parse_or_raw sample_runtime creds_text) ''secret'' = ''QUJD''"
  "text_field (parse_or_raw sample_runtime creds_text) ''passphrase'' = ''pass-1''"
  by (simp_all add: sample_up text_field_def)

lemma sample_authCreate:
  "authCreate sample_runtime sample_config w [] st (Some ''relay-key'') (BodyJson sample_l1)
     = provision sample_runtime sample_config w [] st ''0xAB'' sample_L1"
  by (simp add: authCreate_def okRelay_def sample_config_def parsed_body_def sample_l1_def text_field_def
        truthy_opt_def Let_def String_of_def sample_simps sample_String_def sample_L1_def)

section \<open>Outcomes of the provisioning flow\<close>

lemma fetch_text_raised:
  "fst (fetch_text w sent req) = Inl msg \<Longrightarrow> fetch_text w sent req = (Inl msg, sent @ [req])"
  by (simp add: fetch_text_def)

lemma fetch_text_answered:
  "respond w (length sent) req = Resp s (Inr t) \<Longrightarrow> fetch_text w sent req = (Inr (s, t), sent @ [req])"
  by (simp add: fetch_text_def)

lemma verify_and_store_json_cases:
  "verify_and_store_json rt cfg w sent st address up =
     (if \<not> has_creds up
      then ((502, JObj [(''ok'', JBool False), (''error'', JStr ''Malformed API-key response''),
                        (''upstream'', up)]), st, sent)
      else (case signature_json rt w sent up of
              Inl msg \<Rightarrow> (RelayCrash msg, st, sent)
            | Inr sig \<Rightarrow>
                (case fetch_text w sent (verify_of_json rt w sent address up sig) of
                   (Inl msg, sent') \<Rightarrow> (RelayCrash msg, st, sent')
                 | (Inr (vstatus, vtext), sent') \<Rightarrow>
                     if \<not> http_ok vstatus
                     then (case key_suffix up of
                             Inl msg \<Rightarrow> (RelayCrash msg, st, sent')
                           | Inr ks \<Rightarrow>
                               (case pass_suffix up of
                                  Inl msg \<Rightarrow> (RelayCrash msg, st, sent')
                                | Inr ps \<Rightarrow>
                                    ((vstatus,
                                      JObj [(''ok'', JBool False), (''where'', JStr ''verify''),
                                            (''upstream'', parse_or_raw rt vtext),
                                            (''sent'', sent_info_json ks ps (tsSec (now_at w (length sent)))
                                                         (''GET/auth/api-keys'' @ tsSec (now_at w (length sent))))]),
                                     st, sent')))
                     else (case lower_of ''eoa'' address of
                             Inl msg \<Rightarrow> (RelayCrash msg, st, sent')
                           | Inr owner \<Rightarrow>
                               (case key_suffix up of
                                  Inl msg \<Rightarrow>
                                    (RelayCrash msg, st(rowKey cfg (String_of rt address) \<mapsto> stored_tuple up owner), sent')
                                | Inr ks \<Rightarrow>
                                    (case pass_suffix up of
                                       Inl msg \<Rightarrow>
                                         (RelayCrash msg, st(rowKey cfg (String_of rt address) \<mapsto> stored_tuple up owner),
                                          sent')
                                     | Inr ps \<Rightarrow>
                                         ((200, JObj [(''ok'', JBool True), (''owner'', address),
                                                      (''keySuffix'', ks), (''passSuffix'', ps)]),
                                          st(rowKey cfg (String_of rt address) \<mapsto> stored_tuple up owner),
                                          sent')))))))"
  by (simp add: verify_and_store_json_def has_creds_def signature_json_def verify_of_json_def
        stored_tuple_def key_suffix_def pass_suffix_def Let_def
        cong: sum.case_cong prod.case_cong if_cong)

lemma lower_of_text: "lower_of name v = Inr owner \<longleftrightarrow> (\<exists>a. v = JStr a \<and> owner = toLowerCase a)"
  by (cases v) (auto simp add: lower_of_def)

lemma String_of_text: "String_of rt (JStr a) = a"
  by (simp add: String_of_def)

lemma RelayCrash_untagged: "opt_prop (Some (snd (RelayCrash msg))) ''where'' = None"
  by (simp add: RelayCrash_def)

lemma verify_and_store_json_store:
  assumes "fst (snd (verify_and_store_json rt cfg w sent st address up)) \<noteq> st"
  shows "\<exists>sig vs vt a. address = JStr a \<and> has_creds up \<and> signature_json rt w sent up = Inr sig
           \<and> respond w (length sent) (verify_of_json rt w sent address up sig) = Resp vs (Inr vt) \<and> http_ok vs
           \<and> fst (snd (verify_and_store_json rt cfg w sent st address up))
               = st(rowKey cfg a \<mapsto> stored_tuple up (toLowerCase a))"
proof -
  have c: "has_creds up" using assms by (auto simp add: verify_and_store_json_cases)
  obtain sig where s: "signature_json rt w sent up = Inr sig"
    using assms c by (cases "signature_json rt w sent up") (auto simp add: verify_and_store_json_cases)
  let ?req = "verify_of_json rt w sent address up sig"
  obtain vs vt where r: "respond w (length sent) ?req = Resp vs (Inr vt)"
    using assms c s
    by (cases "respond w (length sent) ?req")
       (auto simp add: verify_and_store_json_cases fetch_text_def split: sum.splits)
  have f: "fetch_text w sent ?req = (Inr (vs, vt), sent @ [?req])" using r by (rule fetch_text_answered)
  have ok: "http_ok vs"
    using assms c s f by (auto simp add: verify_and_store_json_cases split: sum.splits)
  obtain owner where l: "lower_of ''eoa'' address = Inr owner"
    using assms c s f ok by (cases "lower_of ''eoa'' address") (auto simp add: verify_and_store_json_cases)
  then obtain a where a: "address = JStr a" "owner = toLowerCase a" by (auto simp add: lower_of_text)
  have "fst (snd (verify_and_store_json rt cfg w sent st address up))
          = st(rowKey cfg a \<mapsto> stored_tuple up (toLowerCase a))"
    using c s f ok l a by (simp add: verify_and_store_json_cases String_of_text split: sum.splits)
  with a c s r ok show ?thesis by blast
qed

lemma provision_json_continues:
  assumes "fst (snd (provision_json rt cfg w sent st address L1)) \<noteq> st"
  shows "\<exists>up sent'. provision_json rt cfg w sent st address L1
                       = verify_and_store_json rt cfg w sent' st address up"
  using assms
  by (auto simp add: provision_json_def fetch_text_def split: outcome.splits sum.splits if_splits)

text \<open>
  Claim C5, as amended. In \<open>POST /polymarket/auth-create\<close>, once the relay key and the L1
  inputs are accepted, the flow is that of \<open>provision_json\<close>, and:

  \<^item> when create and derive are both answered with a non-OK status and the access-status
    request is answered, the reply carries the status of derive and \<open>where: "derive"\<close>;
  \<^item> when create is answered OK, or create is not and derive is, the flow continues with
    the inline verify on that answer;
  \<^item> when the answer lacks a truthy key, secret or passphrase, the reply is the 502
    \<open>Malformed API-key response\<close> and no verify request is sent;
  \<^item> when the answer holds key, secret and passphrase, the secret can be signed with, the
    verify request is answered with a non-OK status and the suffixes of key and
    passphrase can be taken, the reply carries that status and \<open>where: "verify"\<close>;
  \<^item> when the create, derive, access-status or verify request raises (the fetch rejects or
    the body cannot be read), when signing raises, or when after a non-OK verify a suffix
    cannot be taken, the reply is the 500 \<open>RelayCrash\<close> with the message of the error, which
    carries no \<open>where\<close> tag;
  \<^item> in all these cases the store is unchanged;
  \<^item> when verify is answered OK and the address is not a string, the reply is
    \<open>RelayCrash\<close> and the store is unchanged; when the address is a string, the tuple is
    written under the key of the lowercased address with the lowercased address as owner,
    and the reply is \<open>ok: true\<close>, or \<open>RelayCrash\<close> when a suffix cannot be taken;
  \<^item> the store changes only in that last case: only after a verify request was answered
    OK.
\<close>

theorem provisioning_outcomes:
  "(okRelay cfg relayKey \<and> parsed_body rt reqBody = Inr body
      \<and> truthy_opt (opt_prop (Some body) ''address'') \<and> truthy_opt (opt_prop (Some body) ''timestamp'')
      \<and> truthy_opt (opt_prop (Some body) ''eip712Signature'') \<longrightarrow>
    authCreate_json rt cfg w sent st relayKey reqBody
      = provision_json rt cfg w sent st (the (opt_prop (Some body) ''address'')) (L1_of rt body))
   \<and> (respond w (length sent) (create_request L1) = Resp cs (Inr ct) \<and> \<not> http_ok cs
        \<and> respond w (length sent + 1) (derive_request L1) = Resp ds (Inr dt) \<and> \<not> http_ok ds
        \<and> respond w (length sent + 2) (access_request (String_of rt address)) = Resp acs (Inr act) \<longrightarrow>
      fst (fst (provision_json rt cfg w sent st address L1)) = ds
        \<and> opt_prop (Some (snd (fst (provision_json rt cfg w sent st address L1)))) ''where'' = Some (JStr ''derive'')
        \<and> fst (snd (provision_json rt cfg w sent st address L1)) = st)
   \<and> (respond w (length sent) (create_request L1) = Resp cs (Inr ct) \<and> http_ok cs \<longrightarrow>
        provision_json rt cfg w sent st address L1
          = verify_and_store_json rt cfg w (sent @ [create_request L1]) st address (parse_or_raw rt ct))
   \<and> (respond w (length sent) (create_request L1) = Resp cs (Inr ct) \<and> \<not> http_ok cs
        \<and> respond w (length sent + 1) (derive_request L1) = Resp ds (Inr dt) \<and> http_ok ds \<longrightarrow>
        provision_json rt cfg w sent st address L1
          = verify_and_store_json rt cfg w (sent @ [create_request L1, derive_request L1]) st address
              (parse_or_raw rt dt))
   \<and> (fst (fetch_text w sent (create_request L1)) = Inl msg \<longrightarrow>
        fst (provision_json rt cfg w sent st address L1) = RelayCrash msg
          \<and> fst (snd (provision_json rt cfg w sent st address L1)) = st)
   \<and> (respond w (length sent) (create_request L1) = Resp cs (Inr ct) \<and> \<not> http_ok cs
        \<and> fst (fetch_text w (sent @ [create_request L1]) (derive_request L1)) = Inl msg \<longrightarrow>
        fst (provision_json rt cfg w sent st address L1) = RelayCrash msg
          \<and> fst (snd (provision_json rt cfg w sent st address L1)) = st)
   \<and> (respond w (length sent) (create_request L1) = Resp cs (Inr ct) \<and> \<not> http_ok cs
        \<and> respond w (length sent + 1) (derive_request L1) = Resp ds (Inr dt) \<and> \<not> http_ok ds
        \<and> fst (fetch_text w (sent @ [create_request L1, derive_request L1])
                 (access_request (String_of rt address))) = Inl msg \<longrightarrow>
        fst (provision_json rt cfg w sent st address L1) = RelayCrash msg
          \<and> fst (snd (provision_json rt cfg w sent st address L1)) = st)
   \<and> (\<not> has_creds up \<longrightarrow>
        verify_and_store_json rt cfg w sent st address up
          = ((502, JObj [(''ok'', JBool False), (''error'', JStr ''Malformed API-key response''),
                         (''upstream'', up)]), st, sent))
   \<and> (has_creds up \<and> signature_json rt w sent up = Inl msg \<longrightarrow>
        verify_and_store_json rt cfg w sent st address up = (RelayCrash msg, st, sent))
   \<and> (has_creds up \<and> signature_json rt w sent up = Inr sig
        \<and> fst (fetch_text w sent (verify_of_json rt w sent address up sig)) = Inl msg \<longrightarrow>
        fst (verify_and_store_json rt cfg w sent st address up) = RelayCrash msg
          \<and> fst (snd (verify_and_store_json rt cfg w sent st address up)) = st)
   \<and> (has_creds up \<and> signature_json rt w sent up = Inr sig
        \<and> respond w (length sent) (verify_of_json rt w sent address up sig) = Resp vs (Inr vt) \<and> \<not> http_ok vs
        \<and> key_suffix up = Inr ks \<and> pass_suffix up = Inr ps \<longrightarrow>
        fst (fst (verify_and_store_json rt cfg w sent st address up)) = vs
          \<and> opt_prop (Some (snd (fst (verify_and_store_json rt cfg w sent st address up)))) ''where''
              = Some (JStr ''verify'')
          \<and> fst (snd (verify_and_store_json rt cfg w sent st address up)) = st)
   \<and> (has_creds up \<and> signature_json rt w sent up = Inr sig
        \<and> respond w (length sent) (verify_of_json rt w sent address up sig) = Resp vs (Inr vt) \<and> \<not> http_ok vs
        \<and> (key_suffix up = Inl msg \<or> key_suffix up = Inr ks \<and> pass_suffix up = Inl msg) \<longrightarrow>
        fst (verify_and_store_json rt cfg w sent st address up) = RelayCrash msg
          \<and> fst (snd (verify_and_store_json rt cfg w sent st address up)) = st)
   \<and> (has_creds up \<and> signature_json rt w sent up = Inr sig
        \<and> respond w (length sent) (verify_of_json rt w sent address up sig) = Resp vs (Inr vt) \<and> http_ok vs
        \<and> lower_of ''eoa'' address = Inl msg \<longrightarrow>
        fst (verify_and_store_json rt cfg w sent st address up) = RelayCrash msg
          \<and> fst (snd (verify_and_store_json rt cfg w sent st address up)) = st)
   \<and> (has_creds up \<and> signature_json rt w sent up = Inr sig
        \<and> respond w (length sent) (verify_of_json rt w sent address up sig) = Resp vs (Inr vt) \<and> http_ok vs
        \<and> address = JStr a \<longrightarrow>
        fst (snd (verify_and_store_json rt cfg w sent st address up))
            = st(rowKey cfg a \<mapsto> stored_tuple up (toLowerCase a))
          \<and> (key_suffix up = Inr ks \<and> pass_suffix up = Inr ps \<longrightarrow>
               fst (verify_and_store_json rt cfg w sent st address up)
                 = (200, JObj [(''ok'', JBool True), (''owner'', address), (''keySuffix'', ks),
                               (''passSuffix'', ps)]))
          \<and> (key_suffix up = Inl msg \<or> key_suffix up = Inr ks \<and> pass_suffix up = Inl msg \<longrightarrow>
               fst (verify_and_store_json rt cfg w sent st address up) = RelayCrash msg))
   \<and> opt_prop (Some (snd (RelayCrash msg))) ''where'' = None
   \<and> (fst (snd (provision_json rt cfg w sent st address L1)) \<noteq> st \<longrightarrow>
        (\<exists>up' sent' sig' vs' vt' a'.
            address = JStr a' \<and> has_creds up' \<and> signature_json rt w sent' up' = Inr sig'
          \<and> respond w (length sent') (verify_of_json rt w sent' address up' sig') = Resp vs' (Inr vt')
          \<and> http_ok vs'
          \<and> fst (snd (provision_json rt cfg w sent st address L1))
              = st(rowKey cfg a' \<mapsto> stored_tuple up' (toLowerCase a'))
          \<and> t_owner (stored_tuple up' (toLowerCase a')) = toLowerCase a'))"
proof -
  have p1: "okRelay cfg relayKey \<and> parsed_body rt reqBody = Inr body
      \<and> truthy_opt (opt_prop (Some body) ''address'') \<and> truthy_opt (opt_prop (Some body) ''timestamp'')
      \<and> truthy_opt (opt_prop (Some body) ''eip712Signature'') \<longrightarrow>
    authCreate_json rt cfg w sent st relayKey reqBody
      = provision_json rt cfg w sent st (the (opt_prop (Some body) ''address'')) (L1_of rt body)"
    by (simp add: authCreate_json_def L1_of_def Let_def)
  have p2: "respond w (length sent) (create_request L1) = Resp cs (Inr ct) \<and> \<not> http_ok cs
        \<and> respond w (length sent + 1) (derive_request L1) = Resp ds (Inr dt) \<and> \<not> http_ok ds
        \<and> respond w (length sent + 2) (access_request (String_of rt address)) = Resp acs (Inr act) \<longrightarrow>
      fst (fst (provision_json rt cfg w sent st address L1)) = ds
        \<and> opt_prop (Some (snd (fst (provision_json rt cfg w sent st address L1)))) ''where'' = Some (JStr ''derive'')
        \<and> fst (snd (provision_json rt cfg w sent st address L1)) = st"
    by (simp add: provision_json_def fetch_text_def)
  have p3: "respond w (length sent) (create_request L1) = Resp cs (Inr ct) \<and> http_ok cs \<longrightarrow>
        provision_json rt cfg w sent st address L1
          = verify_and_store_json rt cfg w (sent @ [create_request L1]) st address (parse_or_raw rt ct)"
    by (simp add: provision_json_def fetch_text_def)
  have p4: "respond w (length sent) (create_request L1) = Resp cs (Inr ct) \<and> \<not> http_ok cs
        \<and> respond w (length sent + 1) (derive_request L1) = Resp ds (Inr dt) \<and> http_ok ds \<longrightarrow>
        provision_json rt cfg w sent st address L1
          = verify_and_store_json rt cfg w (sent @ [create_request L1, derive_request L1]) st address
              (parse_or_raw rt dt)"
    by (simp add: provision_json_def fetch_text_def)
  have p5: "fst (fetch_text w sent (create_request L1)) = Inl msg \<longrightarrow>
        fst (provision_json rt cfg w sent st address L1) = RelayCrash msg
          \<and> fst (snd (provision_json rt cfg w sent st address L1)) = st"
    by (auto simp add: provision_json_def dest: fetch_text_raised)
  have p6: "respond w (length sent) (create_request L1) = Resp cs (Inr ct) \<and> \<not> http_ok cs
        \<and> fst (fetch_text w (sent @ [create_request L1]) (derive_request L1)) = Inl msg \<longrightarrow>
        fst (provision_json rt cfg w sent st address L1) = RelayCrash msg
          \<and> fst (snd (provision_json rt cfg w sent st address L1)) = st"
    by (auto simp add: provision_json_def fetch_text_answered dest: fetch_text_raised)
  have p7: "respond w (length sent) (create_request L1) = Resp cs (Inr ct) \<and> \<not> http_ok cs
        \<and> respond w (length sent + 1) (derive_request L1) = Resp ds (Inr dt) \<and> \<not> http_ok ds
        \<and> fst (fetch_text w (sent @ [create_request L1, derive_request L1])
                 (access_request (String_of rt address))) = Inl msg \<longrightarrow>
        fst (provision_json rt cfg w sent st address L1) = RelayCrash msg
          \<and> fst (snd (provision_json rt cfg w sent st address L1)) = st"
    by (auto simp add: provision_json_def fetch_text_answered dest: fetch_text_raised)
  have p7': "\<not> has_creds up \<longrightarrow>
        verify_and_store_json rt cfg w sent st address up
          = ((502, JObj [(''ok'', JBool False), (''error'', JStr ''Malformed API-key response''),
                         (''upstream'', up)]), st, sent)"
    by (simp add: verify_and_store_json_cases)
  have p8: "has_creds up \<and> signature_json rt w sent up = Inl msg \<longrightarrow>
        verify_and_store_json rt cfg w sent st address up = (RelayCrash msg, st, sent)"
    by (simp add: verify_and_store_json_cases)
  have p9: "has_creds up \<and> signature_json rt w sent up = Inr sig
        \<and> fst (fetch_text w sent (verify_of_json rt w sent address up sig)) = Inl msg \<longrightarrow>
        fst (verify_and_store_json rt cfg w sent st address up) = RelayCrash msg
          \<and> fst (snd (verify_and_store_json rt cfg w sent st address up)) = st"
    by (auto simp add: verify_and_store_json_cases dest: fetch_text_raised)
  have p10: "has_creds up \<and> signature_json rt w sent up = Inr sig
        \<and> respond w (length sent) (verify_of_json rt w sent address up sig) = Resp vs (Inr vt) \<and> \<not> http_ok vs
        \<and> key_suffix up = Inr ks \<and> pass_suffix up = Inr ps \<longrightarrow>
        fst (fst (verify_and_store_json rt cfg w sent st address up)) = vs
          \<and> opt_prop (Some (snd (fst (verify_and_store_json rt cfg w sent st address up)))) ''where''
              = Some (JStr ''verify'')
          \<and> fst (snd (verify_and_store_json rt cfg w sent st address up)) = st"
    by (simp add: verify_and_store_json_cases fetch_text_answered)
  have p11: "has_creds up \<and> signature_json rt w sent up = Inr sig
        \<and> respond w (length sent) (verify_of_json rt w sent address up sig) = Resp vs (Inr vt) \<and> \<not> http_ok vs
        \<and> (key_suffix up = Inl msg \<or> key_suffix up = Inr ks \<and> pass_suffix up = Inl msg) \<longrightarrow>
        fst (verify_and_store_json rt cfg w sent st address up) = RelayCrash msg
          \<and> fst (snd (verify_and_store_json rt cfg w sent st address up)) = st"
    by (auto simp add: verify_and_store_json_cases fetch_text_answered)
  have p12: "has_creds up \<and> signature_json rt w sent up = Inr sig
        \<and> respond w (length sent) (verify_of_json rt w sent address up sig) = Resp vs (Inr vt) \<and> http_ok vs
        \<and> lower_of ''eoa'' address = Inl msg \<longrightarrow>
        fst (verify_and_store_json rt cfg w sent st address up) = RelayCrash msg
          \<and> fst (snd (verify_and_store_json rt cfg w sent st address up)) = st"
    by (simp add: verify_and_store_json_cases fetch_text_answered)
  have low: "lower_of ''eoa'' (JStr a) = Inr (toLowerCase a)" by (simp add: lower_of_def)
  have p13: "has_creds up \<and> signature_json rt w sent up = Inr sig
        \<and> respond w (length sent) (verify_of_json rt w sent address up sig) = Resp vs (Inr vt) \<and> http_ok vs
        \<and> address = JStr a \<longrightarrow>
        fst (snd (verify_and_store_json rt cfg w sent st address up))
            = st(rowKey cfg a \<mapsto> stored_tuple up (toLowerCase a))
          \<and> (key_suffix up = Inr ks \<and> pass_suffix up = Inr ps \<longrightarrow>
               fst (verify_and_store_json rt cfg w sent st address up)
                 = (200, JObj [(''ok'', JBool True), (''owner'', address), (''keySuffix'', ks),
                               (''passSuffix'', ps)]))
          \<and> (key_suffix up = Inl msg \<or> key_suffix up = Inr ks \<and> pass_suffix up = Inl msg \<longrightarrow>
               fst (verify_and_store_json rt cfg w sent st address up) = RelayCrash msg)"
    by (auto simp add: verify_and_store_json_cases fetch_text_answered low String_of_text split: sum.splits)
  have p14: "opt_prop (Some (snd (RelayCrash msg))) ''where'' = None"
    by (rule RelayCrash_untagged)
  have p15: "fst (snd (provision_json rt cfg w sent st address L1)) \<noteq> st \<longrightarrow>
        (\<exists>up' sent' sig' vs' vt' a'.
            address = JStr a' \<and> has_creds up' \<and> signature_json rt w sent' up' = Inr sig'
          \<and> respond w (length sent') (verify_of_json rt w sent' address up' sig') = Resp vs' (Inr vt')
          \<and> http_ok vs'
          \<and> fst (snd (provision_json rt cfg w sent st address L1))
              = st(rowKey cfg a' \<mapsto> stored_tuple up' (toLowerCase a'))
          \<and> t_owner (stored_tuple up' (toLowerCase a')) = toLowerCase a')"
  proof (rule impI)
    assume ch: "fst (snd (provision_json rt cfg w sent st address L1)) \<noteq> st"
    from provision_json_continues [OF ch] obtain up' sent' where
      e: "provision_json rt cfg w sent st address L1 = verify_and_store_json rt cfg w sent' st address up'"
      by blast
    from ch have "fst (snd (verify_and_store_json rt cfg w sent' st address up')) \<noteq> st" by (simp add: e)
    from verify_and_store_json_store [OF this] obtain sig' vs' vt' a' where
      v: "address = JStr a'" "has_creds up'" "signature_json rt w sent' up' = Inr sig'"
         "respond w (length sent') (verify_of_json rt w sent' address up' sig') = Resp vs' (Inr vt')"
         "http_ok vs'"
         "fst (snd (verify_and_store_json rt cfg w sent' st address up'))
            = st(rowKey cfg a' \<mapsto> stored_tuple up' (toLowerCase a'))"
      by blast
    have o: "t_owner (stored_tuple up' (toLowerCase a')) = toLowerCase a'" by (simp add: stored_tuple_def)
    from v o show "\<exists>up' sent' sig' vs' vt' a'.
            address = JStr a' \<and> has_creds up' \<and> signature_json rt w sent' up' = Inr sig'
          \<and> respond w (length sent') (verify_of_json rt w sent' address up' sig') = Resp vs' (Inr vt')
          \<and> http_ok vs'
          \<and> fst (snd (provision_json rt cfg w sent st address L1))
              = st(rowKey cfg a' \<mapsto> stored_tuple up' (toLowerCase a'))
          \<and> t_owner (stored_tuple up' (toLowerCase a')) = toLowerCase a'"
      unfolding e by blast
  qed
  from p1 p2 p3 p4 p5 p6 p7 p7' p8 p9 p10 p11 p12 p13 p14 p15 show ?thesis by (intro conjI)
qed


lemma sample_authCreate_json:
  "authCreate_json sample_runtime sample_config w [] st (Some ''relay-key'') (BodyJson sample_l1)
     = provision_json sample_runtime sample_config w [] st (JStr ''0xAB'') sample_L1"
  by (simp add: authCreate_json_def okRelay_def sample_config_def parsed_body_def sample_l1_def
        truthy_opt_def Let_def String_of_def sample_simps sample_String_def sample_L1_def)

lemma sample_parsed:
  "parse_or_raw sample_runtime creds_text = creds_up"
  "parse_or_raw sample_runtime numeric_key_text = numeric_key_up"
  "parse_or_raw sample_runtime ''denied'' = JStr ''denied''"
  by (simp_all add: parse_or_raw_def sample_simps creds_up_def numeric_key_up_def)

lemma sample_has_creds:
  "has_creds creds_up" "has_creds numeric_key_up" "has_creds numeric_secret_up" "has_creds numeric_pass_up"
  by (simp_all add: has_creds_def truthy_opt_def creds_up_def numeric_key_up_def numeric_secret_up_def
        numeric_pass_up_def)

lemma sample_signature:
  "signature_json sample_runtime w sent creds_up
     = Inr (hmacB64 sample_hmac ''QUJD'' (''GET/auth/api-keys'' @ tsSec (now_at w (length sent))))"
  "signature_json sample_runtime w sent numeric_key_up
     = Inr (hmacB64 sample_hmac ''QUJD'' (''GET/auth/api-keys'' @ tsSec (now_at w (length sent))))"
  "signature_json sample_runtime w sent numeric_pass_up
     = Inr (hmacB64 sample_hmac ''QUJD'' (''GET/auth/api-keys'' @ tsSec (now_at w (length sent))))"
  "signature_json sample_runtime w sent numeric_secret_up
     = Inl ''The first argument must be of type string or an instance of Buffer''"
  by (simp_all add: signature_json_def hmacB64_json_def creds_up_def numeric_key_up_def numeric_secret_up_def
        numeric_pass_up_def sample_runtime_simps sample_buffer_def)

lemma sample_suffixes:
  "key_suffix creds_up = Inr (JStr ''123456'')"
  "pass_suffix creds_up = Inr (JStr ''ss-1'')"
  "key_suffix numeric_key_up = Inl ''key.slice is not a function''"
  "key_suffix numeric_pass_up = Inr (JStr ''123456'')"
  "pass_suffix numeric_pass_up = Inl ''passphrase.slice is not a function''"
  by (simp_all add: key_suffix_def pass_suffix_def slice_last_def suffix_def creds_up_def numeric_key_up_def
        numeric_pass_up_def)

lemma sample_lower: "toLowerCase ''0xAB'' = ''0xab''"
  by (simp add: toLowerCase_def lower_char_def)

text \<open>
  The claim as stated fails in two ways. When the diagnostic request raises: create and
  derive are both answered 403, the access-status fetch is refused, and the reply is the
  500 \<open>RelayCrash\<close> of the handler's \<open>catch\<close>, which carries no \<open>where\<close> tag. And when the
  exchange answers create with the number 12345678 as key: the key is truthy, the verify
  request is sent and answered 401, and \<open>key.slice(-6)\<close> raises while the reply is built,
  so the reply is again \<open>RelayCrash\<close> without a \<open>where\<close> tag.
\<close>

theorem provisioning_outcomes_counterexample:
  "respond diagnostic_down 0 (create_request sample_L1) = Resp 403 (Inr ''denied'')
   \<and> respond diagnostic_down 1 (derive_request sample_L1) = Resp 403 (Inr ''denied'')
   \<and> \<not> http_ok 403
   \<and> fst (authCreate_json sample_runtime sample_config diagnostic_down [] empty_tuples (Some ''relay-key'')
             (BodyJson sample_l1)) = RelayCrash ''connect ECONNREFUSED''
   \<and> opt_prop (Some (snd (fst (authCreate_json sample_runtime sample_config diagnostic_down [] empty_tuples
                                 (Some ''relay-key'') (BodyJson sample_l1))))) ''where'' = None
   \<and> respond numeric_key_denied 0 (create_request sample_L1) = Resp 200 (Inr numeric_key_text)
   \<and> http_ok 200
   \<and> opt_prop (Some (parse_or_raw sample_runtime numeric_key_text)) ''key'' = Some (JNum 12345678)
   \<and> map req_url (snd (snd (authCreate_json sample_runtime sample_config numeric_key_denied [] empty_tuples
                                (Some ''relay-key'') (BodyJson sample_l1))))
        = [CLOB @ ''/auth/api-key'', CLOB @ ''/auth/api-keys'']
   \<and> respond numeric_key_denied 1
        (last (snd (snd (authCreate_json sample_runtime sample_config numeric_key_denied [] empty_tuples
                           (Some ''relay-key'') (BodyJson sample_l1))))) = Resp 401 (Inr ''denied'')
   \<and> \<not> http_ok 401
   \<and> fst (authCreate_json sample_runtime sample_config numeric_key_denied [] empty_tuples (Some ''relay-key'')
             (BodyJson sample_l1)) = RelayCrash ''key.slice is not a function''
   \<and> opt_prop (Some (snd (fst (authCreate_json sample_runtime sample_config numeric_key_denied [] empty_tuples
                                 (Some ''relay-key'') (BodyJson sample_l1))))) ''where'' = None"
proof -
  have d: "authCreate_json sample_runtime sample_config diagnostic_down [] empty_tuples (Some ''relay-key'')
             (BodyJson sample_l1)
           = (RelayCrash ''connect ECONNREFUSED'', empty_tuples,
              [create_request sample_L1, derive_request sample_L1, access_request ''0xAB''])"
    by (simp add: sample_authCreate_json provision_json_def fetch_text_def diagnostic_down_def scripted_respond
          http_ok_def String_of_text)
  have n: "authCreate_json sample_runtime sample_config numeric_key_denied [] empty_tuples (Some ''relay-key'')
             (BodyJson sample_l1)
           = (RelayCrash ''key.slice is not a function'', empty_tuples,
              [create_request sample_L1,
               verify_of_json sample_runtime numeric_key_denied [create_request sample_L1] (JStr ''0xAB'')
                 numeric_key_up
                 (hmacB64 sample_hmac ''QUJD''
                    (''GET/auth/api-keys'' @ tsSec (now_at numeric_key_denied (length [create_request sample_L1]))))])"
    by (simp add: sample_authCreate_json provision_json_def fetch_text_def numeric_key_denied_def scripted_respond
          http_ok_def sample_parsed verify_and_store_json_cases sample_has_creds sample_signature sample_suffixes)
  have r: "respond diagnostic_down 0 (create_request sample_L1) = Resp 403 (Inr ''denied'')"
          "respond diagnostic_down 1 (derive_request sample_L1) = Resp 403 (Inr ''denied'')"
          "respond numeric_key_denied 0 (create_request sample_L1) = Resp 200 (Inr numeric_key_text)"
          "respond numeric_key_denied 1 req = Resp 401 (Inr ''denied'')" for req
    by (simp_all add: diagnostic_down_def numeric_key_denied_def scripted_respond)
  have k: "opt_prop (Some (parse_or_raw sample_runtime numeric_key_text)) ''key'' = Some (JNum 12345678)"
    by (simp add: sample_parsed numeric_key_up_def)
  have u: "map req_url [create_request sample_L1,
               verify_of_json sample_runtime numeric_key_denied [create_request sample_L1] (JStr ''0xAB'')
                 numeric_key_up
                 (hmacB64 sample_hmac ''QUJD''
                    (''GET/auth/api-keys'' @ tsSec (now_at numeric_key_denied (length [create_request sample_L1]))))]
           = [CLOB @ ''/auth/api-key'', CLOB @ ''/auth/api-keys'']"
    by (simp add: create_request_def verify_of_json_def verify_request_def)
  have h: "\<not> http_ok 403" "http_ok 200" "\<not> http_ok 401" by (simp_all add: http_ok_def)
  show ?thesis
    unfolding d n using r k u h by (simp add: RelayCrash_untagged)
qed

text \<open>
  Instances. Everything denied; create answered with credentials and verify OK; create
  denied, derive answered with credentials and verify answered 401. The exchange
  unreachable at create, at derive, at the diagnostic request and at verify, and a create
  answer whose body cannot be read. An empty object as the answer of create. A secret, a
  key, a passphrase and an address that are the number 12345678: signing raises before
  anything is sent, the suffix of the key or of the passphrase raises after a 401, the
  lowercasing of the address raises after an OK verify with the store unchanged, and the
  suffix of the key raises after an OK verify with the tuple already written.
\<close>


theorem provisioning_outcomes_witness:
  "authCreate_json sample_runtime sample_config all_denied [] empty_tuples (Some ''relay-key'') (BodyJson
        sample_l1) = provision_json sample_runtime sample_config all_denied [] empty_tuples (JStr ''0xAB'')
        sample_L1
   \<and> opt_prop (Some (snd (fst (provision_json sample_runtime sample_config all_denied [] empty_tuples (JStr
         ''0xAB'') sample_L1)))) ''where'' = Some (JStr ''derive'')
   \<and> provision_json sample_runtime sample_config created_verified [] empty_tuples (JStr ''0xAB'') sample_L1
         = verify_and_store_json sample_runtime sample_config created_verified [create_request sample_L1]
         empty_tuples (JStr ''0xAB'') creds_up
   \<and> provision_json sample_runtime sample_config derived_unverified [] empty_tuples (JStr ''0xAB'')
         sample_L1 = verify_and_store_json sample_runtime sample_config derived_unverified [create_request
         sample_L1, derive_request sample_L1] empty_tuples (JStr ''0xAB'') creds_up
   \<and> fst (provision_json sample_runtime sample_config unreachable [] empty_tuples (JStr ''0xAB'')
         sample_L1) = RelayCrash ''connect ECONNREFUSED''
   \<and> fst (provision_json sample_runtime sample_config create_unreadable [] empty_tuples (JStr ''0xAB'')
         sample_L1) = RelayCrash ''Premature close''
   \<and> fst (provision_json sample_runtime sample_config forbidden [] empty_tuples (JStr ''0xAB'') sample_L1)
         = RelayCrash ''connect ECONNREFUSED''
   \<and> fst (provision_json sample_runtime sample_config diagnostic_down [] empty_tuples (JStr ''0xAB'')
         sample_L1) = RelayCrash ''connect ECONNREFUSED''
   \<and> verify_and_store_json sample_runtime sample_config accepted_without_id [create_request sample_L1]
         empty_tuples (JStr ''0xAB'') (JObj []) = ((502, JObj [(''ok'', JBool False), (''error'', JStr
         ''Malformed API-key response''), (''upstream'', JObj [])]), empty_tuples, [create_request sample_L1])
   \<and> verify_and_store_json sample_runtime sample_config created_verified [create_request sample_L1]
         empty_tuples (JStr ''0xAB'') numeric_secret_up = (RelayCrash
         ''The first argument must be of type string or an instance of Buffer'', empty_tuples, [create_request
         sample_L1])
   \<and> fst (verify_and_store_json sample_runtime sample_config verify_down [create_request sample_L1]
         empty_tuples (JStr ''0xAB'') creds_up) = RelayCrash ''connect ECONNREFUSED''
   \<and> opt_prop (Some (snd (fst (verify_and_store_json sample_runtime sample_config derived_unverified
         [create_request sample_L1, derive_request sample_L1] empty_tuples (JStr ''0xAB'') creds_up))))
         ''where'' = Some (JStr ''verify'')
   \<and> fst (snd (verify_and_store_json sample_runtime sample_config derived_unverified [create_request
         sample_L1, derive_request sample_L1] empty_tuples (JStr ''0xAB'') creds_up)) = empty_tuples
   \<and> fst (verify_and_store_json sample_runtime sample_config numeric_key_denied [create_request sample_L1]
         empty_tuples (JStr ''0xAB'') numeric_key_up) = RelayCrash ''key.slice is not a function''
   \<and> fst (snd (verify_and_store_json sample_runtime sample_config numeric_key_denied [create_request
         sample_L1] empty_tuples (JStr ''0xAB'') numeric_key_up)) = empty_tuples
   \<and> fst (verify_and_store_json sample_runtime sample_config derived_unverified [create_request sample_L1,
         derive_request sample_L1] empty_tuples (JStr ''0xAB'') numeric_pass_up) = RelayCrash
         ''passphrase.slice is not a function''
   \<and> fst (verify_and_store_json sample_runtime sample_config created_verified [create_request sample_L1]
         empty_tuples (JNum 12345678) creds_up) = RelayCrash ''eoa.toLowerCase is not a function''
   \<and> fst (snd (verify_and_store_json sample_runtime sample_config created_verified [create_request
         sample_L1] empty_tuples (JNum 12345678) creds_up)) = empty_tuples
   \<and> fst (snd (verify_and_store_json sample_runtime sample_config created_verified [create_request
         sample_L1] empty_tuples (JStr ''0xAB'') creds_up)) = empty_tuples(rowKey sample_config ''0xAB''
         \<mapsto> stored_tuple creds_up ''0xab'')
   \<and> fst (verify_and_store_json sample_runtime sample_config created_verified [create_request sample_L1]
         empty_tuples (JStr ''0xAB'') creds_up) = (200, JObj [(''ok'', JBool True), (''owner'', JStr ''0xAB''),
         (''keySuffix'', JStr ''123456''), (''passSuffix'', JStr ''ss-1'')])
   \<and> fst (snd (verify_and_store_json sample_runtime sample_config numeric_key_verified [create_request
         sample_L1] empty_tuples (JStr ''0xAB'') numeric_key_up)) = empty_tuples(rowKey sample_config ''0xAB''
         \<mapsto> stored_tuple numeric_key_up ''0xab'')
   \<and> fst (verify_and_store_json sample_runtime sample_config numeric_key_verified [create_request
         sample_L1] empty_tuples (JStr ''0xAB'') numeric_key_up) = RelayCrash ''key.slice is not a function''
   \<and> (\<exists>up'. fst (snd (provision_json sample_runtime sample_config created_verified [] empty_tuples
         (JStr ''0xAB'') sample_L1)) = empty_tuples(rowKey sample_config ''0xAB'' \<mapsto> stored_tuple up'
         ''0xab''))"
proof -
  have no: "\<not> http_ok 403" "\<not> http_ok 401" and yes: "http_ok 200" by (simp_all add: http_ok_def)
  have h1: "okRelay sample_config (Some ''relay-key'')
        \<and> parsed_body sample_runtime (BodyJson sample_l1) = Inr sample_l1
        \<and> truthy_opt (opt_prop (Some sample_l1) ''address'')
        \<and> truthy_opt (opt_prop (Some sample_l1) ''timestamp'')
        \<and> truthy_opt (opt_prop (Some sample_l1) ''eip712Signature'')"
    by (simp add: okRelay_def sample_config_def parsed_body_def sample_l1_def truthy_opt_def)
  have b: "the (opt_prop (Some sample_l1) ''address'') = JStr ''0xAB''" "L1_of sample_runtime sample_l1 =
        sample_L1"
    by (simp_all add: sample_l1_def L1_of_def sample_L1_def String_of_def sample_runtime_simps
          sample_String_def)
  note c1 = provisioning_outcomes [where cfg = sample_config and relayKey = "Some ''relay-key''"
        and rt = sample_runtime and reqBody = "BodyJson sample_l1" and body = sample_l1 and w = all_denied
        and sent = "[]" and st = empty_tuples, THEN conjunct1, THEN mp, OF h1]
  have h2: "respond all_denied (length ([] :: request list)) (create_request sample_L1) = Resp 403 (Inr
        ''denied'') \<and> \<not> http_ok 403 \<and> respond all_denied (length ([] :: request list) + 1)
        (derive_request sample_L1) = Resp 403 (Inr ''denied'') \<and> \<not> http_ok 403
        \<and> respond all_denied (length ([] :: request list) + 2) (access_request (String_of sample_runtime
        (JStr ''0xAB''))) = Resp 200 (Inr ''{}'')"
    using no by (simp add: all_denied_def scripted_respond)
  note c2 = provisioning_outcomes [where w = all_denied and sent = "[]" and ?L1.0 = sample_L1
        and address = "JStr ''0xAB''" and cs = 403 and ct = "''denied''" and ds = 403 and dt = "''denied''"
        and acs = 200 and act = "''{}''" and rt = sample_runtime and cfg = sample_config
        and st = empty_tuples, THEN conjunct2, THEN conjunct1, THEN mp, OF h2]
  have h3: "respond created_verified (length ([] :: request list)) (create_request sample_L1) = Resp 200 (Inr
        creds_text) \<and> http_ok 200"
    using yes by (simp add: created_verified_def scripted_respond)
  note c3 = provisioning_outcomes [where w = created_verified and sent = "[]" and ?L1.0 = sample_L1
        and address = "JStr ''0xAB''" and cs = 200 and ct = creds_text and rt = sample_runtime
        and cfg = sample_config and st = empty_tuples, THEN conjunct2, THEN conjunct2, THEN conjunct1, THEN mp,
        OF h3]
  have h4: "respond derived_unverified (length ([] :: request list)) (create_request sample_L1) = Resp 403 (Inr
        ''denied'') \<and> \<not> http_ok 403 \<and> respond derived_unverified (length ([] :: request list) +
        1) (derive_request sample_L1) = Resp 200 (Inr creds_text) \<and> http_ok 200"
    using no yes by (simp add: derived_unverified_def scripted_respond)
  note c4 = provisioning_outcomes [where w = derived_unverified and sent = "[]" and ?L1.0 = sample_L1
        and address = "JStr ''0xAB''" and cs = 403 and ct = "''denied''" and ds = 200 and dt = creds_text
        and rt = sample_runtime and cfg = sample_config
        and st = empty_tuples, THEN conjunct2, THEN conjunct2, THEN conjunct2, THEN conjunct1, THEN mp, OF h4]
  have h5: "fst (fetch_text unreachable [] (create_request sample_L1)) = Inl ''connect ECONNREFUSED''"
    by (simp add: fetch_text_def unreachable_def scripted_respond)
  note c5 = provisioning_outcomes [where w = unreachable and sent = "[]" and ?L1.0 = sample_L1
        and address = "JStr ''0xAB''" and msg = "''connect ECONNREFUSED''" and rt = sample_runtime
        and cfg = sample_config and st = empty_tuples, THEN conjunct2, THEN conjunct2, THEN conjunct2, THEN
        conjunct2, THEN conjunct1, THEN mp, OF h5]
  have h5': "fst (fetch_text create_unreadable [] (create_request sample_L1)) = Inl ''Premature close''"
    by (simp add: fetch_text_def create_unreadable_def scripted_respond)
  note c5' = provisioning_outcomes [where w = create_unreadable and sent = "[]" and ?L1.0 = sample_L1
        and address = "JStr ''0xAB''" and msg = "''Premature close''" and rt = sample_runtime
        and cfg = sample_config and st = empty_tuples, THEN conjunct2, THEN conjunct2, THEN conjunct2, THEN
        conjunct2, THEN conjunct1, THEN mp, OF h5']
  have h6: "respond forbidden (length ([] :: request list)) (create_request sample_L1) = Resp 403 (Inr
        ''denied'') \<and> \<not> http_ok 403 \<and> fst (fetch_text forbidden ([] @ [create_request sample_L1])
        (derive_request sample_L1)) = Inl ''connect ECONNREFUSED''"
    using no by (simp add: fetch_text_def forbidden_def scripted_respond)
  note c6 = provisioning_outcomes [where w = forbidden and sent = "[]" and ?L1.0 = sample_L1
        and address = "JStr ''0xAB''" and cs = 403 and ct = "''denied''" and msg = "''connect ECONNREFUSED''"
        and rt = sample_runtime and cfg = sample_config
        and st = empty_tuples, THEN conjunct2, THEN conjunct2, THEN conjunct2, THEN conjunct2, THEN conjunct2,
        THEN conjunct1, THEN mp, OF h6]
  have h7: "respond diagnostic_down (length ([] :: request list)) (create_request sample_L1) = Resp 403 (Inr
        ''denied'') \<and> \<not> http_ok 403 \<and> respond diagnostic_down (length ([] :: request list) + 1)
        (derive_request sample_L1) = Resp 403 (Inr ''denied'') \<and> \<not> http_ok 403
        \<and> fst (fetch_text diagnostic_down ([] @ [create_request sample_L1, derive_request sample_L1])
        (access_request (String_of sample_runtime (JStr ''0xAB'')))) = Inl ''connect ECONNREFUSED''"
    using no by (simp add: fetch_text_def diagnostic_down_def scripted_respond)
  note c7 = provisioning_outcomes [where w = diagnostic_down and sent = "[]" and ?L1.0 = sample_L1
        and address = "JStr ''0xAB''" and cs = 403 and ct = "''denied''" and ds = 403 and dt = "''denied''"
        and msg = "''connect ECONNREFUSED''" and rt = sample_runtime and cfg = sample_config
        and st = empty_tuples, THEN conjunct2, THEN conjunct2, THEN conjunct2, THEN conjunct2, THEN conjunct2,
        THEN conjunct2, THEN conjunct1, THEN mp, OF h7]
  have h8: "\<not> has_creds (JObj [])"
    by (simp add: has_creds_def truthy_opt_def)
  note c8 = provisioning_outcomes [where w = accepted_without_id and sent = "[create_request sample_L1]"
        and address = "JStr ''0xAB''" and up = "JObj []" and rt = sample_runtime and cfg = sample_config
        and st = empty_tuples, THEN conjunct2, THEN conjunct2, THEN conjunct2, THEN conjunct2, THEN conjunct2,
        THEN conjunct2, THEN conjunct2, THEN conjunct1, THEN mp, OF h8]
  have h9: "has_creds numeric_secret_up \<and> signature_json sample_runtime created_verified [create_request
        sample_L1] numeric_secret_up = Inl
        ''The first argument must be of type string or an instance of Buffer''"
    by (simp add: sample_has_creds sample_signature)
  note c9 = provisioning_outcomes [where w = created_verified and sent = "[create_request sample_L1]"
        and address = "JStr ''0xAB''" and up = numeric_secret_up
        and msg = "''The first argument must be of type string or an instance of Buffer''"
        and rt = sample_runtime and cfg = sample_config
        and st = empty_tuples, THEN conjunct2, THEN conjunct2, THEN conjunct2, THEN conjunct2, THEN conjunct2,
        THEN conjunct2, THEN conjunct2, THEN conjunct2, THEN conjunct1, THEN mp, OF h9]
  have h10: "has_creds creds_up \<and> signature_json sample_runtime verify_down [create_request sample_L1]
        creds_up = Inr (hmacB64 sample_hmac ''QUJD'' (''GET/auth/api-keys'' @ tsSec (now_at verify_down (length
        [create_request sample_L1])))) \<and> fst (fetch_text verify_down [create_request sample_L1]
        (verify_of_json sample_runtime verify_down [create_request sample_L1] (JStr ''0xAB'') creds_up (hmacB64
        sample_hmac ''QUJD'' (''GET/auth/api-keys'' @ tsSec (now_at verify_down (length [create_request
        sample_L1])))))) = Inl ''connect ECONNREFUSED''"
    by (simp add: sample_has_creds sample_signature fetch_text_def verify_down_def scripted_respond)
  note c10 = provisioning_outcomes [where w = verify_down and sent = "[create_request sample_L1]"
        and address = "JStr ''0xAB''" and up = creds_up
        and sig = "hmacB64 sample_hmac ''QUJD'' (''GET/auth/api-keys'' @ tsSec (now_at verify_down (length
        [create_request sample_L1])))" and msg = "''connect ECONNREFUSED''" and rt = sample_runtime
        and cfg = sample_config and st = empty_tuples, THEN conjunct2, THEN conjunct2, THEN conjunct2, THEN
        conjunct2, THEN conjunct2, THEN conjunct2, THEN conjunct2, THEN conjunct2, THEN conjunct2, THEN
        conjunct1, THEN mp, OF h10]
  have h11: "has_creds creds_up \<and> signature_json sample_runtime derived_unverified [create_request
        sample_L1, derive_request sample_L1] creds_up = Inr (hmacB64 sample_hmac ''QUJD'' (''GET/auth/api-keys''
        @ tsSec (now_at derived_unverified (length [create_request sample_L1, derive_request sample_L1]))))
        \<and> respond derived_unverified (length [create_request sample_L1, derive_request sample_L1])
        (verify_of_json sample_runtime derived_unverified [create_request sample_L1, derive_request sample_L1]
        (JStr ''0xAB'') creds_up (hmacB64 sample_hmac ''QUJD'' (''GET/auth/api-keys'' @ tsSec (now_at
        derived_unverified (length [create_request sample_L1, derive_request sample_L1]))))) = Resp 401 (Inr
        ''denied'') \<and> \<not> http_ok 401 \<and> key_suffix creds_up = Inr (JStr ''123456'')
        \<and> pass_suffix creds_up = Inr (JStr ''ss-1'')"
    using no by (simp add: sample_has_creds sample_signature sample_suffixes derived_unverified_def
          scripted_respond)
  note c11 = provisioning_outcomes [where w = derived_unverified
        and sent = "[create_request sample_L1, derive_request sample_L1]" and address = "JStr ''0xAB''"
        and up = creds_up and sig = "hmacB64 sample_hmac ''QUJD'' (''GET/auth/api-keys'' @ tsSec (now_at
        derived_unverified (length [create_request sample_L1, derive_request sample_L1])))" and vs = 401
        and vt = "''denied''" and ks = "JStr ''123456''" and ps = "JStr ''ss-1''" and rt = sample_runtime
        and cfg = sample_config and st = empty_tuples, THEN conjunct2, THEN conjunct2, THEN conjunct2, THEN
        conjunct2, THEN conjunct2, THEN conjunct2, THEN conjunct2, THEN conjunct2, THEN conjunct2, THEN
        conjunct2, THEN conjunct1, THEN mp, OF h11]
  have h12: "has_creds numeric_key_up \<and> signature_json sample_runtime numeric_key_denied [create_request
        sample_L1] numeric_key_up = Inr (hmacB64 sample_hmac ''QUJD'' (''GET/auth/api-keys'' @ tsSec (now_at
        numeric_key_denied (length [create_request sample_L1]))))
        \<and> respond numeric_key_denied (length [create_request sample_L1]) (verify_of_json sample_runtime
        numeric_key_denied [create_request sample_L1] (JStr ''0xAB'') numeric_key_up (hmacB64 sample_hmac
        ''QUJD'' (''GET/auth/api-keys'' @ tsSec (now_at numeric_key_denied (length [create_request
        sample_L1]))))) = Resp 401 (Inr ''denied'') \<and> \<not> http_ok 401
        \<and> (key_suffix numeric_key_up = Inl ''key.slice is not a function''
        \<or> key_suffix numeric_key_up = Inr (JStr ''123456'')
        \<and> pass_suffix numeric_key_up = Inl ''key.slice is not a function'')"
    using no by (simp add: sample_has_creds sample_signature sample_suffixes numeric_key_denied_def
          scripted_respond)
  note c12 = provisioning_outcomes [where w = numeric_key_denied and sent = "[create_request sample_L1]"
        and address = "JStr ''0xAB''" and up = numeric_key_up
        and sig = "hmacB64 sample_hmac ''QUJD'' (''GET/auth/api-keys'' @ tsSec (now_at numeric_key_denied
        (length [create_request sample_L1])))" and vs = 401 and vt = "''denied''" and ks = "JStr ''123456''"
        and msg = "''key.slice is not a function''" and rt = sample_runtime and cfg = sample_config
        and st = empty_tuples, THEN conjunct2, THEN conjunct2, THEN conjunct2, THEN conjunct2, THEN conjunct2,
        THEN conjunct2, THEN conjunct2, THEN conjunct2, THEN conjunct2, THEN conjunct2, THEN conjunct2, THEN
        conjunct1, THEN mp, OF h12]
  have h12': "has_creds numeric_pass_up \<and> signature_json sample_runtime derived_unverified [create_request
        sample_L1, derive_request sample_L1] numeric_pass_up = Inr (hmacB64 sample_hmac ''QUJD''
        (''GET/auth/api-keys'' @ tsSec (now_at derived_unverified (length [create_request sample_L1,
        derive_request sample_L1])))) \<and> respond derived_unverified (length [create_request sample_L1,
        derive_request sample_L1]) (verify_of_json sample_runtime derived_unverified [create_request sample_L1,
        derive_request sample_L1] (JStr ''0xAB'') numeric_pass_up (hmacB64 sample_hmac ''QUJD''
        (''GET/auth/api-keys'' @ tsSec (now_at derived_unverified (length [create_request sample_L1,
        derive_request sample_L1]))))) = Resp 401 (Inr ''denied'') \<and> \<not> http_ok 401
        \<and> (key_suffix numeric_pass_up = Inl ''passphrase.slice is not a function''
        \<or> key_suffix numeric_pass_up = Inr (JStr ''123456'')
        \<and> pass_suffix numeric_pass_up = Inl ''passphrase.slice is not a function'')"
    using no by (simp add: sample_has_creds sample_signature sample_suffixes derived_unverified_def
          scripted_respond)
  note c12' = provisioning_outcomes [where w = derived_unverified
        and sent = "[create_request sample_L1, derive_request sample_L1]" and address = "JStr ''0xAB''"
        and up = numeric_pass_up and sig = "hmacB64 sample_hmac ''QUJD'' (''GET/auth/api-keys'' @ tsSec (now_at
        derived_unverified (length [create_request sample_L1, derive_request sample_L1])))" and vs = 401
        and vt = "''denied''" and ks = "JStr ''123456''" and msg = "''passphrase.slice is not a function''"
        and rt = sample_runtime and cfg = sample_config
        and st = empty_tuples, THEN conjunct2, THEN conjunct2, THEN conjunct2, THEN conjunct2, THEN conjunct2,
        THEN conjunct2, THEN conjunct2, THEN conjunct2, THEN conjunct2, THEN conjunct2, THEN conjunct2, THEN
        conjunct1, THEN mp, OF h12']
  have h13: "has_creds creds_up \<and> signature_json sample_runtime created_verified [create_request sample_L1]
        creds_up = Inr (hmacB64 sample_hmac ''QUJD'' (''GET/auth/api-keys'' @ tsSec (now_at created_verified
        (length [create_request sample_L1])))) \<and> respond created_verified (length [create_request
        sample_L1]) (verify_of_json sample_runtime created_verified [create_request sample_L1] (JNum 12345678)
        creds_up (hmacB64 sample_hmac ''QUJD'' (''GET/auth/api-keys'' @ tsSec (now_at created_verified (length
        [create_request sample_L1]))))) = Resp 200 (Inr ''{}'') \<and> http_ok 200
        \<and> lower_of ''eoa'' (JNum 12345678) = Inl ''eoa.toLowerCase is not a function''"
    using yes by (simp add: sample_has_creds sample_signature created_verified_def scripted_respond
          lower_of_def)
  note c13 = provisioning_outcomes [where w = created_verified and sent = "[create_request sample_L1]"
        and address = "JNum 12345678" and up = creds_up
        and sig = "hmacB64 sample_hmac ''QUJD'' (''GET/auth/api-keys'' @ tsSec (now_at created_verified (length
        [create_request sample_L1])))" and vs = 200 and vt = "''{}''"
        and msg = "''eoa.toLowerCase is not a function''" and rt = sample_runtime and cfg = sample_config
        and st = empty_tuples, THEN conjunct2, THEN conjunct2, THEN conjunct2, THEN conjunct2, THEN conjunct2,
        THEN conjunct2, THEN conjunct2, THEN conjunct2, THEN conjunct2, THEN conjunct2, THEN conjunct2, THEN
        conjunct2, THEN conjunct1, THEN mp, OF h13]
  have h14: "has_creds creds_up \<and> signature_json sample_runtime created_verified [create_request sample_L1]
        creds_up = Inr (hmacB64 sample_hmac ''QUJD'' (''GET/auth/api-keys'' @ tsSec (now_at created_verified
        (length [create_request sample_L1])))) \<and> respond created_verified (length [create_request
        sample_L1]) (verify_of_json sample_runtime created_verified [create_request sample_L1] (JStr ''0xAB'')
        creds_up (hmacB64 sample_hmac ''QUJD'' (''GET/auth/api-keys'' @ tsSec (now_at created_verified (length
        [create_request sample_L1]))))) = Resp 200 (Inr ''{}'') \<and> http_ok 200
        \<and> JStr ''0xAB'' = JStr ''0xAB''"
    using yes by (simp add: sample_has_creds sample_signature created_verified_def scripted_respond)
  note c14 = provisioning_outcomes [where w = created_verified and sent = "[create_request sample_L1]"
        and address = "JStr ''0xAB''" and a = "''0xAB''" and up = creds_up
        and sig = "hmacB64 sample_hmac ''QUJD'' (''GET/auth/api-keys'' @ tsSec (now_at created_verified (length
        [create_request sample_L1])))" and vs = 200 and vt = "''{}''" and ks = "JStr ''123456''"
        and ps = "JStr ''ss-1''" and rt = sample_runtime and cfg = sample_config
        and st = empty_tuples, THEN conjunct2, THEN conjunct2, THEN conjunct2, THEN conjunct2, THEN conjunct2,
        THEN conjunct2, THEN conjunct2, THEN conjunct2, THEN conjunct2, THEN conjunct2, THEN conjunct2, THEN
        conjunct2, THEN conjunct2, THEN conjunct1, THEN mp, OF h14]
  have h14': "has_creds numeric_key_up \<and> signature_json sample_runtime numeric_key_verified [create_request
        sample_L1] numeric_key_up = Inr (hmacB64 sample_hmac ''QUJD'' (''GET/auth/api-keys'' @ tsSec (now_at
        numeric_key_verified (length [create_request sample_L1]))))
        \<and> respond numeric_key_verified (length [create_request sample_L1]) (verify_of_json sample_runtime
        numeric_key_verified [create_request sample_L1] (JStr ''0xAB'') numeric_key_up (hmacB64 sample_hmac
        ''QUJD'' (''GET/auth/api-keys'' @ tsSec (now_at numeric_key_verified (length [create_request
        sample_L1]))))) = Resp 200 (Inr ''{}'') \<and> http_ok 200 \<and> JStr ''0xAB'' = JStr ''0xAB''"
    using yes by (simp add: sample_has_creds sample_signature numeric_key_verified_def scripted_respond)
  note c14' = provisioning_outcomes [where w = numeric_key_verified and sent = "[create_request sample_L1]"
        and address = "JStr ''0xAB''" and a = "''0xAB''" and up = numeric_key_up
        and sig = "hmacB64 sample_hmac ''QUJD'' (''GET/auth/api-keys'' @ tsSec (now_at numeric_key_verified
        (length [create_request sample_L1])))" and vs = 200 and vt = "''{}''" and ks = "JStr ''123456''"
        and msg = "''key.slice is not a function''" and rt = sample_runtime and cfg = sample_config
        and st = empty_tuples, THEN conjunct2, THEN conjunct2, THEN conjunct2, THEN conjunct2, THEN conjunct2,
        THEN conjunct2, THEN conjunct2, THEN conjunct2, THEN conjunct2, THEN conjunct2, THEN conjunct2, THEN
        conjunct2, THEN conjunct2, THEN conjunct1, THEN mp, OF h14']
  have written: "fst (snd (provision_json sample_runtime sample_config created_verified [] empty_tuples (JStr
        ''0xAB'') sample_L1)) \<noteq> empty_tuples"
    using c3 c14 by (simp add: sample_parsed empty_tuples_def fun_upd_idem_iff)
  note c16 = provisioning_outcomes [where w = created_verified and sent = "[]" and ?L1.0 = sample_L1
        and address = "JStr ''0xAB''" and rt = sample_runtime and cfg = sample_config
        and st = empty_tuples, THEN conjunct2, THEN conjunct2, THEN conjunct2, THEN conjunct2, THEN conjunct2,
        THEN conjunct2, THEN conjunct2, THEN conjunct2, THEN conjunct2, THEN conjunct2, THEN conjunct2, THEN
        conjunct2, THEN conjunct2, THEN conjunct2, THEN conjunct2, THEN mp, OF written]
  have c16': "\<exists>up'. fst (snd (provision_json sample_runtime sample_config created_verified []
        empty_tuples (JStr ''0xAB'') sample_L1)) = empty_tuples(rowKey sample_config ''0xAB'' \<mapsto>
        stored_tuple up' ''0xab'')"
    using c16 by (auto simp add: sample_lower)
  show ?thesis
    using c1 c2 c3 c4 c5 c5' c6 c7 c8 c9 c10 c11 c12 c12' c13 c14 c14' c16'
    by (simp add: b sample_parsed sample_suffixes sample_lower)
qed

lemma verify_and_store_ok:
  "opt_prop (Some (snd (fst (verify_and_store rt cfg w sent st address up)))) ''ok'' = Some (JBool True) \<Longrightarrow>
     fst (snd (verify_and_store rt cfg w sent st address up)) = st(rowKey cfg address \<mapsto> stored_row address up)"
  by (simp add: verify_and_store_cases RelayCrash_def split: if_splits outcome.splits sum.splits)

lemma provision_ok:
  assumes "opt_prop (Some (snd (fst (provision rt cfg w sent st address L1)))) ''ok'' = Some (JBool True)"
  shows "\<exists>up. fst (snd (provision rt cfg w sent st address L1)) = st(rowKey cfg address \<mapsto> stored_row address up)"
proof -
  from assms obtain up sent' where
    "provision rt cfg w sent st address L1 = verify_and_store rt cfg w sent' st address up"
    by (auto simp add: provision_cases RelayCrash_def split: outcome.splits sum.splits if_splits)
  then show ?thesis using assms verify_and_store_ok [of rt cfg w sent' st address up] by auto
qed

lemma authCreate_ok:
  assumes "opt_prop (Some (snd (fst (authCreate rt cfg w sent st key reqBody)))) ''ok'' = Some (JBool True)"
      and "parsed_body rt reqBody = Inr body"
  shows "okRelay cfg key"
    and "\<exists>up. fst (snd (authCreate rt cfg w sent st key reqBody))
               = st(rowKey cfg (text_field body ''address'') \<mapsto> stored_row (text_field body ''address'') up)"
proof -
  show k: "okRelay cfg key"
    using assms by (auto simp add: authCreate_def unauthorized_def split: if_splits)
  let ?a = "text_field body ''address''"
  have "\<exists>L1. authCreate rt cfg w sent st key reqBody = provision rt cfg w sent st ?a L1"
    using assms k by (auto simp add: authCreate_def Let_def split: if_splits)
  then obtain L1 where e: "authCreate rt cfg w sent st key reqBody = provision rt cfg w sent st ?a L1" by blast
  show "\<exists>up. fst (snd (authCreate rt cfg w sent st key reqBody)) = st(rowKey cfg ?a \<mapsto> stored_row ?a up)"
    using provision_ok [of rt cfg w sent st ?a L1] assms(1) by (simp add: e)
qed

lemma rowKey_case: "toLowerCase b = toLowerCase a \<Longrightarrow> rowKey cfg b = rowKey cfg a"
  by (simp add: rowKey_def)

lemma l2Sanity_found:
  "okRelay cfg key \<Longrightarrow> st (rowKey cfg b) = Some r \<Longrightarrow>
     snd (l2Sanity rt cfg w sent st key (Some b)) = sent @ [sanity_request rt r b (tsSec (now_at w (length sent)))]"
  by (simp add: l2Sanity_def Let_def fetch_text_def split: outcome.splits sum.splits)

lemma relayOrder_found:
  "okRelay cfg key \<Longrightarrow> parsed_body rt ob = Inr parsed \<Longrightarrow> st (rowKey cfg (order_address rt parsed)) = Some r \<Longrightarrow>
     snd (relayOrder rt cfg w sent st key ob)
       = sent @ [order_wire rt r (order_address rt parsed) (tsSec (now_at w (length sent)))
                   (case ob of BodyText x \<Rightarrow> x | BodyJson j \<Rightarrow> json_stringify rt j)]"
  by (simp add: relayOrder_def Let_def fetch_text_def split: outcome.splits sum.splits)

text \<open>
  Claim C10. After an auth-create request that was answered \<open>ok: true\<close> for the address
  \<open>A\<close>, the store holds one tuple under the key of \<open>A\<close>, and the key of every address \<open>B\<close>
  with the same lowercase form is that same key: the lookup for \<open>B\<close> gives the same
  tuple, whose owner is the lowercase form. An l2-sanity request for \<open>B\<close> therefore signs
  and sends its request with that tuple, and so does an order request whose body names
  \<open>B\<close>.
\<close>

theorem lookup_ignores_case:
  assumes ok: "opt_prop (Some (snd (fst (authCreate rt cfg w sent st key reqBody)))) ''ok'' = Some (JBool True)"
      and body: "parsed_body rt reqBody = Inr body"
      and same: "toLowerCase b = toLowerCase (text_field body ''address'')"
  shows "\<exists>r::row.
           fst (snd (authCreate rt cfg w sent st key reqBody)) (rowKey cfg (text_field body ''address'')) = Some r
         \<and> fst (snd (authCreate rt cfg w sent st key reqBody)) (rowKey cfg b) = Some r
         \<and> row_owner r = toLowerCase b
         \<and> snd (l2Sanity rt cfg w2 sent2 (fst (snd (authCreate rt cfg w sent st key reqBody))) key (Some b))
             = sent2 @ [sanity_request rt r b (tsSec (now_at w2 (length sent2)))]
         \<and> (parsed_body rt ob = Inr parsed \<and> order_address rt parsed = b \<longrightarrow>
             snd (relayOrder rt cfg w2 sent2 (fst (snd (authCreate rt cfg w sent st key reqBody))) key ob)
               = sent2 @ [order_wire rt r b (tsSec (now_at w2 (length sent2)))
                            (case ob of BodyText x \<Rightarrow> x | BodyJson j \<Rightarrow> json_stringify rt j)])"
proof -
  let ?a = "text_field body ''address''"
  let ?st = "fst (snd (authCreate rt cfg w sent st key reqBody))"
  from authCreate_ok [OF ok body] obtain up where
    k: "okRelay cfg key" and e: "?st = st(rowKey cfg ?a \<mapsto> stored_row ?a up)"
    by blast
  have kb: "rowKey cfg b = rowKey cfg ?a" using same by (rule rowKey_case)
  have a: "?st (rowKey cfg ?a) = Some (stored_row ?a up)" by (simp add: e)
  have b: "?st (rowKey cfg b) = Some (stored_row ?a up)" by (simp add: e kb)
  have o: "row_owner (stored_row ?a up) = toLowerCase b" by (simp add: stored_row_def same)
  have s: "snd (l2Sanity rt cfg w2 sent2 ?st key (Some b))
             = sent2 @ [sanity_request rt (stored_row ?a up) b (tsSec (now_at w2 (length sent2)))]"
    using k b by (rule l2Sanity_found)
  have p: "parsed_body rt ob = Inr parsed \<and> order_address rt parsed = b \<longrightarrow>
             snd (relayOrder rt cfg w2 sent2 ?st key ob)
               = sent2 @ [order_wire rt (stored_row ?a up) b (tsSec (now_at w2 (length sent2)))
                            (case ob of BodyText x \<Rightarrow> x | BodyJson j \<Rightarrow> json_stringify rt j)]"
    using relayOrder_found [of cfg key rt ob parsed ?st "stored_row ?a up" w2 sent2] k b by auto
  show ?thesis using a b o s p by blast
qed


text \<open>
  An instance: credentials are stored for \<open>0xAB\<close>, and both later handlers find them
  for \<open>0xab\<close>.
\<close>

theorem lookup_ignores_case_witness:
  "\<exists>r::row.
      fst (snd (authCreate sample_runtime sample_config created_verified [] empty_store (Some ''relay-key'')
                  (BodyJson sample_l1))) (rowKey sample_config ''0xAB'') = Some r
    \<and> fst (snd (authCreate sample_runtime sample_config created_verified [] empty_store (Some ''relay-key'')
                  (BodyJson sample_l1))) (rowKey sample_config ''0xab'') = Some r
    \<and> row_owner r = ''0xab''
    \<and> snd (l2Sanity sample_runtime sample_config closed_only_answer []
              (fst (snd (authCreate sample_runtime sample_config created_verified [] empty_store
                           (Some ''relay-key'') (BodyJson sample_l1))))
              (Some ''relay-key'') (Some ''0xab''))
        = [sanity_request sample_runtime r ''0xab'' (tsSec 1700000000000)]
    \<and> snd (relayOrder sample_runtime sample_config accepted_without_id []
              (fst (snd (authCreate sample_runtime sample_config created_verified [] empty_store
                           (Some ''relay-key'') (BodyJson sample_l1))))
              (Some ''relay-key'') (BodyText address_text))
        = [order_wire sample_runtime r ''0xab'' (tsSec 1700000000000) address_text]"
proof -
  have ok: "opt_prop (Some (snd (fst (authCreate sample_runtime sample_config created_verified [] empty_store
                                        (Some ''relay-key'') (BodyJson sample_l1))))) ''ok'' = Some (JBool True)"
    by (simp add: sample_authCreate provision_cases verify_and_store_cases created_verified_def
          scripted_respond http_ok_def sample_up_fields)
  have body: "parsed_body sample_runtime (BodyJson sample_l1) = Inr sample_l1"
    by (simp add: parsed_body_def)
  have addr: "text_field sample_l1 ''address'' = ''0xAB''"
    by (simp add: text_field_def sample_l1_def)
  have same: "toLowerCase ''0xab'' = toLowerCase (text_field sample_l1 ''address'')"
    by (simp add: addr toLowerCase_def lower_char_def)
  have low: "toLowerCase ''0xab'' = ''0xab''"
    by (simp add: toLowerCase_def lower_char_def)
  have ord: "parsed_body sample_runtime (BodyText address_text) = Inr (JObj [(''address'', JStr ''0xab'')])
             \<and> order_address sample_runtime (JObj [(''address'', JStr ''0xab'')]) = ''0xab''"
    by (simp add: parsed_body_def sample_simps order_address_def String_of_def)
  have t1: "now_at closed_only_answer 0 = 1700000000000"
    by (simp add: closed_only_answer_def scripted_def)
  have t2: "now_at accepted_without_id 0 = 1700000000000"
    by (simp add: accepted_without_id_def scripted_def)
  from lookup_ignores_case [OF ok body same, where ?w2.0 = closed_only_answer and ?sent2.0 = "[]"]
  obtain r :: row where
    r: "fst (snd (authCreate sample_runtime sample_config created_verified [] empty_store (Some ''relay-key'')
                  (BodyJson sample_l1))) (rowKey sample_config (text_field sample_l1 ''address'')) = Some r"
       "fst (snd (authCreate sample_runtime sample_config created_verified [] empty_store (Some ''relay-key'')
                  (BodyJson sample_l1))) (rowKey sample_config ''0xab'') = Some r"
       "row_owner r = toLowerCase ''0xab''"
       "snd (l2Sanity sample_runtime sample_config closed_only_answer []
              (fst (snd (authCreate sample_runtime sample_config created_verified [] empty_store
                           (Some ''relay-key'') (BodyJson sample_l1))))
              (Some ''relay-key'') (Some ''0xab''))
         = [] @ [sanity_request sample_runtime r ''0xab'' (tsSec (now_at closed_only_answer (length ([] :: request list))))]"
    by blast
  from lookup_ignores_case [OF ok body same, where ?w2.0 = accepted_without_id and ?sent2.0 = "[]"
         and ob = "BodyText address_text" and parsed = "JObj [(''address'', JStr ''0xab'')]"]
  obtain r' :: row where
    r': "fst (snd (authCreate sample_runtime sample_config created_verified [] empty_store (Some ''relay-key'')
                  (BodyJson sample_l1))) (rowKey sample_config ''0xab'') = Some r'"
        "parsed_body sample_runtime (BodyText address_text) = Inr (JObj [(''address'', JStr ''0xab'')])
           \<and> order_address sample_runtime (JObj [(''address'', JStr ''0xab'')]) = ''0xab'' \<longrightarrow>
         snd (relayOrder sample_runtime sample_config accepted_without_id []
              (fst (snd (authCreate sample_runtime sample_config created_verified [] empty_store
                           (Some ''relay-key'') (BodyJson sample_l1))))
              (Some ''relay-key'') (BodyText address_text))
         = [] @ [order_wire sample_runtime r' ''0xab'' (tsSec (now_at accepted_without_id (length ([] :: request list))))
                   (case BodyText address_text of BodyText x \<Rightarrow> x | BodyJson j \<Rightarrow> json_stringify sample_runtime j)]"
    by blast
  have "r' = r" using r(2) r'(1) by simp
  then show ?thesis
    using r r'(2) ord by (simp add: addr low t1 t2)
qed

section \<open>The typed handler as a reading of the handler on JSON values\<close>

lemma field_truthy:
  "text_or_falsy (opt_prop (Some up) name) \<Longrightarrow>
     truthy_opt (opt_prop (Some up) name) = (text_field up name \<noteq> [])"
  by (cases "opt_prop (Some up) name" rule: text_or_falsy.cases)
     (simp_all add: text_field_def truthy_opt_def)

lemma field_text:
  "text_or_falsy (opt_prop (Some up) name) \<Longrightarrow> text_field up name \<noteq> [] \<Longrightarrow>
     opt_prop (Some up) name = Some (JStr (text_field up name))"
  by (cases "opt_prop (Some up) name" rule: text_or_falsy.cases)
     (simp_all add: text_field_def truthy_opt_def)

lemma as_tuples_upd: "as_tuples (st(k \<mapsto> r)) = (as_tuples st)(k \<mapsto> as_tuple r)"
  by (rule ext) (simp add: as_tuples_def)

text \<open>
  On an answer whose credential fields are strings (or absent, or falsy) and for an
  address that is a string, the handler on JSON values gives the reply and the requests
  of the typed handler, and its store is the typed store read as tuples.
\<close>

lemma verify_and_store_typed:
  assumes "text_fields up"
  shows "verify_and_store_json rt cfg w sent (as_tuples st) (JStr address) up
           = (case verify_and_store rt cfg w sent st address up of
                (r, st', sent') \<Rightarrow> (r, as_tuples st', sent'))"
proof (cases "text_field up ''key'' = [] \<or> text_field up ''secret'' = [] \<or> text_field up ''passphrase'' = []")
  case True
  then have "\<not> has_creds up"
    using assms by (auto simp add: has_creds_def text_fields_def field_truthy)
  then show ?thesis using True by (simp add: verify_and_store_json_cases verify_and_store_cases)
next
  case False
  then have k: "opt_prop (Some up) ''key'' = Some (JStr (text_field up ''key''))"
        and s: "opt_prop (Some up) ''secret'' = Some (JStr (text_field up ''secret''))"
        and p: "opt_prop (Some up) ''passphrase'' = Some (JStr (text_field up ''passphrase''))"
    using assms by (simp_all add: text_fields_def field_text)
  have c: "has_creds up"
    using False assms by (simp add: has_creds_def text_fields_def field_truthy)
  have sg: "signature_json rt w sent up
              = Inr (hmacB64 (hmac_sha256 rt) (text_field up ''secret'')
                       (''GET/auth/api-keys'' @ tsSec (now_at w (length sent))))"
    by (simp add: signature_json_def s hmacB64_json_def)
  have rq: "verify_of rt w sent address up
            = verify_of_json rt w sent (JStr address) up
                (hmacB64 (hmac_sha256 rt) (text_field up ''secret'')
                   (''GET/auth/api-keys'' @ tsSec (now_at w (length sent))))"
    by (simp add: verify_of_json_def verify_of_def k p String_of_text Let_def)
  have sf: "key_suffix up = Inr (JStr (suffix 6 (text_field up ''key'')))"
           "pass_suffix up = Inr (JStr (suffix 4 (text_field up ''passphrase'')))"
    by (simp_all add: key_suffix_def pass_suffix_def k p slice_last_def)
  have lo: "lower_of ''eoa'' (JStr address) = Inr (toLowerCase address)" by (simp add: lower_of_def)
  have tu: "stored_tuple up (toLowerCase address) = as_tuple (stored_row address up)"
    by (simp add: stored_tuple_def as_tuple_def stored_row_def k s p)
  show ?thesis
    using False c
    by (simp add: verify_and_store_json_cases verify_and_store_cases sg rq sf lo tu fetch_text_eq
          sent_info_json_def sent_info_def String_of_text as_tuples_upd
          split: outcome.splits sum.splits)
qed

lemma provision_typed:
  assumes "\<And>k req s t. respond w k req = Resp s (Inr t) \<Longrightarrow> text_fields (parse_or_raw rt t)"
  shows "provision_json rt cfg w sent (as_tuples st) (JStr address) L1
           = (case provision rt cfg w sent st address L1 of
                (r, st', sent') \<Rightarrow> (r, as_tuples st', sent'))"
  using assms
  by (simp add: provision_json_def provision_def fetch_text_eq verify_and_store_typed String_of_text
        split: outcome.splits sum.splits)

lemma authCreate_typed:
  assumes "\<And>k req s t. respond w k req = Resp s (Inr t) \<Longrightarrow> text_fields (parse_or_raw rt t)"
      and "\<And>body. parsed_body rt reqBody = Inr body \<Longrightarrow>
             text_or_falsy (opt_prop (Some body) ''address'')
             \<and> text_or_falsy (opt_prop (Some body) ''eip712Signature'')"
  shows "authCreate_json rt cfg w sent (as_tuples st) relayKey reqBody
           = (case authCreate rt cfg w sent st relayKey reqBody of
                (r, st', sent') \<Rightarrow> (r, as_tuples st', sent'))"
proof (cases "okRelay cfg relayKey")
  case False
  then show ?thesis by (simp add: authCreate_json_def authCreate_def)
next
  case True
  show ?thesis
  proof (cases "parsed_body rt reqBody")
    case (Inl msg)
    then show ?thesis using True by (simp add: authCreate_json_def authCreate_def)
  next
    case (Inr body)
    from assms(2) [OF Inr] have
      a: "text_or_falsy (opt_prop (Some body) ''address'')" and
      e: "text_or_falsy (opt_prop (Some body) ''eip712Signature'')" by simp_all
    show ?thesis
    proof (cases "text_field body ''address'' = [] \<or> \<not> truthy_opt (opt_prop (Some body) ''timestamp'')
                    \<or> text_field body ''eip712Signature'' = []")
      case True
      then show ?thesis
        using \<open>okRelay cfg relayKey\<close> Inr a e
        by (auto simp add: authCreate_json_def authCreate_def Let_def field_truthy)
    next
      case False
      then have fa: "opt_prop (Some body) ''address'' = Some (JStr (text_field body ''address''))"
            and fe: "opt_prop (Some body) ''eip712Signature'' = Some (JStr (text_field body ''eip712Signature''))"
        using a e by (simp_all add: field_text)
      show ?thesis
        using False \<open>okRelay cfg relayKey\<close> Inr a e
        by (simp add: authCreate_json_def authCreate_def Let_def fa fe String_of_text truthy_opt_def
              provision_typed [OF assms(1)])
    qed
  qed
qed

text \<open>
  On every JSON value the handler answers \<open>ok: true\<close> only after it has written a tuple
  under the key of an address that is a string, and every address with the same
  lowercase form reads that tuple.
\<close>

lemma verify_and_store_json_ok:
  assumes "opt_prop (Some (snd (fst (verify_and_store_json rt cfg w sent st address up)))) ''ok'' = Some (JBool True)"
  shows "\<exists>a. address = JStr a
           \<and> fst (snd (verify_and_store_json rt cfg w sent st address up))
               = st(rowKey cfg a \<mapsto> stored_tuple up (toLowerCase a))"
  using assms
  by (cases address)
     (auto simp add: verify_and_store_json_cases RelayCrash_def lower_of_def String_of_text
        split: if_splits sum.splits prod.splits)

lemma provision_json_ok:
  assumes "opt_prop (Some (snd (fst (provision_json rt cfg w sent st address L1)))) ''ok'' = Some (JBool True)"
  shows "\<exists>a up. address = JStr a
           \<and> fst (snd (provision_json rt cfg w sent st address L1))
               = st(rowKey cfg a \<mapsto> stored_tuple up (toLowerCase a))"
proof -
  from assms obtain up sent' where
    e: "provision_json rt cfg w sent st address L1 = verify_and_store_json rt cfg w sent' st address up"
    by (auto simp add: provision_json_def fetch_text_def RelayCrash_def split: outcome.splits sum.splits if_splits)
  from verify_and_store_json_ok [of rt cfg w sent' st address up] assms show ?thesis
    unfolding e by blast
qed

lemma authCreate_json_ok:
  assumes "opt_prop (Some (snd (fst (authCreate_json rt cfg w sent st key reqBody)))) ''ok'' = Some (JBool True)"
  shows "\<exists>a up. fst (snd (authCreate_json rt cfg w sent st key reqBody))
                    = st(rowKey cfg a \<mapsto> stored_tuple up (toLowerCase a))
               \<and> (\<forall>b. toLowerCase b = toLowerCase a \<longrightarrow>
                      fst (snd (authCreate_json rt cfg w sent st key reqBody)) (rowKey cfg b)
                        = Some (stored_tuple up (toLowerCase a)))"
proof -
  from assms obtain address L1 where
    e: "authCreate_json rt cfg w sent st key reqBody = provision_json rt cfg w sent st address L1"
    by (auto simp add: authCreate_json_def unauthorized_def RelayCrash_def Let_def split: if_splits sum.splits)
  from provision_json_ok [of rt cfg w sent st address L1] assms obtain a up where
    s: "fst (snd (provision_json rt cfg w sent st address L1)) = st(rowKey cfg a \<mapsto> stored_tuple up (toLowerCase a))"
    unfolding e by blast
  have "\<forall>b. toLowerCase b = toLowerCase a \<longrightarrow>
          (st(rowKey cfg a \<mapsto> stored_tuple up (toLowerCase a))) (rowKey cfg b) = Some (stored_tuple up (toLowerCase a))"
    by (simp add: rowKey_def)
  with s have "fst (snd (provision_json rt cfg w sent st address L1))
                    = st(rowKey cfg a \<mapsto> stored_tuple up (toLowerCase a))
               \<and> (\<forall>b. toLowerCase b = toLowerCase a \<longrightarrow>
                      fst (snd (provision_json rt cfg w sent st address L1)) (rowKey cfg b)
                        = Some (stored_tuple up (toLowerCase a)))"
    by simp
  then show ?thesis unfolding e by blast
qed

end
